theory Spec2Isabelle
  imports Main "HOL-Library.AList" "HOL-Library.Sublist"
begin

section \<open>Schema inference of ndc-nodejs-lambda (src/typescript.ts)\<close>

text \<open>
  The development embeds the schema inference of \<^verbatim>\<open>src/typescript.ts\<close>: the walk from the
  exported functions of a source file down to scalar, array, nullable and object types,
  the naming of object types, and the collection of errors and warnings.

  The TypeScript compiler is not part of the repository. Its answers are taken as they
  are: a type handle is a number, and the type checker is a function from handles to a
  record of everything \<^verbatim>\<open>typescript.ts\<close> asks about a type. A JavaScript object used as a
  dictionary is the association list of its own properties in insertion order, read and
  written as a plain object is (see below), strings are lists of characters, a
  \<^verbatim>\<open>throw\<close> is the value \<open>Thrown\<close>.
\<close>

subsection \<open>Strings\<close>

fun join :: "string \<Rightarrow> string list \<Rightarrow> string" where
  "join sep [] = []"
| "join sep [x] = x"
| "join sep (x # y # ys) = x @ sep @ join sep (y # ys)"

definition isAsciiLetter :: "char \<Rightarrow> bool" where
  "isAsciiLetter c =
     (let n = (of_char c :: nat) in (65 \<le> n \<and> n \<le> 90) \<or> (97 \<le> n \<and> n \<le> 122))"

definition isAsciiDigit :: "char \<Rightarrow> bool" where
  "isAsciiDigit c = (let n = (of_char c :: nat) in 48 \<le> n \<and> n \<le> 57)"

text \<open>\<^verbatim>\<open>s.replace(pat, '')\<close> with a string pattern: the first occurrence of \<open>pat\<close> is removed.\<close>

fun replaceFirst :: "string \<Rightarrow> string \<Rightarrow> string" where
  "replaceFirst pat [] = []"
| "replaceFirst pat (c # cs) =
     (if prefix pat (c # cs) then drop (length pat) (c # cs) else c # replaceFirst pat cs)"

text \<open>\<^verbatim>\<open>s.replace(/\.ts$/, '')\<close>: a trailing \<^verbatim>\<open>.ts\<close> is removed.\<close>

definition stripTsSuffix :: "string \<Rightarrow> string" where
  "stripTsSuffix s = (if suffix ''.ts'' s then take (length s - 3) s else s)"

text \<open>\<^verbatim>\<open>s.trim()\<close> on the ASCII white space.\<close>

definition isWhiteSpace :: "char \<Rightarrow> bool" where
  "isWhiteSpace c = ((of_char c :: nat) \<in> {9, 10, 11, 12, 13, 32})"

definition trim :: "string \<Rightarrow> string" where
  "trim s = rev (dropWhile isWhiteSpace (rev (dropWhile isWhiteSpace s)))"

definition gqlName :: "string \<Rightarrow> string" where
  "gqlName n =
     (let n1 = (case n of [] \<Rightarrow> [] | c # cs \<Rightarrow> if isAsciiLetter c then c # cs else cs)
      in map (\<lambda>c. if isAsciiDigit c \<or> isAsciiLetter c then c else CHR ''_'') n1)"

subsection \<open>The schema (the shapes \<^verbatim>\<open>typescript.ts\<close> builds)\<close>

text \<open>
  Modelled from the spec: \<^verbatim>\<open>./schema\<close> is imported by \<^verbatim>\<open>typescript.ts\<close> and is not among the
  sources; the types below are the object literals that \<^verbatim>\<open>typescript.ts\<close> builds and the
  data model of the specification. The members of \<open>NullOrUndefinability\<close> are taken to
  be truthy values.
\<close>

datatype NullOrUndefinability = AcceptsNullOnly | AcceptsUndefinedOnly | AcceptsEither

datatype NamedKind = Scalar | Object

datatype TypeDefinition =
    ArrayType TypeDefinition
  | NullableType TypeDefinition NullOrUndefinability
  | NamedType string NamedKind

record ObjectTypeDefinition =
  properties :: "(string \<times> TypeDefinition) list"

type_synonym ObjectTypeDefinitions = "(string \<times> ObjectTypeDefinition) list"
type_synonym ScalarTypeDefinitions = "(string \<times> unit) list"

datatype FunctionNdcKind = Function | Procedure

record ArgumentDefinition =
  argumentName :: string
  argDescription :: "string option"
  argType :: TypeDefinition

record FunctionDefinition =
  description :: "string option"
  ndcKind :: FunctionNdcKind
  arguments :: "ArgumentDefinition list"
  resultType :: TypeDefinition

subsection \<open>What the type checker answers\<close>

type_synonym tid = nat

record ts_symbol =
  symName :: string
  declarations :: "string list"
    \<comment> \<open>\<^verbatim>\<open>(symbol.declarations ?? []).map(d => d.getSourceFile().fileName)\<close>\<close>

record ts_type =
  typeToString :: string
  isTypeReference :: bool
  getSymbol :: "ts_symbol option"
  getTypeArguments :: "tid list"
  isObjectType :: bool
  flagClass :: bool
  flagAnonymous :: bool
  flagInterface :: bool
  targetFlagInterface :: bool
  isIntrinsicVoidType :: bool
  isArrayType :: bool
  isIntrinsicBooleanType :: bool
  isIntrinsicStringType :: bool
  isIntrinsicNumberType :: bool
  isIntrinsicNullType :: bool
  isIntrinsicUndefinedType :: bool
  isUnion :: bool
  isIntersectionType :: bool
  types :: "tid list"
  aliasSymbol :: bool
  getProperties :: "(string \<times> tid) list"
    \<comment> \<open>each property symbol's name with \<^verbatim>\<open>typeChecker.getTypeOfSymbol\<close> of it\<close>

text \<open>
  The read-only part of \<^verbatim>\<open>TypeDerivationContext\<close>, with \<^verbatim>\<open>path.dirname\<close> of
  \<^verbatim>\<open>node:path\<close>, which is not part of the repository either.
\<close>

record ts_env =
  typeChecker :: "tid \<Rightarrow> ts_type"
  functionsFilePath :: string
  pathDirname :: "string \<Rightarrow> string"

text \<open>The two registries of \<^verbatim>\<open>TypeDerivationContext\<close>: the part that is mutated.\<close>

record TypeDerivationContext =
  objectTypeDefinitions :: ObjectTypeDefinitions
  scalarTypeDefinitions :: ScalarTypeDefinitions

datatype exn = Error string | TypeError

subsection \<open>Type paths and generated names\<close>

datatype TypePathSegment =
    FunctionParameter string string
  | FunctionReturn string
  | ObjectProperty string string
  | ArraySegment

fun typePathSegmentToString :: "TypePathSegment \<Rightarrow> string" where
  "typePathSegmentToString (FunctionParameter functionName parameterName) =
     ''function '' @ [CHR 0x27] @ functionName @ [CHR 0x27] @ '' parameter '' @
     [CHR 0x27] @ parameterName @ [CHR 0x27]"
| "typePathSegmentToString (FunctionReturn functionName) =
     ''function '' @ [CHR 0x27] @ functionName @ [CHR 0x27] @ '' return value''"
| "typePathSegmentToString (ObjectProperty typeName propertyName) =
     ''type '' @ [CHR 0x27] @ typeName @ [CHR 0x27] @ '' property '' @
     [CHR 0x27] @ propertyName @ [CHR 0x27]"
| "typePathSegmentToString ArraySegment = ''array type''"

definition typePathToString :: "TypePathSegment list \<Rightarrow> string" where
  "typePathToString segments = join '', '' (map typePathSegmentToString segments)"

fun typeNameSegment :: "TypePathSegment \<Rightarrow> string" where
  "typeNameSegment (FunctionParameter functionName parameterName) =
     functionName @ ''_arguments_'' @ parameterName"
| "typeNameSegment (FunctionReturn functionName) = functionName @ ''_output''"
| "typeNameSegment (ObjectProperty typeName propertyName) =
     ''field_'' @ [CHR 0x27] @ propertyName"
| "typeNameSegment ArraySegment = ''array''"

definition generateTypeNameFromTypePath :: "TypePathSegment list \<Rightarrow> string" where
  "generateTypeNameFromTypePath typePath = join ''_'' (map typeNameSegment typePath)"

subsection \<open>Name qualification\<close>

definition orElse :: "'a option \<Rightarrow> 'a \<Rightarrow> 'a" where
  "orElse x d = (case x of Some v \<Rightarrow> v | None \<Rightarrow> d)"

definition qualifyTypeName ::
  "ts_env \<Rightarrow> tid \<Rightarrow> TypePathSegment list \<Rightarrow> string option \<Rightarrow> exn + string" where
  "qualifyTypeName E tsType typePath name =
     (let ty = typeChecker E tsType;
          symbol0 = getSymbol ty;
          symbol1 =
            (if symbol0 = None \<and> (isUnion ty \<or> isIntersectionType ty)
             then (case types ty of
                     [] \<Rightarrow> Inl TypeError
                   | t0 # _ \<Rightarrow> Inr (getSymbol (typeChecker E t0)))
             else Inr symbol0)
      in case symbol1 of
           Inl e \<Rightarrow> Inl e
         | Inr None \<Rightarrow>
             Inl (Error (''Couldn't find symbol for type at '' @ typePathToString typePath))
         | Inr (Some symbol) \<Rightarrow>
             (case declarations symbol of
                [] \<Rightarrow>
                  Inl (Error (''Couldn't find any declarations for type '' @
                              orElse name ''null''))
              | where # _ \<Rightarrow>
                  (let short = stripTsSuffix
                         (replaceFirst (pathDirname E (functionsFilePath E) @ ''/'') where);
                       nameOrGeneratedName = orElse name (generateTypeNameFromTypePath typePath)
                   in if functionsFilePath E = where then Inr nameOrGeneratedName
                      else if length short < length where
                      then Inr (gqlName short @ ''_'' @ nameOrGeneratedName)
                      else Inl (Error (''Unsupported location for type '' @
                                       nameOrGeneratedName @ '' in '' @ where)))))"

subsection \<open>Classifying a type\<close>

definition unwrapPromiseType :: "ts_env \<Rightarrow> tid \<Rightarrow> tid option" where
  "unwrapPromiseType E tsType =
     (let ty = typeChecker E tsType
      in if isTypeReference ty \<and> map_option symName (getSymbol ty) = Some ''Promise''
         then (case getTypeArguments ty of [a] \<Rightarrow> Some a | _ \<Rightarrow> None)
         else None)"

definition unwrapNullableType :: "ts_env \<Rightarrow> tid \<Rightarrow> (tid \<times> NullOrUndefinability) option" where
  "unwrapNullableType E t =
     (let ty = typeChecker E t
      in if \<not> isUnion ty then None
         else
           (let isNullable =
                  (find (\<lambda>m. isIntrinsicNullType (typeChecker E m)) (types ty) \<noteq> None);
                isUndefined =
                  (find (\<lambda>m. isIntrinsicUndefinedType (typeChecker E m)) (types ty) \<noteq> None);
                nullOrUndefinability =
                  (if isNullable
                   then (if isUndefined then Some AcceptsEither else Some AcceptsNullOnly)
                   else (if isUndefined then Some AcceptsUndefinedOnly else None));
                typesWithoutNullAndUndefined =
                  filter (\<lambda>m. \<not> isIntrinsicNullType (typeChecker E m) \<and>
                               \<not> isIntrinsicUndefinedType (typeChecker E m)) (types ty)
            in case (typesWithoutNullAndUndefined, nullOrUndefinability) of
                 ([t1], Some n) \<Rightarrow> Some (t1, n)
               | _ \<Rightarrow> None))"

record ObjectTypeInfo =
  generatedTypeName :: string
  members :: "(string \<times> tid) list"

text \<open>\<^verbatim>\<open>new Map(entries)\<close>: a repeated key keeps its first position and takes the last value.\<close>

definition getMembers :: "(string \<times> tid) list \<Rightarrow> (string \<times> tid) list" where
  "getMembers propertySymbols = foldl (\<lambda>m (k, v). AList.update k v m) [] propertySymbols"

definition getObjectTypeInfo ::
  "ts_env \<Rightarrow> tid \<Rightarrow> TypePathSegment list \<Rightarrow> exn + ObjectTypeInfo option" where
  "getObjectTypeInfo E tsType typePath =
     (let ty = typeChecker E tsType;
          aliasName = (if aliasSymbol ty then Some (typeToString ty) else None);
          symbolName = orElse (map_option symName (getSymbol ty))
                              (generateTypeNameFromTypePath typePath);
          qualified =
            (case qualifyTypeName E tsType typePath aliasName of
               Inl e \<Rightarrow> Inl e
             | Inr n \<Rightarrow>
                 Inr (Some \<lparr>generatedTypeName = n, members = getMembers (getProperties ty)\<rparr>))
      in if isObjectType ty \<and> flagAnonymous ty then qualified
         else if isObjectType ty \<and> flagInterface ty
         then Inr (Some \<lparr>generatedTypeName = symbolName,
                          members = getMembers (getProperties ty)\<rparr>)
         else if isTypeReference ty \<and> targetFlagInterface ty \<and> \<not> isArrayType ty \<and>
                 map_option symName (getSymbol ty) \<noteq> Some ''Promise''
         then Inr (Some \<lparr>generatedTypeName = symbolName,
                          members = getMembers (getProperties ty)\<rparr>)
         else if isIntersectionType ty then qualified
         else Inr None)"

subsection \<open>Plain objects used as dictionaries\<close>

text \<open>
  The two registries and the two maps of the result are plain objects, created as
  \<^verbatim>\<open>{}\<close>. The association list holds the own properties of the object. A plain object
  inherits the members of \<^verbatim>\<open>Object.prototype\<close>, so \<^verbatim>\<open>obj[key]\<close> is truthy when \<open>key\<close> is
  an own property (every value stored here is an object) and also when \<open>key\<close> is the name
  of one of these members, which are functions, or \<^verbatim>\<open>__proto__\<close>, which reads as the
  prototype. The assignment \<^verbatim>\<open>obj[key] = value\<close> sets the own property \<open>key\<close>, new
  properties coming last; for \<^verbatim>\<open>__proto__\<close> it calls the inherited setter instead, which
  makes the value the prototype of the object and adds no own property.
\<close>

definition objectPrototypeNames :: "string list" where
  "objectPrototypeNames =
     [''constructor'', ''__defineGetter__'', ''__defineSetter__'', ''hasOwnProperty'',
      ''__lookupGetter__'', ''__lookupSetter__'', ''isPrototypeOf'',
      ''propertyIsEnumerable'', ''toString'', ''valueOf'', ''__proto__'',
      ''toLocaleString'']"

definition keyIsTruthy :: "(string \<times> 'v) list \<Rightarrow> string \<Rightarrow> bool" where
  "keyIsTruthy obj key = (map_of obj key \<noteq> None \<or> key \<in> set objectPrototypeNames)"

definition assignKey :: "string \<Rightarrow> 'v \<Rightarrow> (string \<times> 'v) list \<Rightarrow> (string \<times> 'v) list" where
  "assignKey key v obj = (if key = ''__proto__'' then obj else AList.update key v obj)"

subsection \<open>The derivation of a type\<close>

definition MAX_TYPE_DERIVATION_RECURSION :: nat where
  "MAX_TYPE_DERIVATION_RECURSION = 20"

datatype DeriveSchemaTypeResult =
    TypeResult TypeDefinition "string list"
  | ErrorsResult "string list"

text \<open>
  A call either throws, and the pass is over, or returns a value together with the
  registries as the call left them.
\<close>

datatype 'a outcome = Thrown exn | Returned 'a TypeDerivationContext

text \<open>
  The scalar step assigns to one of three literal keys, none of them \<^verbatim>\<open>__proto__\<close>: the
  assignment sets the own property.
\<close>

definition deriveSchemaTypeIfScalarType ::
  "ts_env \<Rightarrow> tid \<Rightarrow> TypeDerivationContext \<Rightarrow>
     DeriveSchemaTypeResult option \<times> TypeDerivationContext" where
  "deriveSchemaTypeIfScalarType E tsType context =
     (let ty = typeChecker E tsType
      in if isIntrinsicBooleanType ty
         then (Some (TypeResult (NamedType ''Boolean'' Scalar) []),
               context\<lparr>scalarTypeDefinitions :=
                 AList.update ''Boolean'' () (scalarTypeDefinitions context)\<rparr>)
         else if isIntrinsicStringType ty
         then (Some (TypeResult (NamedType ''String'' Scalar) []),
               context\<lparr>scalarTypeDefinitions :=
                 AList.update ''String'' () (scalarTypeDefinitions context)\<rparr>)
         else if isIntrinsicNumberType ty
         then (Some (TypeResult (NamedType ''Float'' Scalar) []),
               context\<lparr>scalarTypeDefinitions :=
                 AList.update ''Float'' () (scalarTypeDefinitions context)\<rparr>)
         else (None, context))"

text \<open>
  The recursion of \<^verbatim>\<open>deriveSchemaTypeForTsType\<close> through its three recursive handlers.
  \<open>derivePropertyTypes\<close> is the \<^verbatim>\<open>flatMap\<close> over the members in
  \<^verbatim>\<open>deriveSchemaTypeIfObjectType\<close>, with the arrays \<^verbatim>\<open>errors\<close>, \<^verbatim>\<open>warnings\<close> and the
  properties collected so far as loop state.
\<close>

function
  deriveSchemaTypeForTsType ::
    "ts_env \<Rightarrow> tid \<Rightarrow> TypePathSegment list \<Rightarrow> TypeDerivationContext \<Rightarrow> nat \<Rightarrow>
       DeriveSchemaTypeResult outcome"
and deriveSchemaTypeIfTsArrayType ::
    "ts_env \<Rightarrow> tid \<Rightarrow> TypePathSegment list \<Rightarrow> TypeDerivationContext \<Rightarrow> nat \<Rightarrow>
       DeriveSchemaTypeResult option outcome"
and deriveSchemaTypeIfNullableType ::
    "ts_env \<Rightarrow> tid \<Rightarrow> TypePathSegment list \<Rightarrow> TypeDerivationContext \<Rightarrow> nat \<Rightarrow>
       DeriveSchemaTypeResult option outcome"
and deriveSchemaTypeIfObjectType ::
    "ts_env \<Rightarrow> tid \<Rightarrow> TypePathSegment list \<Rightarrow> TypeDerivationContext \<Rightarrow> nat \<Rightarrow>
       DeriveSchemaTypeResult option outcome"
and derivePropertyTypes ::
    "ts_env \<Rightarrow> string \<Rightarrow> (string \<times> tid) list \<Rightarrow> TypePathSegment list \<Rightarrow>
       string list \<Rightarrow> string list \<Rightarrow> (string \<times> TypeDefinition) list \<Rightarrow>
       TypeDerivationContext \<Rightarrow> nat \<Rightarrow>
       (string list \<times> string list \<times> (string \<times> TypeDefinition) list) outcome"
where
  "deriveSchemaTypeForTsType E tsType typePath context recursionDepth =
     (if recursionDepth > MAX_TYPE_DERIVATION_RECURSION
      then Thrown (Error (''Schema inference validation exceeded depth 20 for type '' @
                          typeToString (typeChecker E tsType)))
      else if unwrapPromiseType E tsType \<noteq> None
      then Returned (ErrorsResult
             [''Promise types are not supported, but one was encountered in '' @
              typePathToString typePath @ ''.'']) context
      else if isObjectType (typeChecker E tsType) \<and> flagClass (typeChecker E tsType)
      then Returned (ErrorsResult
             [''Class types are not supported, but one was encountered in '' @
              typePathToString typePath]) context
      else if isIntrinsicVoidType (typeChecker E tsType)
      then Returned (ErrorsResult
             [''The void type is not supported, but one was encountered in '' @
              typePathToString typePath]) context
      else
        (case deriveSchemaTypeIfTsArrayType E tsType typePath context recursionDepth of
           Thrown e \<Rightarrow> Thrown e
         | Returned (Some r) c1 \<Rightarrow> Returned r c1
         | Returned None c1 \<Rightarrow>
             (case deriveSchemaTypeIfScalarType E tsType c1 of
                (Some r, c2) \<Rightarrow> Returned r c2
              | (None, c2) \<Rightarrow>
                  (case deriveSchemaTypeIfNullableType E tsType typePath c2 recursionDepth of
                     Thrown e \<Rightarrow> Thrown e
                   | Returned (Some r) c3 \<Rightarrow> Returned r c3
                   | Returned None c3 \<Rightarrow>
                       (case deriveSchemaTypeIfObjectType E tsType typePath c3
                               recursionDepth of
                          Thrown e \<Rightarrow> Thrown e
                        | Returned (Some r) c4 \<Rightarrow> Returned r c4
                        | Returned None c4 \<Rightarrow>
                            Returned (ErrorsResult [''fallback'']) c4)))))"
| "deriveSchemaTypeIfTsArrayType E tsType typePath context recursionDepth =
     (if isArrayType (typeChecker E tsType) \<and> isTypeReference (typeChecker E tsType)
      then (case getTypeArguments (typeChecker E tsType) of
              [innerType] \<Rightarrow>
                (case deriveSchemaTypeForTsType E innerType (typePath @ [ArraySegment])
                        context (recursionDepth + 1) of
                   Thrown e \<Rightarrow> Thrown e
                 | Returned (ErrorsResult es) c \<Rightarrow> Returned (Some (ErrorsResult es)) c
                 | Returned (TypeResult td ws) c \<Rightarrow>
                     Returned (Some (TypeResult (ArrayType td) ws)) c)
            | _ \<Rightarrow> Returned None context)
      else Returned None context)"
| "deriveSchemaTypeIfNullableType E tsType typePath context recursionDepth =
     (case unwrapNullableType E tsType of
        None \<Rightarrow> Returned None context
      | Some (notNullableType, nullOrUndefinability) \<Rightarrow>
          (case deriveSchemaTypeForTsType E notNullableType typePath context
                  (recursionDepth + 1) of
             Thrown e \<Rightarrow> Thrown e
           | Returned (ErrorsResult es) c \<Rightarrow> Returned (Some (ErrorsResult es)) c
           | Returned (TypeResult td ws) c \<Rightarrow>
               Returned (Some (TypeResult (NullableType td nullOrUndefinability) ws)) c))"
| "deriveSchemaTypeIfObjectType E tsType typePath context recursionDepth =
     (case getObjectTypeInfo E tsType typePath of
        Inl e \<Rightarrow> Thrown e
      | Inr None \<Rightarrow> Returned None context
      | Inr (Some info) \<Rightarrow>
          (if keyIsTruthy (objectTypeDefinitions context) (generatedTypeName info)
           then Returned (Some (TypeResult (NamedType (generatedTypeName info) Object) []))
                  context
           else
             (case derivePropertyTypes E (generatedTypeName info) (members info) typePath
                     [] [] []
                     (context\<lparr>objectTypeDefinitions :=
                        assignKey (generatedTypeName info) \<lparr>properties = []\<rparr>
                          (objectTypeDefinitions context)\<rparr>)
                     recursionDepth of
                Thrown e \<Rightarrow> Thrown e
              | Returned (errors, warnings, props) c \<Rightarrow>
                  (if errors = []
                   then Returned
                          (Some (TypeResult (NamedType (generatedTypeName info) Object)
                                   warnings))
                          (c\<lparr>objectTypeDefinitions :=
                             assignKey (generatedTypeName info) \<lparr>properties = props\<rparr>
                               (objectTypeDefinitions c)\<rparr>)
                   else Returned (Some (ErrorsResult errors)) c))))"
| "derivePropertyTypes E typeName [] typePath errors warnings props context
     recursionDepth = Returned (errors, warnings, props) context"
| "derivePropertyTypes E typeName ((propertyName, propertyType) # rest) typePath
     errors warnings props context recursionDepth =
     (case deriveSchemaTypeForTsType E propertyType
             (typePath @ [ObjectProperty typeName propertyName]) context
             (recursionDepth + 1) of
        Thrown e \<Rightarrow> Thrown e
      | Returned (ErrorsResult es) c \<Rightarrow>
          derivePropertyTypes E typeName rest typePath (errors @ es) warnings props c
            recursionDepth
      | Returned (TypeResult td ws) c \<Rightarrow>
          derivePropertyTypes E typeName rest typePath errors (warnings @ ws)
            (props @ [(propertyName, td)]) c recursionDepth)"
  by pat_completeness auto

termination
  apply (relation "measures
     [(\<lambda>x. case x of
          Inl (Inl (E, t, p, c, d)) \<Rightarrow> 2 * (21 - d)
        | Inl (Inr (E, t, p, c, d)) \<Rightarrow> 2 * (20 - d) + 1
        | Inr (Inl (E, t, p, c, d)) \<Rightarrow> 2 * (20 - d) + 1
        | Inr (Inr (Inl (E, t, p, c, d))) \<Rightarrow> 2 * (20 - d) + 1
        | Inr (Inr (Inr (E, n, ms, p, es, ws, ps, c, d))) \<Rightarrow> 2 * (20 - d) + 1),
      (\<lambda>x. case x of
          Inr (Inr (Inl (E, t, p, c, d))) \<Rightarrow> 1
        | _ \<Rightarrow> 0),
      (\<lambda>x. case x of
          Inr (Inr (Inr (E, n, ms, p, es, ws, ps, c, d))) \<Rightarrow> length ms
        | _ \<Rightarrow> 0)]")
  apply (auto simp: MAX_TYPE_DERIVATION_RECURSION_def)
  done

declare deriveSchemaTypeForTsType.simps [simp del]
declare deriveSchemaTypeIfTsArrayType.simps [simp del]
declare deriveSchemaTypeIfNullableType.simps [simp del]
declare deriveSchemaTypeIfObjectType.simps [simp del]

subsection \<open>The derivation of a function and of the schema\<close>

text \<open>
  What \<^verbatim>\<open>deriveFunctionSchema\<close> reads of a function declaration: the text of its name,
  the symbol at that name with its documentation, its JSDoc tag names and the call
  signatures of its type, and for every parameter the name, the documentation and the
  type at its value declaration (\<open>None\<close> when the parameter has no value declaration).
  \<^verbatim>\<open>throwError\<close> of \<^verbatim>\<open>./util\<close> is not among the sources; it is taken to throw an
  \<^verbatim>\<open>Error\<close> with the message it is given.
\<close>

record ts_parameter =
  getName :: string
  paramDocumentationComment :: string
  typeAtValueDeclaration :: "tid option"

record ts_signature =
  getParameters :: "ts_parameter list"
  getReturnType :: tid

record ts_function_symbol =
  getDocumentationComment :: string
  getJsDocTags :: "string list"
  getCallSignatures :: "ts_signature list"

datatype modifier = ExportKeyword | OtherModifier

record FunctionDeclaration =
  declName :: "string option"
  getSymbolAtLocation :: "ts_function_symbol option"
  modifiers :: "modifier list"

datatype ts_node = FunctionDeclarationNode FunctionDeclaration | OtherNode

record ts_source_file =
  fileName :: string
  children :: "ts_node list"

record DeriveFunctionSchemaResult =
  resultName :: string
  resultDefinition :: "FunctionDefinition option"
  resultIssues :: "string list"

definition nonEmpty :: "string \<Rightarrow> string option" where
  "nonEmpty s = (if s = [] then None else Some s)"

text \<open>
  The \<^verbatim>\<open>flatMap\<close> over the parameters in \<^verbatim>\<open>deriveFunctionSchema\<close>; \<^verbatim>\<open>issues\<close>,
  \<^verbatim>\<open>functionIsBroken\<close> and the arguments collected so far are the loop state.
\<close>

fun deriveParameters ::
  "ts_env \<Rightarrow> string \<Rightarrow> ts_parameter list \<Rightarrow> string list \<Rightarrow> bool \<Rightarrow>
     ArgumentDefinition list \<Rightarrow> TypeDerivationContext \<Rightarrow>
     (string list \<times> bool \<times> ArgumentDefinition list) outcome" where
  "deriveParameters E functionName [] issues functionIsBroken args context =
     Returned (issues, functionIsBroken, args) context"
| "deriveParameters E functionName (paramSymbol # rest) issues functionIsBroken args context =
     (case typeAtValueDeclaration paramSymbol of
        None \<Rightarrow>
          Thrown (Error (''Function '' @ [CHR 0x27] @ functionName @ [CHR 0x27] @
                         '' parameter '' @ [CHR 0x27] @ getName paramSymbol @ [CHR 0x27] @
                         '' didn't have a value declaration''))
      | Some paramType \<Rightarrow>
          (case deriveSchemaTypeForTsType E paramType
                  [FunctionParameter functionName (getName paramSymbol)] context 0 of
             Thrown e \<Rightarrow> Thrown e
           | Returned (ErrorsResult es) c \<Rightarrow>
               deriveParameters E functionName rest (issues @ es) True args c
           | Returned (TypeResult td ws) c \<Rightarrow>
               deriveParameters E functionName rest (issues @ ws) functionIsBroken
                 (args @ [\<lparr>argumentName = getName paramSymbol,
                            argDescription =
                              nonEmpty (trim (paramDocumentationComment paramSymbol)),
                            argType = td\<rparr>]) c))"

definition deriveFunctionSchema ::
  "ts_env \<Rightarrow> FunctionDeclaration \<Rightarrow> TypeDerivationContext \<Rightarrow>
     DeriveFunctionSchemaResult outcome" where
  "deriveFunctionSchema E functionDeclaration context =
     (case declName functionDeclaration of
        None \<Rightarrow> Thrown (Error ''Function didn't have an identifier'')
      | Some functionName \<Rightarrow>
     (case getSymbolAtLocation functionDeclaration of
        None \<Rightarrow>
          Thrown (Error (''Function '' @ [CHR 0x27] @ functionName @ [CHR 0x27] @
                         '' didn't have a symbol''))
      | Some functionSymbol \<Rightarrow>
     (let functionDescription = trim (getDocumentationComment functionSymbol);
          markedPureInJsDoc = (find (\<lambda>e. e = ''pure'') (getJsDocTags functionSymbol) \<noteq> None)
      in case getCallSignatures functionSymbol of
        [] \<Rightarrow>
          Thrown (Error (''Function '' @ [CHR 0x27] @ functionName @ [CHR 0x27] @
                         '' didn't have a call signature''))
      | functionCallSig # _ \<Rightarrow>
     (case deriveParameters E functionName (getParameters functionCallSig) [] False []
             context of
        Thrown e \<Rightarrow> Thrown e
      | Returned (issues, functionIsBroken, functionSchemaArguments) c1 \<Rightarrow>
     (case deriveSchemaTypeForTsType E (getReturnType functionCallSig)
             [FunctionReturn functionName] c1 0 of
        Thrown e \<Rightarrow> Thrown e
      | Returned (ErrorsResult es) c2 \<Rightarrow>
          Returned \<lparr>resultName = functionName, resultDefinition = None,
                    resultIssues = issues @ es\<rparr> c2
      | Returned (TypeResult td ws) c2 \<Rightarrow>
          Returned
            \<lparr>resultName = functionName,
             resultDefinition =
               (if \<not> functionIsBroken
                then Some \<lparr>description = nonEmpty functionDescription,
                           ndcKind = (if markedPureInJsDoc then Function else Procedure),
                           arguments = functionSchemaArguments,
                           resultType = td\<rparr>
                else None),
             resultIssues = issues @ ws\<rparr> c2)))))"

definition isExportedFunction :: "FunctionDeclaration \<Rightarrow> bool" where
  "isExportedFunction node = (find (\<lambda>m. m = ExportKeyword) (modifiers node) \<noteq> None)"

fun exportedFunctionDeclarations :: "ts_node list \<Rightarrow> FunctionDeclaration list" where
  "exportedFunctionDeclarations [] = []"
| "exportedFunctionDeclarations (FunctionDeclarationNode child # rest) =
     (if isExportedFunction child then child # exportedFunctionDeclarations rest
      else exportedFunctionDeclarations rest)"
| "exportedFunctionDeclarations (OtherNode # rest) = exportedFunctionDeclarations rest"

type_synonym FunctionDefinitions = "(string \<times> FunctionDefinition) list"
type_synonym FunctionIssues = "(string \<times> string list) list"

text \<open>The \<^verbatim>\<open>for\<close> loop of \<^verbatim>\<open>deriveSchemaFromFunctions\<close> over the exported declarations.\<close>

fun deriveFunctions ::
  "ts_env \<Rightarrow> FunctionDeclaration list \<Rightarrow> FunctionDefinitions \<Rightarrow> FunctionIssues \<Rightarrow>
     TypeDerivationContext \<Rightarrow> (FunctionDefinitions \<times> FunctionIssues) outcome" where
  "deriveFunctions E [] schemaFunctions functionIssues context =
     Returned (schemaFunctions, functionIssues) context"
| "deriveFunctions E (functionDeclaration # rest) schemaFunctions functionIssues context =
     (case deriveFunctionSchema E functionDeclaration context of
        Thrown e \<Rightarrow> Thrown e
      | Returned result c \<Rightarrow>
          deriveFunctions E rest
            (case resultDefinition result of
               Some d \<Rightarrow> assignKey (resultName result) d schemaFunctions
             | None \<Rightarrow> schemaFunctions)
            (if resultIssues result \<noteq> []
             then assignKey (resultName result) (resultIssues result) functionIssues
             else functionIssues)
            c)"

record FunctionsSchema =
  functionDefs :: FunctionDefinitions
    \<comment> \<open>the field \<^verbatim>\<open>functions\<close>\<close>
  objectTypes :: ObjectTypeDefinitions
  scalarTypes :: ScalarTypeDefinitions
  functionIssues :: FunctionIssues

definition deriveSchemaFromFunctions ::
  "(string \<Rightarrow> string) \<Rightarrow> ts_source_file \<Rightarrow> (tid \<Rightarrow> ts_type) \<Rightarrow> exn + FunctionsSchema" where
  "deriveSchemaFromFunctions dirname sourceFile checker =
     (case deriveFunctions
             \<lparr>typeChecker = checker, functionsFilePath = fileName sourceFile,
              pathDirname = dirname\<rparr>
             (exportedFunctionDeclarations (children sourceFile)) [] []
             \<lparr>objectTypeDefinitions = [], scalarTypeDefinitions = []\<rparr> of
        Thrown e \<Rightarrow> Inl e
      | Returned (fs, fis) c \<Rightarrow>
          Inr \<lparr>functionDefs = fs,
               objectTypes = objectTypeDefinitions c,
               scalarTypes = scalarTypeDefinitions c,
               functionIssues = fis\<rparr>)"

subsection \<open>Notions used in the statements\<close>

text \<open>Every name registered in \<open>c\<close>, object type or scalar, is still registered in \<open>c'\<close>.\<close>

definition keysPreserved :: "TypeDerivationContext \<Rightarrow> TypeDerivationContext \<Rightarrow> bool" where
  "keysPreserved c c' =
     (fst ` set (objectTypeDefinitions c) \<subseteq> fst ` set (objectTypeDefinitions c') \<and>
      fst ` set (scalarTypeDefinitions c) \<subseteq> fst ` set (scalarTypeDefinitions c'))"

text \<open>The forms that \<^verbatim>\<open>deriveSchemaTypeForTsType\<close> tests before the nullable union.\<close>

definition isUnsupportedForm :: "ts_env \<Rightarrow> tid \<Rightarrow> bool" where
  "isUnsupportedForm E t =
     (unwrapPromiseType E t \<noteq> None \<or>
      (isObjectType (typeChecker E t) \<and> flagClass (typeChecker E t)) \<or>
      isIntrinsicVoidType (typeChecker E t))"

definition isArrayForm :: "ts_env \<Rightarrow> tid \<Rightarrow> bool" where
  "isArrayForm E t =
     (isArrayType (typeChecker E t) \<and> isTypeReference (typeChecker E t) \<and>
      length (getTypeArguments (typeChecker E t)) = 1)"

definition isScalarForm :: "ts_env \<Rightarrow> tid \<Rightarrow> bool" where
  "isScalarForm E t =
     (isIntrinsicBooleanType (typeChecker E t) \<or> isIntrinsicStringType (typeChecker E t) \<or>
      isIntrinsicNumberType (typeChecker E t))"

text \<open>
  A union in the words of the specification: whether it has a null member, whether it
  has an undefined member, the members that are neither, and the acceptance that goes
  with the markers present.
\<close>

definition hasNullMember :: "ts_env \<Rightarrow> tid \<Rightarrow> bool" where
  "hasNullMember E t =
     list_ex (\<lambda>m. isIntrinsicNullType (typeChecker E m)) (types (typeChecker E t))"

definition hasUndefinedMember :: "ts_env \<Rightarrow> tid \<Rightarrow> bool" where
  "hasUndefinedMember E t =
     list_ex (\<lambda>m. isIntrinsicUndefinedType (typeChecker E m)) (types (typeChecker E t))"

definition strippedMembers :: "ts_env \<Rightarrow> tid \<Rightarrow> tid list" where
  "strippedMembers E t =
     filter (\<lambda>m. \<not> isIntrinsicNullType (typeChecker E m) \<and>
                  \<not> isIntrinsicUndefinedType (typeChecker E m)) (types (typeChecker E t))"

definition acceptanceOf :: "ts_env \<Rightarrow> tid \<Rightarrow> NullOrUndefinability" where
  "acceptanceOf E t =
     (if hasNullMember E t \<and> hasUndefinedMember E t then AcceptsEither
      else if hasNullMember E t then AcceptsNullOnly
      else AcceptsUndefinedOnly)"

text \<open>A \<open>NullableType\<close> whose underlying type is itself a \<open>NullableType\<close>, at any depth.\<close>

fun nullableWrapsNullable :: "TypeDefinition \<Rightarrow> bool" where
  "nullableWrapsNullable (NullableType (NullableType td m) n) = True"
| "nullableWrapsNullable (NullableType td n) = nullableWrapsNullable td"
| "nullableWrapsNullable (ArrayType td) = nullableWrapsNullable td"
| "nullableWrapsNullable (NamedType nm k) = False"

text \<open>
  The type checker reports unions flattened: no member of a union type is a union type.
\<close>

definition flatUnions :: "ts_env \<Rightarrow> bool" where
  "flatUnions E =
     (\<forall>t. isUnion (typeChecker E t) \<longrightarrow>
          list_all (\<lambda>m. \<not> isUnion (typeChecker E m)) (types (typeChecker E t)))"

text \<open>
  One level of unwrapping without an object type: \<open>t\<close> is an array of \<open>u\<close>, or a nullable
  union whose other member is \<open>u\<close>, and is derived as such.
\<close>

definition unwrapsTo :: "ts_env \<Rightarrow> tid \<Rightarrow> tid \<Rightarrow> bool" where
  "unwrapsTo E t u =
     (\<not> isUnsupportedForm E t \<and>
      ((isArrayType (typeChecker E t) \<and> isTypeReference (typeChecker E t) \<and>
        getTypeArguments (typeChecker E t) = [u]) \<or>
       (\<not> isArrayForm E t \<and> \<not> isScalarForm E t \<and>
        map_option fst (unwrapNullableType E t) = Some u)))"

text \<open>
  The derivation of a function in the words of the specification: the results of deriving
  the parameter types in declaration order (each in the context the one before left),
  the issue strings of a result, whether a result is fatal, and the arguments of the
  parameters whose type was derived.
\<close>

fun parameterResults ::
  "ts_env \<Rightarrow> string \<Rightarrow> ts_parameter list \<Rightarrow> TypeDerivationContext \<Rightarrow>
     DeriveSchemaTypeResult list outcome" where
  "parameterResults E functionName [] context = Returned [] context"
| "parameterResults E functionName (paramSymbol # rest) context =
     (case typeAtValueDeclaration paramSymbol of
        None \<Rightarrow>
          Thrown (Error (''Function '' @ [CHR 0x27] @ functionName @ [CHR 0x27] @
                         '' parameter '' @ [CHR 0x27] @ getName paramSymbol @ [CHR 0x27] @
                         '' didn't have a value declaration''))
      | Some ty \<Rightarrow>
          (case deriveSchemaTypeForTsType E ty
                  [FunctionParameter functionName (getName paramSymbol)] context 0 of
             Thrown e \<Rightarrow> Thrown e
           | Returned r c1 \<Rightarrow>
               (case parameterResults E functionName rest c1 of
                  Thrown e \<Rightarrow> Thrown e
                | Returned rs c2 \<Rightarrow> Returned (r # rs) c2)))"

fun issuesOf :: "DeriveSchemaTypeResult \<Rightarrow> string list" where
  "issuesOf (ErrorsResult es) = es"
| "issuesOf (TypeResult td ws) = ws"

fun isFatal :: "DeriveSchemaTypeResult \<Rightarrow> bool" where
  "isFatal (ErrorsResult es) = True"
| "isFatal (TypeResult td ws) = False"

fun argumentsOf ::
  "ts_parameter list \<Rightarrow> DeriveSchemaTypeResult list \<Rightarrow> ArgumentDefinition list" where
  "argumentsOf (q # qs) (TypeResult td ws # rs) =
     \<lparr>argumentName = getName q,
      argDescription = nonEmpty (trim (paramDocumentationComment q)),
      argType = td\<rparr> # argumentsOf qs rs"
| "argumentsOf (q # qs) (ErrorsResult es # rs) = argumentsOf qs rs"
| "argumentsOf qs rs = []"

text \<open>
  A type that gets as far as the object step: it is refused by none of the early checks
  and is no array, no scalar and no nullable union.
\<close>

definition reachesObjectStep :: "ts_env \<Rightarrow> tid \<Rightarrow> bool" where
  "reachesObjectStep E t =
     (\<not> isUnsupportedForm E t \<and> \<not> isArrayForm E t \<and> \<not> isScalarForm E t \<and>
      unwrapNullableType E t = None)"


text \<open>
  The calls of \<^verbatim>\<open>deriveSchemaTypeForTsType\<close>. A call is given by its four arguments: the
  type, the type path, the registries as they are when the call starts, and the depth.
  \<open>directCalls\<close> lists the calls that the body of one call makes, in the order in which
  it makes them: the element type of an array (line 238), the other member of a nullable
  union (line 265), and for an object type whose name is not found in the registry the
  types of its properties (line 284), each in the registries that the property before
  left, up to the first one that throws. \<open>callChain\<close> is a chain of calls each of which is
  made by the body of the one before.
\<close>

type_synonym call = "tid \<times> TypePathSegment list \<times> TypeDerivationContext \<times> nat"

definition callContext :: "call \<Rightarrow> TypeDerivationContext" where
  "callContext x = (case x of (t, p, c, d) \<Rightarrow> c)"

definition callDepth :: "call \<Rightarrow> nat" where
  "callDepth x = (case x of (t, p, c, d) \<Rightarrow> d)"

definition callType :: "call \<Rightarrow> tid" where
  "callType x = (case x of (t, p, c, d) \<Rightarrow> t)"

definition outcomeOf :: "ts_env \<Rightarrow> call \<Rightarrow> DeriveSchemaTypeResult outcome" where
  "outcomeOf E x = (case x of (t, p, c, d) \<Rightarrow> deriveSchemaTypeForTsType E t p c d)"

fun propertyCalls ::
  "ts_env \<Rightarrow> string \<Rightarrow> (string \<times> tid) list \<Rightarrow> TypePathSegment list \<Rightarrow>
     TypeDerivationContext \<Rightarrow> nat \<Rightarrow> call list" where
  "propertyCalls E typeName [] typePath context recursionDepth = []"
| "propertyCalls E typeName ((propertyName, propertyType) # rest) typePath context
     recursionDepth =
     (propertyType, typePath @ [ObjectProperty typeName propertyName], context,
      recursionDepth + 1) #
     (case deriveSchemaTypeForTsType E propertyType
             (typePath @ [ObjectProperty typeName propertyName]) context
             (recursionDepth + 1) of
        Thrown e \<Rightarrow> []
      | Returned r c \<Rightarrow> propertyCalls E typeName rest typePath c recursionDepth)"

definition directCalls :: "ts_env \<Rightarrow> call \<Rightarrow> call list" where
  "directCalls E x =
     (case x of (t, p, c, d) \<Rightarrow>
        if d > MAX_TYPE_DERIVATION_RECURSION \<or> isUnsupportedForm E t then []
        else if isArrayForm E t
        then [(hd (getTypeArguments (typeChecker E t)), p @ [ArraySegment], c, d + 1)]
        else if isScalarForm E t then []
        else (case unwrapNullableType E t of
                Some (u, a) \<Rightarrow> [(u, p, c, d + 1)]
              | None \<Rightarrow>
                  (case getObjectTypeInfo E t p of
                     Inr (Some info) \<Rightarrow>
                       if keyIsTruthy (objectTypeDefinitions c) (generatedTypeName info)
                       then []
                       else propertyCalls E (generatedTypeName info) (members info) p
                              (c\<lparr>objectTypeDefinitions :=
                                   assignKey (generatedTypeName info) \<lparr>properties = []\<rparr>
                                     (objectTypeDefinitions c)\<rparr>) d
                   | _ \<Rightarrow> [])))"

fun callChain :: "ts_env \<Rightarrow> call list \<Rightarrow> bool" where
  "callChain E [] = True"
| "callChain E [x] = True"
| "callChain E (x # y # rest) = (y \<in> set (directCalls E x) \<and> callChain E (y # rest))"

text \<open>
  The calls of \<^verbatim>\<open>deriveSchemaTypeForTsType\<close> that \<^verbatim>\<open>deriveFunctionSchema\<close> makes for a
  declaration: one for each parameter (line 137), each in the registries that the
  parameter before left, and one for the return type (line 155) in the registries that
  the last parameter left.
\<close>

fun parameterCalls ::
  "ts_env \<Rightarrow> string \<Rightarrow> ts_parameter list \<Rightarrow> TypeDerivationContext \<Rightarrow> call list" where
  "parameterCalls E functionName [] context = []"
| "parameterCalls E functionName (paramSymbol # rest) context =
     (case typeAtValueDeclaration paramSymbol of
        None \<Rightarrow> []
      | Some paramType \<Rightarrow>
          (paramType, [FunctionParameter functionName (getName paramSymbol)], context, 0) #
          (case deriveSchemaTypeForTsType E paramType
                  [FunctionParameter functionName (getName paramSymbol)] context 0 of
             Thrown e \<Rightarrow> []
           | Returned r c \<Rightarrow> parameterCalls E functionName rest c))"

definition functionCalls ::
  "ts_env \<Rightarrow> FunctionDeclaration \<Rightarrow> TypeDerivationContext \<Rightarrow> call list" where
  "functionCalls E functionDeclaration context =
     (case declName functionDeclaration of
        None \<Rightarrow> []
      | Some functionName \<Rightarrow>
     (case getSymbolAtLocation functionDeclaration of
        None \<Rightarrow> []
      | Some functionSymbol \<Rightarrow>
     (case getCallSignatures functionSymbol of
        [] \<Rightarrow> []
      | functionCallSig # _ \<Rightarrow>
          parameterCalls E functionName (getParameters functionCallSig) context @
          (case deriveParameters E functionName (getParameters functionCallSig) [] False []
                  context of
             Thrown e \<Rightarrow> []
           | Returned x c1 \<Rightarrow>
               [(getReturnType functionCallSig, [FunctionReturn functionName], c1, 0)]))))"

section \<open>Example programs\<close>

text \<open>
  Small programs, given by what the type checker answers on them. They are the concrete
  inputs at which the theorems below are evaluated. The entry file is
  \<^verbatim>\<open>/home/proj/functions.ts\<close>, whose directory is \<^verbatim>\<open>/home/proj\<close>.
\<close>

definition blankType :: ts_type where
  "blankType =
     \<lparr>typeToString = ''unknown'', isTypeReference = False, getSymbol = None,
      getTypeArguments = [], isObjectType = False, flagClass = False,
      flagAnonymous = False, flagInterface = False, targetFlagInterface = False,
      isIntrinsicVoidType = False, isArrayType = False, isIntrinsicBooleanType = False,
      isIntrinsicStringType = False, isIntrinsicNumberType = False,
      isIntrinsicNullType = False, isIntrinsicUndefinedType = False, isUnion = False,
      isIntersectionType = False, types = [], aliasSymbol = False, getProperties = []\<rparr>"

definition stringType :: ts_type where
  "stringType = blankType\<lparr>typeToString := ''string'', isIntrinsicStringType := True\<rparr>"

definition numberType :: ts_type where
  "numberType = blankType\<lparr>typeToString := ''number'', isIntrinsicNumberType := True\<rparr>"

definition nullType :: ts_type where
  "nullType = blankType\<lparr>typeToString := ''null'', isIntrinsicNullType := True\<rparr>"

definition undefinedType :: ts_type where
  "undefinedType =
     blankType\<lparr>typeToString := ''undefined'', isIntrinsicUndefinedType := True\<rparr>"

text \<open>\<^verbatim>\<open>Promise<T>\<close>, \<^verbatim>\<open>T[]\<close> and the union of the given members.\<close>

definition promiseOf :: "tid \<Rightarrow> ts_type" where
  "promiseOf a =
     blankType\<lparr>typeToString := ''Promise'', isTypeReference := True, isObjectType := True,
       targetFlagInterface := True,
       getSymbol := Some \<lparr>symName = ''Promise'',
                          declarations = [''/home/proj/node_modules/typescript/lib/lib.es5.d.ts'']\<rparr>,
       getTypeArguments := [a]\<rparr>"

definition arrayOf :: "tid \<Rightarrow> ts_type" where
  "arrayOf a =
     blankType\<lparr>typeToString := ''Array'', isTypeReference := True, isObjectType := True,
       targetFlagInterface := True, isArrayType := True,
       getSymbol := Some \<lparr>symName = ''Array'',
                          declarations = [''/home/proj/node_modules/typescript/lib/lib.es5.d.ts'']\<rparr>,
       getTypeArguments := [a]\<rparr>"

definition unionOf :: "tid list \<Rightarrow> ts_type" where
  "unionOf ms = blankType\<lparr>typeToString := ''union'', isUnion := True, types := ms\<rparr>"

text \<open>An object type literal, or a type alias of one, declared in the given file.\<close>

definition objectLiteral :: "string \<Rightarrow> (string \<times> tid) list \<Rightarrow> ts_type" where
  "objectLiteral file props =
     blankType\<lparr>typeToString := ''{...}'', isObjectType := True, flagAnonymous := True,
       getSymbol := Some \<lparr>symName = ''__type'', declarations = [file]\<rparr>,
       getProperties := props\<rparr>"

definition objectAlias :: "string \<Rightarrow> string \<Rightarrow> (string \<times> tid) list \<Rightarrow> ts_type" where
  "objectAlias alias file props =
     (objectLiteral file props)\<lparr>typeToString := alias, aliasSymbol := True\<rparr>"

definition interfaceType :: "string \<Rightarrow> string \<Rightarrow> (string \<times> tid) list \<Rightarrow> ts_type" where
  "interfaceType nm file props =
     blankType\<lparr>typeToString := nm, isObjectType := True, flagInterface := True,
       getSymbol := Some \<lparr>symName = nm, declarations = [file]\<rparr>,
       getProperties := props\<rparr>"

definition entryFile :: string where
  "entryFile = ''/home/proj/functions.ts''"

definition envOf :: "(tid \<Rightarrow> ts_type) \<Rightarrow> ts_env" where
  "envOf checker =
     \<lparr>typeChecker = checker, functionsFilePath = entryFile,
      pathDirname = (\<lambda>_. ''/home/proj'')\<rparr>"

definition emptyContext :: TypeDerivationContext where
  "emptyContext = \<lparr>objectTypeDefinitions = [], scalarTypeDefinitions = []\<rparr>"

definition exported :: "string \<Rightarrow> (string \<times> tid) list \<Rightarrow> tid \<Rightarrow> ts_node" where
  "exported nm params ret =
     FunctionDeclarationNode
       \<lparr>declName = Some nm,
        getSymbolAtLocation =
          Some \<lparr>getDocumentationComment = [], getJsDocTags = [],
                getCallSignatures =
                  [\<lparr>getParameters =
                      map (\<lambda>(n, t). \<lparr>getName = n, paramDocumentationComment = [],
                                       typeAtValueDeclaration = Some t\<rparr>) params,
                    getReturnType = ret\<rparr>]\<rparr>,
        modifiers = [ExportKeyword]\<rparr>"

text \<open>
  Object type aliases declared in four files: \<^verbatim>\<open>Local\<close> in the entry file, \<^verbatim>\<open>User\<close> in
  \<^verbatim>\<open>/home/proj/models/user.ts\<close> under the entry file's directory, \<^verbatim>\<open>View\<close> in
  \<^verbatim>\<open>/lib/view.tsx\<close> and \<^verbatim>\<open>T\<close> in \<^verbatim>\<open>/lib/types.ts\<close>, both outside that directory; and
  \<^verbatim>\<open>export function f(x: T): string\<close>, \<^verbatim>\<open>export function g(x: View): string\<close> in the
  entry file.
\<close>

definition locationChecker :: "tid \<Rightarrow> ts_type" where
  "locationChecker t =
     (if t = 0 then stringType
      else if t = 1 then objectAlias ''Local'' entryFile [(''a'', 0)]
      else if t = 2 then objectAlias ''User'' ''/home/proj/models/user.ts'' [(''a'', 0)]
      else if t = 3 then objectAlias ''View'' ''/lib/view.tsx'' [(''a'', 0)]
      else objectAlias ''T'' ''/lib/types.ts'' [(''a'', 0)])"

definition outsideSource :: ts_source_file where
  "outsideSource = \<lparr>fileName = entryFile, children = [exported ''f'' [(''x'', 4)] 0]\<rparr>"

definition viewSource :: ts_source_file where
  "viewSource = \<lparr>fileName = entryFile, children = [exported ''g'' [(''x'', 3)] 0]\<rparr>"

text \<open>
  \<^verbatim>\<open>type Job = { done: Promise<string> }\<close> and an object type literal
  \<^verbatim>\<open>{ a: string, b: Promise<string> }\<close>, both in the entry file, with
  \<^verbatim>\<open>export function f(x: { a: string, b: Promise<string> }): string\<close> in one program and
  \<^verbatim>\<open>export function f(x: Job): string\<close>, \<^verbatim>\<open>export function g(y: Job): string\<close> in
  another.
\<close>

definition quoted :: "string \<Rightarrow> string" where
  "quoted s = [CHR 0x27] @ s @ [CHR 0x27]"

definition promiseChecker :: "tid \<Rightarrow> ts_type" where
  "promiseChecker t =
     (if t = 0 then stringType
      else if t = 1 then promiseOf 0
      else if t = 2 then objectLiteral entryFile [(''a'', 0), (''b'', 1)]
      else objectAlias ''Job'' entryFile [(''done'', 1)])"

definition literalSource :: ts_source_file where
  "literalSource = \<lparr>fileName = entryFile, children = [exported ''f'' [(''x'', 2)] 0]\<rparr>"

definition jobSource :: ts_source_file where
  "jobSource =
     \<lparr>fileName = entryFile,
      children = [exported ''f'' [(''x'', 3)] 0, exported ''g'' [(''y'', 3)] 0]\<rparr>"

definition promiseIssue :: string where
  "promiseIssue =
     ''Promise types are not supported, but one was encountered in function '' @ quoted ''f'' @
     '' parameter '' @ quoted ''x'' @ '', type '' @ quoted ''Job'' @ '' property '' @
     quoted ''done'' @ ''.''"

definition literalIssue :: string where
  "literalIssue =
     ''Promise types are not supported, but one was encountered in function '' @ quoted ''f'' @
     '' parameter '' @ quoted ''x'' @ '', type '' @ quoted ''f_arguments_x'' @
     '' property '' @ quoted ''b'' @ ''.''"

definition literalDeclaration :: FunctionDeclaration where
  "literalDeclaration =
     \<lparr>declName = Some ''f'',
      getSymbolAtLocation =
        Some \<lparr>getDocumentationComment = [], getJsDocTags = [],
              getCallSignatures =
                [\<lparr>getParameters =
                    [\<lparr>getName = ''x'', paramDocumentationComment = [],
                      typeAtValueDeclaration = Some 2\<rparr>],
                  getReturnType = 0\<rparr>]\<rparr>,
      modifiers = [ExportKeyword]\<rparr>"

definition literalContext :: TypeDerivationContext where
  "literalContext =
     \<lparr>objectTypeDefinitions = [(''f_arguments_x'', \<lparr>properties = []\<rparr>)],
      scalarTypeDefinitions = [(''String'', ())]\<rparr>"

text \<open>
  The unions \<^verbatim>\<open>string | null\<close>, \<^verbatim>\<open>string | undefined\<close>, \<^verbatim>\<open>string | null | undefined\<close> and
  \<^verbatim>\<open>string | number | null\<close>.
\<close>

definition unionChecker :: "tid \<Rightarrow> ts_type" where
  "unionChecker t =
     (if t = 0 then stringType
      else if t = 1 then numberType
      else if t = 2 then nullType
      else if t = 3 then undefinedType
      else if t = 4 then unionOf [2, 0]
      else if t = 5 then unionOf [3, 0]
      else if t = 6 then unionOf [3, 2, 0]
      else unionOf [2, 0, 1])"

text \<open>
  Types for the order of classification: \<^verbatim>\<open>Promise<string>\<close>, \<^verbatim>\<open>string[]\<close>, a class
  instance type, \<^verbatim>\<open>void\<close>, \<^verbatim>\<open>string | null\<close>, an interface \<^verbatim>\<open>Empty\<close> without
  properties in the entry file, and a type of none of the forms (\<^verbatim>\<open>unknown\<close>).
\<close>

definition classType :: ts_type where
  "classType =
     blankType\<lparr>typeToString := ''Thing'', isObjectType := True, flagClass := True,
       getSymbol := Some \<lparr>symName = ''Thing'', declarations = [entryFile]\<rparr>\<rparr>"

definition voidType :: ts_type where
  "voidType = blankType\<lparr>typeToString := ''void'', isIntrinsicVoidType := True\<rparr>"

definition orderChecker :: "tid \<Rightarrow> ts_type" where
  "orderChecker t =
     (if t = 0 then stringType
      else if t = 1 then promiseOf 0
      else if t = 2 then arrayOf 0
      else if t = 3 then classType
      else if t = 4 then voidType
      else if t = 5 then nullType
      else if t = 6 then unionOf [5, 0]
      else if t = 7 then interfaceType ''Empty'' entryFile []
      else blankType)"

text \<open>
  \<^verbatim>\<open>string\<close> under \<open>k\<close> levels of \<^verbatim>\<open>[]\<close>: type \<open>0\<close> is the outermost array, type \<open>k\<close> is
  \<^verbatim>\<open>string\<close>. And \<^verbatim>\<open>type Loop = Loop[]\<close>, an array of itself.
\<close>

definition deepArrayChecker :: "nat \<Rightarrow> tid \<Rightarrow> ts_type" where
  "deepArrayChecker k t = (if t < k then arrayOf (t + 1) else stringType)"

definition loopChecker :: "tid \<Rightarrow> ts_type" where
  "loopChecker t = arrayOf 0"

text \<open>
  \<^verbatim>\<open>export function g(): string\<close> followed by \<^verbatim>\<open>export default function () {}\<close>, a
  function declaration without a name.
\<close>

definition anonymousDeclaration :: FunctionDeclaration where
  "anonymousDeclaration =
     \<lparr>declName = None, getSymbolAtLocation = None,
      modifiers = [ExportKeyword, OtherModifier]\<rparr>"

definition anonymousSource :: ts_source_file where
  "anonymousSource =
     \<lparr>fileName = entryFile,
      children = [exported ''g'' [] 0, FunctionDeclarationNode anonymousDeclaration]\<rparr>"

text \<open>
  \<^verbatim>\<open>export function f(a: Promise<string>, b: string, c: Thing): void\<close>, with a class
  \<^verbatim>\<open>Thing\<close>, followed by \<^verbatim>\<open>export function g(x: string): string\<close>.
\<close>

definition issuesSignature :: ts_signature where
  "issuesSignature =
     \<lparr>getParameters =
        [\<lparr>getName = ''a'', paramDocumentationComment = [],
          typeAtValueDeclaration = Some 1\<rparr>,
         \<lparr>getName = ''b'', paramDocumentationComment = [],
          typeAtValueDeclaration = Some 0\<rparr>,
         \<lparr>getName = ''c'', paramDocumentationComment = [],
          typeAtValueDeclaration = Some 3\<rparr>],
      getReturnType = 4\<rparr>"

definition issuesSymbol :: ts_function_symbol where
  "issuesSymbol =
     \<lparr>getDocumentationComment = [], getJsDocTags = [],
      getCallSignatures = [issuesSignature]\<rparr>"

definition issuesDeclaration :: FunctionDeclaration where
  "issuesDeclaration =
     \<lparr>declName = Some ''f'', getSymbolAtLocation = Some issuesSymbol,
      modifiers = [ExportKeyword]\<rparr>"

definition issuesSource :: ts_source_file where
  "issuesSource =
     \<lparr>fileName = entryFile,
      children = [FunctionDeclarationNode issuesDeclaration, exported ''g'' [(''x'', 0)] 0]\<rparr>"

definition issuesOfF :: "string list" where
  "issuesOfF =
     [''Promise types are not supported, but one was encountered in function '' @ quoted ''f'' @
      '' parameter '' @ quoted ''a'' @ ''.'',
      ''Class types are not supported, but one was encountered in function '' @ quoted ''f'' @
      '' parameter '' @ quoted ''c'',
      ''The void type is not supported, but one was encountered in function '' @ quoted ''f'' @
      '' return value'']"








text \<open>
  \<^verbatim>\<open>string\<close> under \<open>k\<close> levels of interfaces in the entry file, each with the one property
  \<^verbatim>\<open>next\<close>: type \<open>0\<close> is the outermost interface \<^verbatim>\<open>L\<close>, type \<open>1\<close> the interface
  \<^verbatim>\<open>Lx\<close> of its property, type \<open>2\<close> is \<^verbatim>\<open>Lxx\<close>, and type \<open>k\<close> is \<^verbatim>\<open>string\<close>.
\<close>

definition objectChainChecker :: "nat \<Rightarrow> tid \<Rightarrow> ts_type" where
  "objectChainChecker k t =
     (if t < k
      then interfaceType (''L'' @ replicate t (CHR ''x'')) entryFile [(''next'', t + 1)]
      else stringType)"

text \<open>
  The calls down the \<^verbatim>\<open>next\<close> properties of these interfaces, from the type \<open>t\<close> met at
  depth \<open>t\<close> in the return type of \<^verbatim>\<open>f\<close>: \<open>objectChainContext t\<close> holds the empty
  definitions registered for the interfaces above \<open>t\<close>.
\<close>

fun objectChainPath :: "nat \<Rightarrow> TypePathSegment list" where
  "objectChainPath 0 = [FunctionReturn ''f'']"
| "objectChainPath (Suc t) =
     objectChainPath t @ [ObjectProperty (''L'' @ replicate t (CHR ''x'')) ''next'']"

definition objectChainContext :: "nat \<Rightarrow> TypeDerivationContext" where
  "objectChainContext t =
     \<lparr>objectTypeDefinitions =
        map (\<lambda>i. (''L'' @ replicate i (CHR ''x''), \<lparr>properties = []\<rparr>)) [0..<t],
      scalarTypeDefinitions = []\<rparr>"

definition objectChainCall :: "nat \<Rightarrow> call" where
  "objectChainCall t = (t, objectChainPath t, objectChainContext t, t)"

text \<open>\<^verbatim>\<open>export function f(): L\<close> in the entry file.\<close>

definition objectChainSource :: ts_source_file where
  "objectChainSource = \<lparr>fileName = entryFile, children = [exported ''f'' [] 0]\<rparr>"

text \<open>
  \<^verbatim>\<open>export function f(x: Job): string;\<close> followed by
  \<^verbatim>\<open>export function f(x: Job): string { ... }\<close>, an overload signature and the
  implementation: two exported function declarations of the one name, whose symbol has
  the one call signature. And \<^verbatim>\<open>export function __proto__(x: string): string\<close>.
\<close>

definition overloadSource :: ts_source_file where
  "overloadSource =
     \<lparr>fileName = entryFile,
      children = [exported ''f'' [(''x'', 3)] 0, exported ''f'' [(''x'', 3)] 0]\<rparr>"

definition protoSource :: ts_source_file where
  "protoSource = \<lparr>fileName = entryFile, children = [exported ''__proto__'' [(''x'', 0)] 0]\<rparr>"

section \<open>Properties\<close>

subsection \<open>Strings and names\<close>


lemma replaceFirst_prefix: "replaceFirst pat (pat @ rest) = rest"
proof (cases "pat @ rest")
  case Nil
  then show ?thesis by simp
next
  case (Cons a list)
  have "prefix pat (a # list)" using Cons by (metis prefixI)
  moreover have "drop (length pat) (a # list) = rest"
    using Cons by (metis append_eq_conv_conj)
  ultimately show ?thesis using Cons by simp
qed

lemma replaceFirst_absent: "\<not> sublist pat s \<Longrightarrow> replaceFirst pat s = s"
proof (induction s)
  case Nil
  then show ?case by simp
next
  case (Cons c cs)
  have "\<not> prefix pat (c # cs)"
    using Cons.prems prefix_imp_sublist by blast
  moreover have "\<not> sublist pat cs"
    using Cons.prems by (meson sublist_Cons_right)
  ultimately show ?case using Cons.IH by simp
qed

lemma length_stripTsSuffix: "length (stripTsSuffix s) \<le> length s"
  by (simp add: stripTsSuffix_def)

lemma gqlName_not_injective: "gqlName ''a-b'' = gqlName ''a_b'' \<and> gqlName ''1a'' = gqlName ''a''"
  by (simp add: gqlName_def isAsciiLetter_def isAsciiDigit_def)

subsection \<open>How a call returns\<close>

text \<open>
  Case rules for a call that returns: which branch of the source it took, with the
  recursive calls it made on the way.
\<close>

lemma forTsType_Returned_cases [consumes 1, case_names Unsupported Array Scalar Nullable Object Fallback]:
  assumes ret: "deriveSchemaTypeForTsType E t p c d = Returned r c'"
  obtains
    (Unsupported) msg where "\<not> MAX_TYPE_DERIVATION_RECURSION < d"
      "r = ErrorsResult [msg]" "c' = c"
  | (Array) "\<not> MAX_TYPE_DERIVATION_RECURSION < d" "\<not> unwrapPromiseType E t \<noteq> None"
      "\<not> (isObjectType (typeChecker E t) \<and> flagClass (typeChecker E t))"
      "\<not> isIntrinsicVoidType (typeChecker E t)"
      "deriveSchemaTypeIfTsArrayType E t p c d = Returned (Some r) c'"
  | (Scalar) c1 where "\<not> MAX_TYPE_DERIVATION_RECURSION < d"
      "\<not> unwrapPromiseType E t \<noteq> None"
      "\<not> (isObjectType (typeChecker E t) \<and> flagClass (typeChecker E t))"
      "\<not> isIntrinsicVoidType (typeChecker E t)"
      "deriveSchemaTypeIfTsArrayType E t p c d = Returned None c1"
      "deriveSchemaTypeIfScalarType E t c1 = (Some r, c')"
  | (Nullable) c1 c2 where "\<not> MAX_TYPE_DERIVATION_RECURSION < d"
      "\<not> unwrapPromiseType E t \<noteq> None"
      "\<not> (isObjectType (typeChecker E t) \<and> flagClass (typeChecker E t))"
      "\<not> isIntrinsicVoidType (typeChecker E t)"
      "deriveSchemaTypeIfTsArrayType E t p c d = Returned None c1"
      "deriveSchemaTypeIfScalarType E t c1 = (None, c2)"
      "deriveSchemaTypeIfNullableType E t p c2 d = Returned (Some r) c'"
  | (Object) c1 c2 c3 where "\<not> MAX_TYPE_DERIVATION_RECURSION < d"
      "\<not> unwrapPromiseType E t \<noteq> None"
      "\<not> (isObjectType (typeChecker E t) \<and> flagClass (typeChecker E t))"
      "\<not> isIntrinsicVoidType (typeChecker E t)"
      "deriveSchemaTypeIfTsArrayType E t p c d = Returned None c1"
      "deriveSchemaTypeIfScalarType E t c1 = (None, c2)"
      "deriveSchemaTypeIfNullableType E t p c2 d = Returned None c3"
      "deriveSchemaTypeIfObjectType E t p c3 d = Returned (Some r) c'"
  | (Fallback) c1 c2 c3 where "\<not> MAX_TYPE_DERIVATION_RECURSION < d"
      "\<not> unwrapPromiseType E t \<noteq> None"
      "\<not> (isObjectType (typeChecker E t) \<and> flagClass (typeChecker E t))"
      "\<not> isIntrinsicVoidType (typeChecker E t)"
      "deriveSchemaTypeIfTsArrayType E t p c d = Returned None c1"
      "deriveSchemaTypeIfScalarType E t c1 = (None, c2)"
      "deriveSchemaTypeIfNullableType E t p c2 d = Returned None c3"
      "deriveSchemaTypeIfObjectType E t p c3 d = Returned None c'"
      "r = ErrorsResult [''fallback'']"
proof -
  note eq0 = ret [unfolded deriveSchemaTypeForTsType.simps [of E t p c d]]
  have d: "\<not> MAX_TYPE_DERIVATION_RECURSION < d"
    using eq0 by (auto split: if_splits)
  show thesis
  proof (cases "unwrapPromiseType E t \<noteq> None \<or>
      (isObjectType (typeChecker E t) \<and> flagClass (typeChecker E t)) \<or>
      isIntrinsicVoidType (typeChecker E t)")
    case True
    then have "\<exists>msg. r = ErrorsResult [msg] \<and> c' = c"
      using eq0 d by (auto split: if_splits)
    then show thesis using Unsupported d by blast
  next
    case False
    then have g: "\<not> unwrapPromiseType E t \<noteq> None"
      "\<not> (isObjectType (typeChecker E t) \<and> flagClass (typeChecker E t))"
      "\<not> isIntrinsicVoidType (typeChecker E t)"
      by blast+
    have ng: "(isObjectType (typeChecker E t) \<and> flagClass (typeChecker E t)) = False"
      using g by simp
    note eq = eq0 [unfolded ng if_False, simplified d g if_False]
    show thesis
    proof (cases "deriveSchemaTypeIfTsArrayType E t p c d")
      case (Thrown e)
      then show thesis using eq d g by simp
    next
      case arr: (Returned r1 c1)
      show thesis
      proof (cases r1)
        case (Some a)
        then have "a = r" "c1 = c'" using eq d g arr by simp_all
        then show thesis using Array d g arr Some by simp
      next
        case r1: None
        obtain r2 c2 where sc: "deriveSchemaTypeIfScalarType E t c1 = (r2, c2)"
          by (cases "deriveSchemaTypeIfScalarType E t c1") blast
        show thesis
        proof (cases r2)
          case (Some a)
          then have "a = r" "c2 = c'" using eq d g arr r1 sc by simp_all
          then show thesis using Scalar [of c1] d g arr r1 sc Some by simp
        next
          case r2: None
          show thesis
          proof (cases "deriveSchemaTypeIfNullableType E t p c2 d")
            case (Thrown e)
            then show thesis using eq d g arr r1 sc r2 by simp
          next
            case nul: (Returned r3 c3)
            show thesis
            proof (cases r3)
              case (Some a)
              then have "a = r" "c3 = c'" using eq d g arr r1 sc r2 nul by simp_all
              then show thesis using Nullable [of c1 c2] d g arr r1 sc r2 nul Some by simp
            next
              case r3: None
              show thesis
              proof (cases "deriveSchemaTypeIfObjectType E t p c3 d")
                case (Thrown e)
                then show thesis using eq d g arr r1 sc r2 nul r3 by simp
              next
                case ob: (Returned r4 c4)
                show thesis
                proof (cases r4)
                  case (Some a)
                  then have "a = r" "c4 = c'" using eq d g arr r1 sc r2 nul r3 ob by simp_all
                  then show thesis
                    using Object [of c1 c2 c3] d g arr r1 sc r2 nul r3 ob Some by simp
                next
                  case None
                  then have "r = ErrorsResult [''fallback'']" "c4 = c'"
                    using eq d g arr r1 sc r2 nul r3 ob by simp_all
                  then show thesis
                    using Fallback [of c1 c2 c3] d g arr r1 sc r2 nul r3 ob None by simp
                qed
              qed
            qed
          qed
        qed
      qed
    qed
  qed
qed

lemma ifTsArrayType_Returned_cases [consumes 1, case_names NoMatch Errors Ok]:
  assumes ret: "deriveSchemaTypeIfTsArrayType E t p c d = Returned ro c'"
  obtains
    (NoMatch) "ro = None" "c' = c"
  | (Errors) inner es where
      "isArrayType (typeChecker E t) \<and> isTypeReference (typeChecker E t)"
      "getTypeArguments (typeChecker E t) = [inner]"
      "deriveSchemaTypeForTsType E inner (p @ [ArraySegment]) c (d + 1) =
         Returned (ErrorsResult es) c'"
      "ro = Some (ErrorsResult es)"
  | (Ok) inner td ws where
      "isArrayType (typeChecker E t) \<and> isTypeReference (typeChecker E t)"
      "getTypeArguments (typeChecker E t) = [inner]"
      "deriveSchemaTypeForTsType E inner (p @ [ArraySegment]) c (d + 1) =
         Returned (TypeResult td ws) c'"
      "ro = Some (TypeResult (ArrayType td) ws)"
proof -
  note eq = ret [unfolded deriveSchemaTypeIfTsArrayType.simps [of E t p c d]]
  show thesis
  proof (cases "isArrayType (typeChecker E t) \<and> isTypeReference (typeChecker E t) \<and>
      (\<exists>inner. getTypeArguments (typeChecker E t) = [inner])")
    case False
    then have "ro = None \<and> c' = c"
      using eq by (auto split: if_splits list.splits)
    then show thesis using NoMatch by blast
  next
    case True
    then obtain inner where a: "isArrayType (typeChecker E t) \<and> isTypeReference (typeChecker E t)"
      and i: "getTypeArguments (typeChecker E t) = [inner]"
      by blast
    note eq' = eq [simplified a i, simplified]
    show thesis
    proof (cases "deriveSchemaTypeForTsType E inner (p @ [ArraySegment]) c (Suc d)")
      case (Thrown e)
      then show thesis using eq' by simp
    next
      case r: (Returned r1 c1)
      show thesis
      proof (cases r1)
        case (TypeResult td ws)
        then show thesis using Ok [of inner td ws] a i r eq' by simp
      next
        case (ErrorsResult es)
        then show thesis using Errors [of inner es] a i r eq' by simp
      qed
    qed
  qed
qed

lemma ifNullableType_Returned_cases [consumes 1, case_names NoMatch Errors Ok]:
  assumes ret: "deriveSchemaTypeIfNullableType E t p c d = Returned ro c'"
  obtains
    (NoMatch) "unwrapNullableType E t = None" "ro = None" "c' = c"
  | (Errors) u n es where
      "unwrapNullableType E t = Some (u, n)"
      "deriveSchemaTypeForTsType E u p c (d + 1) = Returned (ErrorsResult es) c'"
      "ro = Some (ErrorsResult es)"
  | (Ok) u n td ws where
      "unwrapNullableType E t = Some (u, n)"
      "deriveSchemaTypeForTsType E u p c (d + 1) = Returned (TypeResult td ws) c'"
      "ro = Some (TypeResult (NullableType td n) ws)"
proof -
  note eq = ret [unfolded deriveSchemaTypeIfNullableType.simps [of E t p c d]]
  show thesis
  proof (cases "unwrapNullableType E t")
    case None
    then show thesis using NoMatch eq by simp
  next
    case (Some un)
    obtain u n where un: "un = (u, n)" by (cases un) blast
    note eq' = eq [simplified Some un, simplified]
    show thesis
    proof (cases "deriveSchemaTypeForTsType E u p c (Suc d)")
      case (Thrown e)
      then show thesis using eq' by simp
    next
      case r: (Returned r1 c1)
      show thesis
      proof (cases r1)
        case (TypeResult td ws)
        then show thesis using Ok [of u n td ws] Some un r eq' by simp
      next
        case (ErrorsResult es)
        then show thesis using Errors [of u n es] Some un r eq' by simp
      qed
    qed
  qed
qed

lemma keyIsTruthy_proto: "keyIsTruthy obj ''__proto__''"
  by (simp add: keyIsTruthy_def objectPrototypeNames_def)

lemma not_truthy_not_proto: "\<not> keyIsTruthy obj k \<Longrightarrow> k \<noteq> ''__proto__''"
  using keyIsTruthy_proto by blast


lemma own_key_truthy: "map_of obj k \<noteq> None \<Longrightarrow> keyIsTruthy obj k"
  by (simp add: keyIsTruthy_def)



lemma ifObjectType_Returned_cases [consumes 1, case_names NoMatch Known Derived Failed]:
  assumes ret: "deriveSchemaTypeIfObjectType E t p c d = Returned ro c'"
  obtains
    (NoMatch) "getObjectTypeInfo E t p = Inr None" "ro = None" "c' = c"
  | (Known) info where
      "getObjectTypeInfo E t p = Inr (Some info)"
      "keyIsTruthy (objectTypeDefinitions c) (generatedTypeName info)"
      "ro = Some (TypeResult (NamedType (generatedTypeName info) Object) [])" "c' = c"
  | (Derived) info ws props c1 where
      "getObjectTypeInfo E t p = Inr (Some info)"
      "\<not> keyIsTruthy (objectTypeDefinitions c) (generatedTypeName info)"
      "derivePropertyTypes E (generatedTypeName info) (members info) p [] [] []
         (c\<lparr>objectTypeDefinitions :=
              assignKey (generatedTypeName info) \<lparr>properties = []\<rparr>
                (objectTypeDefinitions c)\<rparr>) d = Returned ([], ws, props) c1"
      "ro = Some (TypeResult (NamedType (generatedTypeName info) Object) ws)"
      "c' = c1\<lparr>objectTypeDefinitions :=
              assignKey (generatedTypeName info) \<lparr>properties = props\<rparr>
                (objectTypeDefinitions c1)\<rparr>"
  | (Failed) info es ws props where
      "getObjectTypeInfo E t p = Inr (Some info)"
      "\<not> keyIsTruthy (objectTypeDefinitions c) (generatedTypeName info)"
      "derivePropertyTypes E (generatedTypeName info) (members info) p [] [] []
         (c\<lparr>objectTypeDefinitions :=
              assignKey (generatedTypeName info) \<lparr>properties = []\<rparr>
                (objectTypeDefinitions c)\<rparr>) d = Returned (es, ws, props) c'"
      "es \<noteq> []" "ro = Some (ErrorsResult es)"
proof -
  note eq = ret [unfolded deriveSchemaTypeIfObjectType.simps [of E t p c d]]
  show thesis
  proof (cases "getObjectTypeInfo E t p")
    case (Inl e)
    then show thesis using eq by simp
  next
    case (Inr io)
    show thesis
    proof (cases io)
      case None
      then show thesis using NoMatch Inr eq by simp
    next
      case (Some info)
      note gi = Inr [unfolded Some]
      show thesis
      proof (cases "keyIsTruthy (objectTypeDefinitions c) (generatedTypeName info)")
        case True
        then show thesis using Known [of info] gi eq by auto
      next
        case fresh: False
        let ?c0 = "c\<lparr>objectTypeDefinitions :=
              assignKey (generatedTypeName info) \<lparr>properties = []\<rparr>
                (objectTypeDefinitions c)\<rparr>"
        show thesis
        proof (cases "derivePropertyTypes E (generatedTypeName info) (members info) p [] [] []
            ?c0 d")
          case (Thrown e)
          then show thesis using eq gi fresh by simp
        next
          case r: (Returned x c1)
          obtain es ws props where x: "x = (es, ws, props)" by (cases x) blast
          show thesis
          proof (cases "es = []")
            case True
            then show thesis using Derived [of info ws props c1] gi fresh r x eq by simp
          next
            case False
            then show thesis using Failed [of info es ws props] gi fresh r x eq by simp
          qed
        qed
      qed
    qed
  qed
qed

lemma propertyTypes_Returned_cases [consumes 1, case_names Errors Ok]:
  assumes ret: "derivePropertyTypes E n ((pn, pt) # rest) p es ws ps c d = Returned x c'"
  obtains
    (Errors) es1 c1 where
      "deriveSchemaTypeForTsType E pt (p @ [ObjectProperty n pn]) c (d + 1) =
         Returned (ErrorsResult es1) c1"
      "derivePropertyTypes E n rest p (es @ es1) ws ps c1 d = Returned x c'"
  | (Ok) td ws1 c1 where
      "deriveSchemaTypeForTsType E pt (p @ [ObjectProperty n pn]) c (d + 1) =
         Returned (TypeResult td ws1) c1"
      "derivePropertyTypes E n rest p es (ws @ ws1) (ps @ [(pn, td)]) c1 d = Returned x c'"
proof (cases "deriveSchemaTypeForTsType E pt (p @ [ObjectProperty n pn]) c (Suc d)")
  case (Thrown e)
  then show thesis using ret by simp
next
  case r: (Returned r1 c1)
  show thesis
  proof (cases r1)
    case (TypeResult td ws1)
    then show thesis using Ok [of td ws1 c1] r ret by simp
  next
    case (ErrorsResult es1)
    then show thesis using Errors [of es1 c1] r ret by simp
  qed
qed

subsection \<open>Relations between the registries before and after a call\<close>

text \<open>
  The registries are only changed by an assignment to a key of one of them. A reflexive and
  transitive relation that holds across these two updates therefore holds between the
  context a call is given and the context it returns.
\<close>

lemma scalar_context_rel:
  assumes R_refl: "\<And>c. R c c"
    and R_scal: "\<And>c k. R c (c\<lparr>scalarTypeDefinitions := AList.update k () (scalarTypeDefinitions c)\<rparr>)"
  shows "deriveSchemaTypeIfScalarType E t c = (r, c') \<Longrightarrow> R c c'"
  by (auto simp: deriveSchemaTypeIfScalarType_def Let_def R_refl R_scal split: if_splits)

lemma assignKey_rel:
  assumes "reflp R"
    and "\<And>c k v. R c (c\<lparr>objectTypeDefinitions := AList.update k v (objectTypeDefinitions c)\<rparr>)"
  shows "R c (c\<lparr>objectTypeDefinitions := assignKey k v (objectTypeDefinitions c)\<rparr>)"
  using assms by (simp add: assignKey_def reflpD)

lemma derive_context_rel:
  assumes rp: "reflp R"
    and tp: "transp R"
    and R_obj: "\<And>c k v. R c (c\<lparr>objectTypeDefinitions := AList.update k v (objectTypeDefinitions c)\<rparr>)"
    and R_scal: "\<And>c k. R c (c\<lparr>scalarTypeDefinitions := AList.update k () (scalarTypeDefinitions c)\<rparr>)"
  shows
  "deriveSchemaTypeForTsType E t p c d = Returned r c' \<Longrightarrow> R c c'"
  "deriveSchemaTypeIfTsArrayType E t p c d = Returned ro c' \<Longrightarrow> R c c'"
  "deriveSchemaTypeIfNullableType E t p c d = Returned ro c' \<Longrightarrow> R c c'"
  "deriveSchemaTypeIfObjectType E t p c d = Returned ro c' \<Longrightarrow> R c c'"
  "derivePropertyTypes E n ms p es ws ps c d = Returned x c' \<Longrightarrow> R c c'"
proof (induction E t p c d and E t p c d and E t p c d and E t p c d and E n ms p es ws ps c d
    arbitrary: r c' and ro c' and ro c' and ro c' and x c'
    rule: deriveSchemaTypeForTsType_deriveSchemaTypeIfTsArrayType_deriveSchemaTypeIfNullableType_deriveSchemaTypeIfObjectType_derivePropertyTypes.induct)
  case (1 E t p c d)
  note sc = scalar_context_rel [of R, OF reflpD [OF rp] R_scal]
  from "1.prems" show ?case
  proof (cases rule: forTsType_Returned_cases)
    case (Unsupported msg)
    then show ?thesis by (simp add: reflpD [OF rp])
  next
    case Array
    show ?thesis by (rule "1.IH"(1) [OF Array(1-5)])
  next
    case (Scalar c1)
    show ?thesis
      by (rule transpD [OF tp "1.IH"(1) [OF Scalar(1-5)] sc [OF Scalar(6)]])
  next
    case (Nullable c1 c2)
    have a: "R c c1" by (rule "1.IH"(1) [OF Nullable(1-5)])
    have b: "R c1 c2" by (rule sc [OF Nullable(6)])
    have e: "R c2 c'"
      by (rule "1.IH"(2) [OF Nullable(1-5) refl Nullable(6) [symmetric] refl Nullable(7)])
    show ?thesis by (rule transpD [OF tp transpD [OF tp a b] e])
  next
    case (Object c1 c2 c3)
    have a: "R c c1" by (rule "1.IH"(1) [OF Object(1-5)])
    have b: "R c1 c2" by (rule sc [OF Object(6)])
    have e: "R c2 c3"
      by (rule "1.IH"(2) [OF Object(1-5) refl Object(6) [symmetric] refl Object(7)])
    have f: "R c3 c'"
      by (rule "1.IH"(3) [OF Object(1-5) refl Object(6) [symmetric] refl Object(7) refl
            Object(8)])
    show ?thesis by (rule transpD [OF tp transpD [OF tp transpD [OF tp a b] e] f])
  next
    case (Fallback c1 c2 c3)
    have a: "R c c1" by (rule "1.IH"(1) [OF Fallback(1-5)])
    have b: "R c1 c2" by (rule sc [OF Fallback(6)])
    have e: "R c2 c3"
      by (rule "1.IH"(2) [OF Fallback(1-5) refl Fallback(6) [symmetric] refl Fallback(7)])
    have f: "R c3 c'"
      by (rule "1.IH"(3) [OF Fallback(1-5) refl Fallback(6) [symmetric] refl Fallback(7)
            refl Fallback(8)])
    show ?thesis by (rule transpD [OF tp transpD [OF tp transpD [OF tp a b] e] f])
  qed
next
  case (2 E t p c d)
  from "2.prems" show ?case
  proof (cases rule: ifTsArrayType_Returned_cases)
    case NoMatch
    then show ?thesis by (simp add: reflpD [OF rp])
  next
    case (Errors inner es)
    show ?thesis by (rule "2.IH" [OF Errors(1) Errors(2) refl Errors(3)])
  next
    case (Ok inner td ws)
    show ?thesis by (rule "2.IH" [OF Ok(1) Ok(2) refl Ok(3)])
  qed
next
  case (3 E t p c d)
  from "3.prems" show ?case
  proof (cases rule: ifNullableType_Returned_cases)
    case NoMatch
    then show ?thesis by (simp add: reflpD [OF rp])
  next
    case (Errors u n es)
    show ?thesis by (rule "3.IH" [OF Errors(1) refl Errors(2)])
  next
    case (Ok u n td ws)
    show ?thesis by (rule "3.IH" [OF Ok(1) refl Ok(2)])
  qed
next
  case (4 E t p c d)
  note R_asg = assignKey_rel [of R, OF rp R_obj]
  from "4.prems" show ?case
  proof (cases rule: ifObjectType_Returned_cases)
    case NoMatch
    then show ?thesis by (simp add: reflpD [OF rp])
  next
    case (Known info)
    then show ?thesis by (simp add: reflpD [OF rp])
  next
    case (Derived info ws props c1)
    have a: "R (c\<lparr>objectTypeDefinitions :=
              assignKey (generatedTypeName info) \<lparr>properties = []\<rparr>
                (objectTypeDefinitions c)\<rparr>) c1"
      by (rule "4.IH" [OF Derived(1) refl Derived(2) Derived(3)])
    show ?thesis
      unfolding Derived(5) by (rule transpD [OF tp transpD [OF tp R_asg a] R_asg])
  next
    case (Failed info es ws props)
    have a: "R (c\<lparr>objectTypeDefinitions :=
              assignKey (generatedTypeName info) \<lparr>properties = []\<rparr>
                (objectTypeDefinitions c)\<rparr>) c'"
      by (rule "4.IH" [OF Failed(1) refl Failed(2) Failed(3)])
    show ?thesis by (rule transpD [OF tp R_asg a])
  qed
next
  case (5 E n p es ws ps c d)
  then show ?case by (simp add: reflpD [OF rp])
next
  case (6 E n pn pt rest p es ws ps c d)
  from "6.prems" show ?case
  proof (cases rule: propertyTypes_Returned_cases)
    case (Errors es1 c1)
    have a: "R c c1" by (rule "6.IH"(1) [OF Errors(1)])
    have b: "R c1 c'" by (rule "6.IH"(3) [OF Errors(1) refl Errors(2)])
    show ?thesis by (rule transpD [OF tp a b])
  next
    case (Ok td ws1 c1)
    have a: "R c c1" by (rule "6.IH"(1) [OF Ok(1)])
    have b: "R c1 c'" by (rule "6.IH"(2) [OF Ok(1) refl Ok(2)])
    show ?thesis by (rule transpD [OF tp a b])
  qed
qed

lemma deriveParameters_context_rel:
  assumes rp: "reflp R"
    and tp: "transp R"
    and R_obj: "\<And>c k v. R c (c\<lparr>objectTypeDefinitions := AList.update k v (objectTypeDefinitions c)\<rparr>)"
    and R_scal: "\<And>c k. R c (c\<lparr>scalarTypeDefinitions := AList.update k () (scalarTypeDefinitions c)\<rparr>)"
  shows "deriveParameters E fn ps iss b as c = Returned x c' \<Longrightarrow> R c c'"
proof (induction ps arbitrary: iss b as c)
  case Nil
  then show ?case by (simp add: reflpD [OF rp])
next
  case (Cons q qs)
  note step = derive_context_rel(1) [of R, OF rp tp R_obj R_scal]
  from Cons.prems obtain ty where ty: "typeAtValueDeclaration q = Some ty"
    by (cases "typeAtValueDeclaration q") auto
  from Cons.prems ty obtain r c1 where
    r: "deriveSchemaTypeForTsType E ty [FunctionParameter fn (getName q)] c 0 = Returned r c1"
    by (cases "deriveSchemaTypeForTsType E ty [FunctionParameter fn (getName q)] c 0") auto
  have a: "R c c1" by (rule step [OF r])
  have "\<exists>iss' b' as'. deriveParameters E fn qs iss' b' as' c1 = Returned x c'"
    using Cons.prems ty r by (cases r) auto
  then have "R c1 c'" using Cons.IH by blast
  then show ?case using a by (rule transpD [OF tp, rotated])
qed

lemma deriveFunctionSchema_context_rel:
  assumes rp: "reflp R"
    and tp: "transp R"
    and R_obj: "\<And>c k v. R c (c\<lparr>objectTypeDefinitions := AList.update k v (objectTypeDefinitions c)\<rparr>)"
    and R_scal: "\<And>c k. R c (c\<lparr>scalarTypeDefinitions := AList.update k () (scalarTypeDefinitions c)\<rparr>)"
    and ret: "deriveFunctionSchema E fd c = Returned res c'"
  shows "R c c'"
proof -
  note step = derive_context_rel(1) [of R, OF rp tp R_obj R_scal]
  note params = deriveParameters_context_rel [of R, OF rp tp R_obj R_scal]
  from ret obtain fn where fn: "declName fd = Some fn"
    by (cases "declName fd") (auto simp: deriveFunctionSchema_def)
  from ret fn obtain fs where fs: "getSymbolAtLocation fd = Some fs"
    by (cases "getSymbolAtLocation fd") (auto simp: deriveFunctionSchema_def)
  from ret fn fs obtain sg sgs where sg: "getCallSignatures fs = sg # sgs"
    by (cases "getCallSignatures fs") (auto simp: deriveFunctionSchema_def Let_def)
  from ret fn fs sg obtain x c1 where
    ps: "deriveParameters E fn (getParameters sg) [] False [] c = Returned x c1"
    by (cases "deriveParameters E fn (getParameters sg) [] False [] c")
      (auto simp: deriveFunctionSchema_def Let_def)
  from ret fn fs sg ps obtain r c2 where
    rt: "deriveSchemaTypeForTsType E (getReturnType sg) [FunctionReturn fn] c1 0 = Returned r c2"
    by (cases "deriveSchemaTypeForTsType E (getReturnType sg) [FunctionReturn fn] c1 0")
      (auto simp: deriveFunctionSchema_def Let_def split: prod.splits)
  have "c' = c2"
    using ret fn fs sg ps rt
    by (cases r) (auto simp: deriveFunctionSchema_def Let_def split: prod.splits)
  then show ?thesis using transpD [OF tp params [OF ps] step [OF rt]] by simp
qed

lemma deriveFunctions_context_rel:
  assumes rp: "reflp R"
    and tp: "transp R"
    and R_obj: "\<And>c k v. R c (c\<lparr>objectTypeDefinitions := AList.update k v (objectTypeDefinitions c)\<rparr>)"
    and R_scal: "\<And>c k. R c (c\<lparr>scalarTypeDefinitions := AList.update k () (scalarTypeDefinitions c)\<rparr>)"
  shows "deriveFunctions E fds fs fis c = Returned x c' \<Longrightarrow> R c c'"
proof (induction fds arbitrary: fs fis c)
  case Nil
  then show ?case by (simp add: reflpD [OF rp])
next
  case (Cons fd rest)
  from Cons.prems obtain res c1 where
    r: "deriveFunctionSchema E fd c = Returned res c1"
    by (cases "deriveFunctionSchema E fd c") auto
  have a: "R c c1"
    by (rule deriveFunctionSchema_context_rel [of R, OF rp tp R_obj R_scal r])
  have "\<exists>fs' fis'. deriveFunctions E rest fs' fis' c1 = Returned x c'"
    using Cons.prems r by auto
  then have "R c1 c'" using Cons.IH by blast
  then show ?case using a by (rule transpD [OF tp, rotated])
qed

lemma keysPreserved_reflp: "reflp keysPreserved"
  by (rule reflpI) (simp add: keysPreserved_def)

lemma keysPreserved_transp: "transp keysPreserved"
proof (rule transpI)
  fix a b c
  assume "keysPreserved a b" "keysPreserved b c"
  then show "keysPreserved a c"
    unfolding keysPreserved_def by (meson subset_trans)
qed

lemma keysPreserved_object_update:
  "keysPreserved c (c\<lparr>objectTypeDefinitions := AList.update k v (objectTypeDefinitions c)\<rparr>)"
  by (auto simp: keysPreserved_def dom_update)

lemma keysPreserved_scalar_update:
  "keysPreserved c (c\<lparr>scalarTypeDefinitions := AList.update k v (scalarTypeDefinitions c)\<rparr>)"
  by (auto simp: keysPreserved_def dom_update)

lemmas derive_keysPreserved =
  derive_context_rel [of keysPreserved, OF keysPreserved_reflp keysPreserved_transp
    keysPreserved_object_update keysPreserved_scalar_update]

lemmas deriveFunctionSchema_keysPreserved =
  deriveFunctionSchema_context_rel [of keysPreserved, OF keysPreserved_reflp keysPreserved_transp
    keysPreserved_object_update keysPreserved_scalar_update]

lemmas deriveFunctions_keysPreserved =
  deriveFunctions_context_rel [of keysPreserved, OF keysPreserved_reflp keysPreserved_transp
    keysPreserved_object_update keysPreserved_scalar_update]

lemma deriveFunctions_append:
  "deriveFunctions E (xs @ ys) fs fis c =
     (case deriveFunctions E xs fs fis c of
        Thrown e \<Rightarrow> Thrown e
      | Returned (fs1, fis1) c1 \<Rightarrow> deriveFunctions E ys fs1 fis1 c1)"
proof (induction xs arbitrary: fs fis c)
  case Nil
  then show ?case by simp
next
  case (Cons x xs)
  show ?case
  proof (cases "deriveFunctionSchema E x c")
    case (Thrown e)
    then show ?thesis by simp
  next
    case (Returned res c1)
    then show ?thesis using Cons.IH by simp
  qed
qed

subsection \<open>Classification\<close>

lemma find_None_list_ex: "(find P xs = None) = (\<not> list_ex P xs)"
  by (induction xs) auto

lemma find_Some_list_ex: "(\<exists>y. find P xs = Some y) = list_ex P xs"
  by (induction xs) auto

lemma unwrapNullableType_eq:
  "unwrapNullableType E t =
     (if isUnion (typeChecker E t) \<and> (hasNullMember E t \<or> hasUndefinedMember E t)
      then (case strippedMembers E t of [u] \<Rightarrow> Some (u, acceptanceOf E t) | _ \<Rightarrow> None)
      else None)"
  by (auto simp: unwrapNullableType_def Let_def find_None_list_ex find_Some_list_ex
      hasNullMember_def hasUndefinedMember_def strippedMembers_def acceptanceOf_def
      split: list.splits)

lemma ifTsArrayType_no_match:
  "\<not> isArrayForm E t \<Longrightarrow> deriveSchemaTypeIfTsArrayType E t p c d = Returned None c"
  by (auto simp: deriveSchemaTypeIfTsArrayType.simps isArrayForm_def split: list.splits)

lemma ifScalarType_no_match:
  "\<not> isScalarForm E t \<Longrightarrow> deriveSchemaTypeIfScalarType E t c = (None, c)"
  by (simp add: deriveSchemaTypeIfScalarType_def isScalarForm_def Let_def)

lemma forTsType_after_scalar:
  assumes "d \<le> MAX_TYPE_DERIVATION_RECURSION" "\<not> isUnsupportedForm E t"
    "\<not> isArrayForm E t" "\<not> isScalarForm E t"
  shows "deriveSchemaTypeForTsType E t p c d =
     (case deriveSchemaTypeIfNullableType E t p c d of
        Thrown e \<Rightarrow> Thrown e
      | Returned (Some r) c3 \<Rightarrow> Returned r c3
      | Returned None c3 \<Rightarrow>
          (case deriveSchemaTypeIfObjectType E t p c3 d of
             Thrown e \<Rightarrow> Thrown e
           | Returned (Some r) c4 \<Rightarrow> Returned r c4
           | Returned None c4 \<Rightarrow> Returned (ErrorsResult [''fallback'']) c4))"
proof -
  have g: "\<not> MAX_TYPE_DERIVATION_RECURSION < d" "unwrapPromiseType E t = None"
    "(isObjectType (typeChecker E t) \<and> flagClass (typeChecker E t)) = False"
    "\<not> isIntrinsicVoidType (typeChecker E t)"
    using assms by (auto simp: isUnsupportedForm_def)
  show ?thesis
    by (subst deriveSchemaTypeForTsType.simps)
      (simp only: g if_False not_False_eq_True not_not if_True simp_thms
        ifTsArrayType_no_match [OF assms(3)] ifScalarType_no_match [OF assms(4)]
        outcome.case option.case prod.case)
qed

subsection \<open>Nullable unions\<close>

lemma unwrapNullableType_member:
  "unwrapNullableType E t = Some (u, n) \<Longrightarrow>
     isUnion (typeChecker E t) \<and> u \<in> set (types (typeChecker E t))"
proof -
  assume a: "unwrapNullableType E t = Some (u, n)"
  then have un: "isUnion (typeChecker E t)" and s: "strippedMembers E t = [u]"
    by (auto simp: unwrapNullableType_eq split: if_splits list.splits)
  have "u \<in> set (strippedMembers E t)" using s by simp
  then have "u \<in> set (types (typeChecker E t))" by (simp add: strippedMembers_def)
  then show ?thesis using un by simp
qed

lemma forTsType_Nullable_is_union:
  assumes "deriveSchemaTypeForTsType E t p c d = Returned (TypeResult (NullableType x n) ws) c'"
  shows "isUnion (typeChecker E t)"
  using assms
proof (cases rule: forTsType_Returned_cases)
  case (Unsupported msg)
  then show ?thesis by simp
next
  case Array
  from Array(5) show ?thesis by (cases rule: ifTsArrayType_Returned_cases) simp_all
next
  case (Scalar c1)
  then show ?thesis
    by (auto simp: deriveSchemaTypeIfScalarType_def Let_def split: if_splits)
next
  case (Nullable c1 c2)
  from Nullable(7) show ?thesis
    by (cases rule: ifNullableType_Returned_cases) (auto dest: unwrapNullableType_member)
next
  case (Object c1 c2 c3)
  from Object(8) show ?thesis by (cases rule: ifObjectType_Returned_cases) simp_all
next
  case (Fallback c1 c2 c3)
  then show ?thesis by simp
qed

lemma derive_no_nested_nullable:
  assumes flat: "flatUnions E"
  shows
  "deriveSchemaTypeForTsType E t p c d = Returned (TypeResult td ws) c' \<Longrightarrow>
     \<not> nullableWrapsNullable td"
  "deriveSchemaTypeIfTsArrayType E t p c d = Returned (Some (TypeResult td ws)) c' \<Longrightarrow>
     \<not> nullableWrapsNullable td"
  "deriveSchemaTypeIfNullableType E t p c d = Returned (Some (TypeResult td ws)) c' \<Longrightarrow>
     \<not> nullableWrapsNullable td"
  "deriveSchemaTypeIfObjectType E t p c d = Returned (Some (TypeResult td ws)) c' \<Longrightarrow>
     \<not> nullableWrapsNullable td"
  "derivePropertyTypes E n ms p es wsa ps c d = Returned x c' \<Longrightarrow> True"
  using flat
proof (induction E t p c d and E t p c d and E t p c d and E t p c d and E n ms p es wsa ps c d
    arbitrary: td ws c' and td ws c' and td ws c' and td ws c' and x c'
    rule: deriveSchemaTypeForTsType_deriveSchemaTypeIfTsArrayType_deriveSchemaTypeIfNullableType_deriveSchemaTypeIfObjectType_derivePropertyTypes.induct)
  case (1 E t p c d)
  from "1.prems"(1) show ?case
  proof (cases rule: forTsType_Returned_cases)
    case (Unsupported msg)
    then show ?thesis by simp
  next
    case Array
    show ?thesis by (rule "1.IH"(1) [OF Array(1-5) "1.prems"(2)])
  next
    case (Scalar c1)
    then show ?thesis
      by (auto simp: deriveSchemaTypeIfScalarType_def Let_def split: if_splits)
  next
    case (Nullable c1 c2)
    show ?thesis
      by (rule "1.IH"(2) [OF Nullable(1-5) refl Nullable(6) [symmetric] refl Nullable(7)
            "1.prems"(2)])
  next
    case (Object c1 c2 c3)
    show ?thesis
      by (rule "1.IH"(3) [OF Object(1-5) refl Object(6) [symmetric] refl Object(7) refl
            Object(8) "1.prems"(2)])
  next
    case (Fallback c1 c2 c3)
    then show ?thesis by simp
  qed
next
  case (2 E t p c d)
  from "2.prems"(1) show ?case
  proof (cases rule: ifTsArrayType_Returned_cases)
    case NoMatch
    then show ?thesis by simp
  next
    case (Errors inner es)
    then show ?thesis by simp
  next
    case (Ok inner td1 ws1)
    have "\<not> nullableWrapsNullable td1"
      by (rule "2.IH" [OF Ok(1) Ok(2) refl Ok(3) "2.prems"(2)])
    then show ?thesis using Ok(4) by simp
  qed
next
  case (3 E t p c d)
  from "3.prems"(1) show ?case
  proof (cases rule: ifNullableType_Returned_cases)
    case NoMatch
    then show ?thesis by simp
  next
    case (Errors u n es)
    then show ?thesis by simp
  next
    case (Ok u n td1 ws1)
    have inner: "\<not> nullableWrapsNullable td1"
      by (rule "3.IH" [OF Ok(1) refl Ok(2) "3.prems"(2)])
    have mem: "isUnion (typeChecker E t) \<and> u \<in> set (types (typeChecker E t))"
      by (rule unwrapNullableType_member [OF Ok(1)])
    then have "\<not> isUnion (typeChecker E u)"
      using "3.prems"(2) by (auto simp: flatUnions_def list_all_iff)
    then have "\<And>y m. td1 \<noteq> NullableType y m"
      using forTsType_Nullable_is_union Ok(2) by blast
    then have "\<not> nullableWrapsNullable (NullableType td1 n)"
      using inner by (cases td1) auto
    then show ?thesis using Ok(3) by simp
  qed
next
  case (4 E t p c d)
  from "4.prems"(1) show ?case
    by (cases rule: ifObjectType_Returned_cases) simp_all
next
  case (5 E n p es ws ps c d)
  then show ?case by simp
next
  case (6 E n pn pt rest p es ws ps c d)
  then show ?case by simp
qed

lemma flatUnions_unionChecker: "flatUnions (envOf unionChecker)"
  by (simp add: flatUnions_def envOf_def unionChecker_def unionOf_def stringType_def
      numberType_def nullType_def undefinedType_def blankType_def)

lemma forTsType_not_unsupported:
  assumes "d \<le> MAX_TYPE_DERIVATION_RECURSION" "\<not> isUnsupportedForm E t"
  shows "deriveSchemaTypeForTsType E t p c d =
        (case deriveSchemaTypeIfTsArrayType E t p c d of
           Thrown e \<Rightarrow> Thrown e
         | Returned (Some r) c1 \<Rightarrow> Returned r c1
         | Returned None c1 \<Rightarrow>
             (case deriveSchemaTypeIfScalarType E t c1 of
                (Some r, c2) \<Rightarrow> Returned r c2
              | (None, c2) \<Rightarrow>
                  (case deriveSchemaTypeIfNullableType E t p c2 d of
                     Thrown e \<Rightarrow> Thrown e
                   | Returned (Some r) c3 \<Rightarrow> Returned r c3
                   | Returned None c3 \<Rightarrow>
                       (case deriveSchemaTypeIfObjectType E t p c3 d of
                          Thrown e \<Rightarrow> Thrown e
                        | Returned (Some r) c4 \<Rightarrow> Returned r c4
                        | Returned None c4 \<Rightarrow>
                            Returned (ErrorsResult [''fallback'']) c4))))"
proof -
  have g: "\<not> MAX_TYPE_DERIVATION_RECURSION < d" "unwrapPromiseType E t = None"
    "(isObjectType (typeChecker E t) \<and> flagClass (typeChecker E t)) = False"
    "\<not> isIntrinsicVoidType (typeChecker E t)"
    using assms by (auto simp: isUnsupportedForm_def)
  show ?thesis
    by (subst deriveSchemaTypeForTsType.simps)
      (simp only: g if_False not_False_eq_True not_not if_True simp_thms)
qed

subsection \<open>The depth ceiling\<close>

lemma forTsType_beyond_ceiling:
  "MAX_TYPE_DERIVATION_RECURSION < d \<Longrightarrow>
     deriveSchemaTypeForTsType E t p c d =
       Thrown (Error (''Schema inference validation exceeded depth 20 for type '' @
                      typeToString (typeChecker E t)))"
  by (subst deriveSchemaTypeForTsType.simps) simp

lemma forTsType_array_form:
  assumes depth: "d \<le> MAX_TYPE_DERIVATION_RECURSION"
    and a: "\<not> isUnsupportedForm E t" "isArrayType (typeChecker E t)"
      "isTypeReference (typeChecker E t)" "getTypeArguments (typeChecker E t) = [innerType]"
  shows "deriveSchemaTypeForTsType E t p c d =
        (case deriveSchemaTypeForTsType E innerType (p @ [ArraySegment]) c (d + 1) of
           Thrown e \<Rightarrow> Thrown e
         | Returned (ErrorsResult es) c1 \<Rightarrow> Returned (ErrorsResult es) c1
         | Returned (TypeResult td ws) c1 \<Rightarrow> Returned (TypeResult (ArrayType td) ws) c1)"
proof -
  have arr: "deriveSchemaTypeIfTsArrayType E t p c d =
      (case deriveSchemaTypeForTsType E innerType (p @ [ArraySegment]) c (d + 1) of
         Thrown e \<Rightarrow> Thrown e
       | Returned (ErrorsResult es) c1 \<Rightarrow> Returned (Some (ErrorsResult es)) c1
       | Returned (TypeResult td ws) c1 \<Rightarrow> Returned (Some (TypeResult (ArrayType td) ws)) c1)"
    using a by (simp add: deriveSchemaTypeIfTsArrayType.simps)
  note fe = forTsType_not_unsupported [OF depth a(1), of p c]
  show ?thesis
  proof (cases "deriveSchemaTypeForTsType E innerType (p @ [ArraySegment]) c (d + 1)")
    case (Thrown e)
    then show ?thesis using fe arr by simp
  next
    case (Returned r c1)
    then show ?thesis using fe arr by (cases r) simp_all
  qed
qed

lemma forTsType_nullable_form:
  assumes depth: "d \<le> MAX_TYPE_DERIVATION_RECURSION"
    and a: "\<not> isUnsupportedForm E t" "\<not> isArrayForm E t" "\<not> isScalarForm E t"
      "unwrapNullableType E t = Some (u, n)"
  shows "deriveSchemaTypeForTsType E t p c d =
        (case deriveSchemaTypeForTsType E u p c (d + 1) of
           Thrown e \<Rightarrow> Thrown e
         | Returned (ErrorsResult es) c1 \<Rightarrow> Returned (ErrorsResult es) c1
         | Returned (TypeResult td ws) c1 \<Rightarrow> Returned (TypeResult (NullableType td n) ws) c1)"
proof -
  note fe = forTsType_after_scalar [OF depth a(1-3), of p c]
  have nu: "deriveSchemaTypeIfNullableType E t p c d =
      (case deriveSchemaTypeForTsType E u p c (d + 1) of
         Thrown e \<Rightarrow> Thrown e
       | Returned (ErrorsResult es) c1 \<Rightarrow> Returned (Some (ErrorsResult es)) c1
       | Returned (TypeResult td ws) c1 \<Rightarrow>
           Returned (Some (TypeResult (NullableType td n) ws)) c1)"
    using a by (simp add: deriveSchemaTypeIfNullableType.simps)
  show ?thesis
  proof (cases "deriveSchemaTypeForTsType E u p c (d + 1)")
    case (Thrown e)
    then show ?thesis using fe nu by simp
  next
    case (Returned r c1)
    then show ?thesis using fe nu by (cases r) simp_all
  qed
qed

lemma unwrapsTo_throws:
  assumes step: "unwrapsTo E t u" and depth: "d \<le> MAX_TYPE_DERIVATION_RECURSION"
    and inner: "\<And>q. deriveSchemaTypeForTsType E u q c (d + 1) = Thrown e"
  shows "deriveSchemaTypeForTsType E t p c d = Thrown e"
proof -
  have us: "\<not> isUnsupportedForm E t" using step by (simp add: unwrapsTo_def)
  consider (arr) "isArrayType (typeChecker E t)" "isTypeReference (typeChecker E t)"
      "getTypeArguments (typeChecker E t) = [u]"
    | (nul) n where "\<not> isArrayForm E t" "\<not> isScalarForm E t"
      "unwrapNullableType E t = Some (u, n)"
    using step by (auto simp: unwrapsTo_def)
  then show ?thesis
  proof cases
    case arr
    show ?thesis
      using forTsType_array_form [OF depth us arr, of p c] inner by simp
  next
    case nul
    show ?thesis
      using forTsType_nullable_form [OF depth us nul, of p c] inner by simp
  qed
qed

lemma unwrapping_chain_throws:
  assumes chain: "\<And>i. i \<le> MAX_TYPE_DERIVATION_RECURSION \<Longrightarrow> unwrapsTo E (f i) (f (i + 1))"
  shows "d \<le> MAX_TYPE_DERIVATION_RECURSION + 1 \<Longrightarrow>
     deriveSchemaTypeForTsType E (f d) p c d =
       Thrown (Error (''Schema inference validation exceeded depth 20 for type '' @
                      typeToString (typeChecker E (f (MAX_TYPE_DERIVATION_RECURSION + 1)))))"
proof (induction "MAX_TYPE_DERIVATION_RECURSION + 1 - d" arbitrary: d p)
  case 0
  then have "d = MAX_TYPE_DERIVATION_RECURSION + 1" by simp
  then show ?case using forTsType_beyond_ceiling [of d E "f d" p c] by simp
next
  case (Suc k)
  then have le: "d \<le> MAX_TYPE_DERIVATION_RECURSION" by simp
  have "\<And>q. deriveSchemaTypeForTsType E (f (d + 1)) q c (d + 1) =
       Thrown (Error (''Schema inference validation exceeded depth 20 for type '' @
                      typeToString (typeChecker E (f (MAX_TYPE_DERIVATION_RECURSION + 1)))))"
    using Suc.hyps(1) [of "d + 1"] Suc.hyps(2) le by simp
  then show ?case
    using unwrapsTo_throws [OF chain [OF le] le] by blast
qed

subsection \<open>The loop over the function declarations\<close>

lemma deriveFunctionSchema_Returned_parts:
  assumes "deriveFunctionSchema E fd c = Returned res c1"
  shows "declName fd \<noteq> None \<and>
     (\<exists>s. getSymbolAtLocation fd = Some s \<and> getCallSignatures s \<noteq> [])"
  using assms
  by (auto simp: deriveFunctionSchema_def Let_def split: option.splits list.splits)

lemma deriveFunctions_Returned_each:
  "deriveFunctions E fds fs fis c = Returned x c1 \<Longrightarrow> fd \<in> set fds \<Longrightarrow>
     \<exists>c2 res c3. deriveFunctionSchema E fd c2 = Returned res c3"
proof (induction fds arbitrary: fs fis c)
  case Nil
  then show ?case by simp
next
  case (Cons a rest)
  from Cons.prems(1) obtain res ca where
    r: "deriveFunctionSchema E a c = Returned res ca"
    by (cases "deriveFunctionSchema E a c") auto
  show ?case
  proof (cases "fd = a")
    case True
    then show ?thesis using r by blast
  next
    case False
    then have "fd \<in> set rest" using Cons.prems(2) by simp
    moreover have "\<exists>fs' fis'. deriveFunctions E rest fs' fis' ca = Returned x c1"
      using Cons.prems(1) r by auto
    ultimately show ?thesis using Cons.IH by blast
  qed
qed

subsection \<open>Issues of a function\<close>

lemma derive_errors_nonempty:
  "deriveSchemaTypeForTsType E t p c d = Returned (ErrorsResult errs) c' \<Longrightarrow> errs \<noteq> []"
  "deriveSchemaTypeIfTsArrayType E t p c d = Returned (Some (ErrorsResult errs)) c' \<Longrightarrow>
     errs \<noteq> []"
  "deriveSchemaTypeIfNullableType E t p c d = Returned (Some (ErrorsResult errs)) c' \<Longrightarrow>
     errs \<noteq> []"
  "deriveSchemaTypeIfObjectType E t p c d = Returned (Some (ErrorsResult errs)) c' \<Longrightarrow>
     errs \<noteq> []"
  "derivePropertyTypes E n ms p es ws ps c d = Returned x c' \<Longrightarrow> True"
proof (induction E t p c d and E t p c d and E t p c d and E t p c d and E n ms p es ws ps c d
    arbitrary: errs c' and errs c' and errs c' and errs c' and x c'
    rule: deriveSchemaTypeForTsType_deriveSchemaTypeIfTsArrayType_deriveSchemaTypeIfNullableType_deriveSchemaTypeIfObjectType_derivePropertyTypes.induct)
  case (1 E t p c d)
  from "1.prems" show ?case
  proof (cases rule: forTsType_Returned_cases)
    case (Unsupported msg)
    then show ?thesis by simp
  next
    case Array
    show ?thesis by (rule "1.IH"(1) [OF Array(1-5)])
  next
    case (Scalar c1)
    then show ?thesis
      by (auto simp: deriveSchemaTypeIfScalarType_def Let_def split: if_splits)
  next
    case (Nullable c1 c2)
    show ?thesis
      by (rule "1.IH"(2) [OF Nullable(1-5) refl Nullable(6) [symmetric] refl Nullable(7)])
  next
    case (Object c1 c2 c3)
    show ?thesis
      by (rule "1.IH"(3) [OF Object(1-5) refl Object(6) [symmetric] refl Object(7) refl
            Object(8)])
  next
    case (Fallback c1 c2 c3)
    then show ?thesis by simp
  qed
next
  case (2 E t p c d)
  from "2.prems" show ?case
  proof (cases rule: ifTsArrayType_Returned_cases)
    case NoMatch
    then show ?thesis by simp
  next
    case (Errors inner es)
    have "es \<noteq> []" by (rule "2.IH" [OF Errors(1) Errors(2) refl Errors(3)])
    then show ?thesis using Errors(4) by simp
  next
    case (Ok inner td ws)
    then show ?thesis by simp
  qed
next
  case (3 E t p c d)
  from "3.prems" show ?case
  proof (cases rule: ifNullableType_Returned_cases)
    case NoMatch
    then show ?thesis by simp
  next
    case (Errors u n es)
    have "es \<noteq> []" by (rule "3.IH" [OF Errors(1) refl Errors(2)])
    then show ?thesis using Errors(3) by simp
  next
    case (Ok u n td ws)
    then show ?thesis by simp
  qed
next
  case (4 E t p c d)
  from "4.prems" show ?case
    by (cases rule: ifObjectType_Returned_cases) simp_all
next
  case (5 E n p es ws ps c d)
  then show ?case by simp
next
  case (6 E n pn pt rest p es ws ps c d)
  then show ?case by simp
qed

lemma deriveParameters_parameterResults:
  "deriveParameters E fn ps iss b as c =
     (case parameterResults E fn ps c of
        Thrown e \<Rightarrow> Thrown e
      | Returned rs c1 \<Rightarrow>
          Returned (iss @ concat (map issuesOf rs), b \<or> list_ex isFatal rs,
                    as @ argumentsOf ps rs) c1)"
proof (induction ps arbitrary: iss b as c)
  case Nil
  then show ?case by simp
next
  case (Cons q qs)
  show ?case
  proof (cases "typeAtValueDeclaration q")
    case None
    then show ?thesis by simp
  next
    case (Some ty)
    show ?thesis
    proof (cases "deriveSchemaTypeForTsType E ty [FunctionParameter fn (getName q)] c 0")
      case (Thrown e)
      then show ?thesis using Some by simp
    next
      case (Returned r c1)
      show ?thesis
      proof (cases r)
        case (TypeResult td ws)
        then show ?thesis
          using Some Returned Cons.IH
          by (cases "parameterResults E fn qs c1") simp_all
      next
        case (ErrorsResult es)
        then show ?thesis
          using Some Returned Cons.IH
          by (cases "parameterResults E fn qs c1") simp_all
      qed
    qed
  qed
qed

lemma parameterResults_errors_nonempty:
  "parameterResults E fn ps c = Returned rs c1 \<Longrightarrow> ErrorsResult es \<in> set rs \<Longrightarrow> es \<noteq> []"
proof (induction ps arbitrary: c rs)
  case Nil
  then show ?case by simp
next
  case (Cons q qs)
  from Cons.prems(1) obtain ty where ty: "typeAtValueDeclaration q = Some ty"
    by (cases "typeAtValueDeclaration q") auto
  from Cons.prems(1) ty obtain r c2 where
    r: "deriveSchemaTypeForTsType E ty [FunctionParameter fn (getName q)] c 0 = Returned r c2"
    by (cases "deriveSchemaTypeForTsType E ty [FunctionParameter fn (getName q)] c 0") auto
  from Cons.prems(1) ty r obtain rs1 where
    rs1: "parameterResults E fn qs c2 = Returned rs1 c1" and rs: "rs = r # rs1"
    by (cases "parameterResults E fn qs c2") auto
  show ?case
  proof (cases "ErrorsResult es = r")
    case True
    then show ?thesis using r derive_errors_nonempty(1) by metis
  next
    case False
    then have "ErrorsResult es \<in> set rs1" using Cons.prems(2) rs by auto
    then show ?thesis using Cons.IH rs1 by blast
  qed
qed

lemma fatal_issues_nonempty:
  assumes "\<And>es. ErrorsResult es \<in> set rs \<Longrightarrow> es \<noteq> []" "list_ex isFatal rs"
  shows "concat (map issuesOf rs) \<noteq> []"
proof -
  from assms(2) obtain r where r: "r \<in> set rs" "isFatal r"
    by (auto simp: list_ex_iff)
  from r(2) obtain es where e: "r = ErrorsResult es" by (cases r) auto
  then have "issuesOf r \<noteq> []" using r(1) assms(1) by auto
  then show ?thesis using r(1) by auto
qed

lemma deriveFunctionSchema_trace:
  assumes "declName fd = Some fn" "getSymbolAtLocation fd = Some s"
    "getCallSignatures s = sg # sgs"
  shows "deriveFunctionSchema E fd c =
     (case parameterResults E fn (getParameters sg) c of
        Thrown e \<Rightarrow> Thrown e
      | Returned rs c1 \<Rightarrow>
          (case deriveSchemaTypeForTsType E (getReturnType sg) [FunctionReturn fn] c1 0 of
             Thrown e \<Rightarrow> Thrown e
           | Returned rr c2 \<Rightarrow>
               Returned
                 \<lparr>resultName = fn,
                  resultDefinition =
                    (case rr of
                       ErrorsResult es \<Rightarrow> None
                     | TypeResult td ws \<Rightarrow>
                         if list_ex isFatal rs then None
                         else Some \<lparr>description = nonEmpty (trim (getDocumentationComment s)),
                                    ndcKind = (if ''pure'' \<in> set (getJsDocTags s)
                                               then Function else Procedure),
                                    arguments = argumentsOf (getParameters sg) rs,
                                    resultType = td\<rparr>),
                  resultIssues = concat (map issuesOf (rs @ [rr]))\<rparr> c2))"
proof -
  have pure: "(find (\<lambda>e. e = ''pure'') (getJsDocTags s) \<noteq> None) =
      (''pure'' \<in> set (getJsDocTags s))"
    by (induction "getJsDocTags s") (auto simp: find_None_iff)
  show ?thesis
  proof (cases "parameterResults E fn (getParameters sg) c")
    case (Thrown e)
    then show ?thesis
      using assms
      by (simp add: deriveFunctionSchema_def Let_def deriveParameters_parameterResults)
  next
    case ps: (Returned rs c1)
    show ?thesis
    proof (cases "deriveSchemaTypeForTsType E (getReturnType sg) [FunctionReturn fn] c1 0")
      case (Thrown e)
      then show ?thesis
        using assms ps
        by (simp add: deriveFunctionSchema_def Let_def deriveParameters_parameterResults)
    next
      case (Returned rr c2)
      then show ?thesis
        using assms ps pure
        by (cases rr)
          (simp_all add: deriveFunctionSchema_def Let_def deriveParameters_parameterResults)
    qed
  qed
qed

lemma deriveFunctionSchema_Returned_name:
  assumes "deriveFunctionSchema E fd c = Returned res c1"
  shows "declName fd = Some (resultName res)"
  using assms
  by (auto simp: deriveFunctionSchema_def Let_def
      split: option.splits list.splits outcome.splits prod.splits
        DeriveSchemaTypeResult.splits)

lemma deriveFunctionSchema_broken_has_issues:
  assumes ret: "deriveFunctionSchema E fd c = Returned res c1"
    and broken: "resultDefinition res = None"
  shows "resultIssues res \<noteq> []"
proof -
  from deriveFunctionSchema_Returned_parts [OF ret] obtain fn s sg sgs where
    parts: "declName fd = Some fn" "getSymbolAtLocation fd = Some s"
      "getCallSignatures s = sg # sgs"
    by (cases "declName fd"; cases "getSymbolAtLocation fd") (auto simp: neq_Nil_conv)
  note tr = deriveFunctionSchema_trace [OF parts, of E c]
  from ret tr obtain rs c2 where
    ps: "parameterResults E fn (getParameters sg) c = Returned rs c2"
    by (cases "parameterResults E fn (getParameters sg) c") auto
  from ret tr ps obtain rr where
    rt: "deriveSchemaTypeForTsType E (getReturnType sg) [FunctionReturn fn] c2 0 =
      Returned rr c1"
    by (cases "deriveSchemaTypeForTsType E (getReturnType sg) [FunctionReturn fn] c2 0") auto
  have iss: "resultIssues res = concat (map issuesOf (rs @ [rr]))"
    using ret tr ps rt by auto
  have fatal: "list_ex isFatal (rs @ [rr])"
    using ret tr ps rt broken by (cases rr) (auto split: if_splits)
  have ne: "\<And>es. ErrorsResult es \<in> set (rs @ [rr]) \<Longrightarrow> es \<noteq> []"
  proof -
    fix es
    assume "ErrorsResult es \<in> set (rs @ [rr])"
    then consider "ErrorsResult es \<in> set rs" | "rr = ErrorsResult es" by auto
    then show "es \<noteq> []"
    proof cases
      case 1
      then show ?thesis by (rule parameterResults_errors_nonempty [OF ps])
    next
      case 2
      show ?thesis by (rule derive_errors_nonempty(1) [OF rt [unfolded 2]])
    qed
  qed
  show ?thesis
    unfolding iss by (rule fatal_issues_nonempty [OF ne fatal])
qed

subsection \<open>The object step\<close>

lemma forTsType_object_step:
  assumes "d \<le> MAX_TYPE_DERIVATION_RECURSION" "reachesObjectStep E t"
  shows "deriveSchemaTypeForTsType E t p c d =
        (case deriveSchemaTypeIfObjectType E t p c d of
           Thrown e \<Rightarrow> Thrown e
         | Returned (Some r) c1 \<Rightarrow> Returned r c1
         | Returned None c1 \<Rightarrow> Returned (ErrorsResult [''fallback'']) c1)"
  using assms forTsType_after_scalar [of d E t p c]
  by (simp add: reachesObjectStep_def deriveSchemaTypeIfNullableType.simps)





lemma isArrayForm_arguments:
  "isArrayForm E t \<Longrightarrow>
     getTypeArguments (typeChecker E t) = [hd (getTypeArguments (typeChecker E t))]"
  by (cases "getTypeArguments (typeChecker E t)") (auto simp: isArrayForm_def)

subsection \<open>The calls made by a call\<close>

lemma propertyCalls_depth:
  "y \<in> set (propertyCalls E n ms p c d) \<Longrightarrow> callDepth y = d + 1"
proof (induction ms arbitrary: c)
  case Nil
  then show ?case by simp
next
  case (Cons a rest)
  obtain pn m where a: "a = (pn, m)" by (cases a) blast
  from Cons.prems Cons.IH show ?case
    by (auto simp: a callDepth_def split: outcome.splits)
qed

lemma directCalls_depth:
  assumes "y \<in> set (directCalls E x)"
  shows "callDepth y = callDepth x + 1 \<and> callDepth x \<le> MAX_TYPE_DERIVATION_RECURSION"
proof -
  obtain t p c d where x: "x = (t, p, c, d)" by (cases x) blast
  from assms show ?thesis
    by (auto simp: x directCalls_def callDepth_def propertyCalls_depth [unfolded callDepth_def]
        split: if_splits option.splits sum.splits dest!: propertyCalls_depth)
qed

lemma directCalls_object [consumes 2, case_names Properties]:
  assumes y: "y \<in> set (directCalls E (t, p, c, d))" and obj: "reachesObjectStep E t"
  obtains info where
    "getObjectTypeInfo E t p = Inr (Some info)"
    "\<not> keyIsTruthy (objectTypeDefinitions c) (generatedTypeName info)"
    "y \<in> set (propertyCalls E (generatedTypeName info) (members info) p
       (c\<lparr>objectTypeDefinitions :=
            assignKey (generatedTypeName info) \<lparr>properties = []\<rparr>
              (objectTypeDefinitions c)\<rparr>) d)"
proof (cases "getObjectTypeInfo E t p")
  case (Inl e)
  then show thesis
    using y obj by (simp add: directCalls_def reachesObjectStep_def split: if_splits)
next
  case (Inr io)
  show thesis
  proof (cases io)
    case None
    then show thesis
      using y obj Inr by (simp add: directCalls_def reachesObjectStep_def split: if_splits)
  next
    case (Some info)
    note gi = Inr [unfolded Some]
    show thesis
      using y obj gi that [OF gi]
      by (simp add: directCalls_def reachesObjectStep_def split: if_splits)
  qed
qed

lemma propertyCalls_throw:
  "y \<in> set (propertyCalls E n ms p c d) \<Longrightarrow> outcomeOf E y = Thrown e \<Longrightarrow>
     derivePropertyTypes E n ms p es ws ps c d = Thrown e"
proof (induction ms arbitrary: es ws ps c)
  case Nil
  then show ?case by simp
next
  case (Cons a rest)
  obtain pn m where a: "a = (pn, m)" by (cases a) blast
  show ?case
  proof (cases "deriveSchemaTypeForTsType E m (p @ [ObjectProperty n pn]) c (d + 1)")
    case (Thrown e')
    then have "y = (m, p @ [ObjectProperty n pn], c, d + 1)"
      using Cons.prems(1) by (simp add: a)
    then have "e' = e" using Cons.prems(2) Thrown by (simp add: outcomeOf_def)
    then show ?thesis using Thrown by (simp add: a)
  next
    case (Returned r c1)
    have "y \<in> set (propertyCalls E n rest p c1 d)"
      using Cons.prems Returned by (auto simp: a outcomeOf_def)
    from Cons.IH [OF this Cons.prems(2)] show ?thesis
      using Returned by (cases r) (simp_all add: a)
  qed
qed

lemma directCalls_throw:
  assumes y: "y \<in> set (directCalls E x)" and th: "outcomeOf E y = Thrown e"
  shows "outcomeOf E x = Thrown e"
proof -
  obtain t p c d where x: "x = (t, p, c, d)" by (cases x) blast
  from y have dm: "d \<le> MAX_TYPE_DERIVATION_RECURSION" and us: "\<not> isUnsupportedForm E t"
    by (auto simp: x directCalls_def split: if_splits)
  show ?thesis
  proof (cases "isArrayForm E t")
    case True
    then have yy: "y = (hd (getTypeArguments (typeChecker E t)), p @ [ArraySegment], c, d + 1)"
      using y dm us by (simp add: x directCalls_def)
    have af: "isArrayType (typeChecker E t)" "isTypeReference (typeChecker E t)"
      using True by (simp_all add: isArrayForm_def)
    from forTsType_array_form [OF dm us af isArrayForm_arguments [OF True], of p c] th
    show ?thesis by (simp add: x yy outcomeOf_def)
  next
    case na: False
    have ns: "\<not> isScalarForm E t"
      using y dm us na by (auto simp: x directCalls_def split: if_splits)
    show ?thesis
    proof (cases "unwrapNullableType E t")
      case (Some ua)
      obtain u a where ua: "ua = (u, a)" by (cases ua) blast
      have yy: "y = (u, p, c, d + 1)"
        using y dm us na ns Some by (simp add: x directCalls_def ua)
      from forTsType_nullable_form [OF dm us na ns Some [unfolded ua], of p c] th
      show ?thesis by (simp add: x yy outcomeOf_def)
    next
      case None
      have obj: "reachesObjectStep E t"
        using us na ns None by (simp add: reachesObjectStep_def)
      from y [unfolded x] obj obtain info where
        info: "getObjectTypeInfo E t p = Inr (Some info)"
        and fresh: "\<not> keyIsTruthy (objectTypeDefinitions c) (generatedTypeName info)"
        and yp: "y \<in> set (propertyCalls E (generatedTypeName info) (members info) p
             (c\<lparr>objectTypeDefinitions :=
                  assignKey (generatedTypeName info) \<lparr>properties = []\<rparr>
                    (objectTypeDefinitions c)\<rparr>) d)"
        by (cases rule: directCalls_object) blast
      have "deriveSchemaTypeIfObjectType E t p c d = Thrown e"
        using info fresh propertyCalls_throw [OF yp th, of "[]" "[]" "[]"]
        by (simp add: deriveSchemaTypeIfObjectType.simps)
      then show ?thesis
        using forTsType_object_step [OF dm obj, of p c] by (simp add: x outcomeOf_def)
    qed
  qed
qed

lemma callChain_throw:
  "callChain E (x # xs) \<Longrightarrow> outcomeOf E (last (x # xs)) = Thrown e \<Longrightarrow>
     outcomeOf E x = Thrown e"
proof (induction xs arbitrary: x)
  case Nil
  then show ?case by simp
next
  case (Cons y rest)
  have "outcomeOf E y = Thrown e" using Cons.IH [of y] Cons.prems by simp
  then show ?case using directCalls_throw [of y E x e] Cons.prems(1) by simp
qed

lemma callChain_depth:
  "callChain E (x # xs) \<Longrightarrow>
     callDepth (last (x # xs)) = callDepth x + length xs \<and>
     (xs \<noteq> [] \<longrightarrow> callDepth (last (x # xs)) \<le> MAX_TYPE_DERIVATION_RECURSION + 1)"
proof (induction xs arbitrary: x)
  case Nil
  then show ?case by simp
next
  case (Cons y rest)
  have d: "callDepth y = callDepth x + 1" "callDepth x \<le> MAX_TYPE_DERIVATION_RECURSION"
    using directCalls_depth [of y E x] Cons.prems by simp_all
  have ih: "callDepth (last (y # rest)) = callDepth y + length rest \<and>
     (rest \<noteq> [] \<longrightarrow> callDepth (last (y # rest)) \<le> MAX_TYPE_DERIVATION_RECURSION + 1)"
    using Cons.IH [of y] Cons.prems by simp
  show ?case using d ih by (cases rest) simp_all
qed

lemma propertyCalls_keys:
  "y \<in> set (propertyCalls E n ms p c d) \<Longrightarrow> outcomeOf E y = Returned r1 c1 \<Longrightarrow>
   derivePropertyTypes E n ms p es ws ps c d = Returned x c' \<Longrightarrow> keysPreserved c1 c'"
proof (induction ms arbitrary: es ws ps c)
  case Nil
  then show ?case by simp
next
  case (Cons a rest)
  obtain pn m where a: "a = (pn, m)" by (cases a) blast
  from Cons.prems(3) [unfolded a] obtain r2 c2 es2 ws2 ps2 where
    head: "deriveSchemaTypeForTsType E m (p @ [ObjectProperty n pn]) c (d + 1) = Returned r2 c2"
    and tail: "derivePropertyTypes E n rest p es2 ws2 ps2 c2 d = Returned x c'"
    by (cases rule: propertyTypes_Returned_cases) blast+
  show ?case
  proof (cases "y = (m, p @ [ObjectProperty n pn], c, d + 1)")
    case True
    then have "c1 = c2" using Cons.prems(2) head by (simp add: outcomeOf_def)
    then show ?thesis using derive_keysPreserved(5) [OF tail] by simp
  next
    case False
    then have "y \<in> set (propertyCalls E n rest p c2 d)"
      using Cons.prems(1) head by (simp add: a)
    from Cons.IH [OF this Cons.prems(2) tail] show ?thesis .
  qed
qed

lemma directCalls_keys:
  assumes y: "y \<in> set (directCalls E x)" and ry: "outcomeOf E y = Returned r1 c1"
    and rx: "outcomeOf E x = Returned r c'"
  shows "keysPreserved c1 c'"
proof -
  obtain t p c d where x: "x = (t, p, c, d)" by (cases x) blast
  from y have dm: "d \<le> MAX_TYPE_DERIVATION_RECURSION" and us: "\<not> isUnsupportedForm E t"
    by (auto simp: x directCalls_def split: if_splits)
  note rf = reflpD [OF keysPreserved_reflp]
  show ?thesis
  proof (cases "isArrayForm E t")
    case True
    then have yy: "y = (hd (getTypeArguments (typeChecker E t)), p @ [ArraySegment], c, d + 1)"
      using y dm us by (simp add: x directCalls_def)
    have af: "isArrayType (typeChecker E t)" "isTypeReference (typeChecker E t)"
      using True by (simp_all add: isArrayForm_def)
    from forTsType_array_form [OF dm us af isArrayForm_arguments [OF True], of p c] ry rx
    have "c' = c1" by (cases r1) (simp_all add: x yy outcomeOf_def)
    then show ?thesis by (simp add: rf)
  next
    case na: False
    have ns: "\<not> isScalarForm E t"
      using y dm us na by (auto simp: x directCalls_def split: if_splits)
    show ?thesis
    proof (cases "unwrapNullableType E t")
      case (Some ua)
      obtain u a where ua: "ua = (u, a)" by (cases ua) blast
      have yy: "y = (u, p, c, d + 1)"
        using y dm us na ns Some by (simp add: x directCalls_def ua)
      from forTsType_nullable_form [OF dm us na ns Some [unfolded ua], of p c] ry rx
      have "c' = c1" by (cases r1) (simp_all add: x yy outcomeOf_def)
      then show ?thesis by (simp add: rf)
    next
      case None
      have obj: "reachesObjectStep E t"
        using us na ns None by (simp add: reachesObjectStep_def)
      from y [unfolded x] obj obtain info where
        info: "getObjectTypeInfo E t p = Inr (Some info)"
        and fresh: "\<not> keyIsTruthy (objectTypeDefinitions c) (generatedTypeName info)"
        and yp: "y \<in> set (propertyCalls E (generatedTypeName info) (members info) p
             (c\<lparr>objectTypeDefinitions :=
                  assignKey (generatedTypeName info) \<lparr>properties = []\<rparr>
                    (objectTypeDefinitions c)\<rparr>) d)"
        by (cases rule: directCalls_object) blast
      from rx obtain ro where
        ob: "deriveSchemaTypeIfObjectType E t p c d = Returned ro c'"
        using forTsType_object_step [OF dm obj, of p c]
        by (auto simp: x outcomeOf_def split: outcome.splits option.splits)
      from ob show ?thesis
      proof (cases rule: ifObjectType_Returned_cases)
        case NoMatch
        then show ?thesis using info by simp
      next
        case (Known info')
        then show ?thesis using info fresh by simp
      next
        case (Derived info' ws props c2)
        have i: "info' = info" using Derived(1) info by simp
        have a: "keysPreserved c1 c2"
          by (rule propertyCalls_keys [OF yp ry Derived(3) [unfolded i]])
        have b: "keysPreserved c2 c'"
          unfolding Derived(5)
          by (rule assignKey_rel [of keysPreserved, OF keysPreserved_reflp
                keysPreserved_object_update])
        show ?thesis by (rule transpD [OF keysPreserved_transp a b])
      next
        case (Failed info' es ws props)
        have i: "info' = info" using Failed(1) info by simp
        show ?thesis by (rule propertyCalls_keys [OF yp ry Failed(3) [unfolded i]])
      qed
    qed
  qed
qed

lemma callChain_keys:
  "callChain E (x # xs) \<Longrightarrow> outcomeOf E (last (x # xs)) = Returned r1 c1 \<Longrightarrow>
   outcomeOf E x = Returned r c' \<Longrightarrow> keysPreserved c1 c'"
proof (induction xs arbitrary: x r c')
  case Nil
  then show ?case by (simp add: reflpD [OF keysPreserved_reflp])
next
  case (Cons y rest)
  have yx: "y \<in> set (directCalls E x)" and ch: "callChain E (y # rest)"
    using Cons.prems(1) by simp_all
  have la: "outcomeOf E (last (y # rest)) = Returned r1 c1" using Cons.prems(2) by simp
  show ?case
  proof (cases "outcomeOf E y")
    case (Thrown e)
    from directCalls_throw [OF yx Thrown] Cons.prems(3) show ?thesis by simp
  next
    case (Returned r2 c2)
    have a: "keysPreserved c1 c2" by (rule Cons.IH [OF ch la Returned])
    have b: "keysPreserved c2 c'" by (rule directCalls_keys [OF yx Returned Cons.prems(3)])
    show ?thesis by (rule transpD [OF keysPreserved_transp a b])
  qed
qed

subsection \<open>The calls made for a function\<close>

lemma parameterCalls_keys:
  "y \<in> set (parameterCalls E fn qs c) \<Longrightarrow> outcomeOf E y = Returned r1 c1 \<Longrightarrow>
   deriveParameters E fn qs iss b as c = Returned x c' \<Longrightarrow> keysPreserved c1 c'"
proof (induction qs arbitrary: iss b as c)
  case Nil
  then show ?case by simp
next
  case (Cons q rest)
  from Cons.prems(3) obtain ty where ty: "typeAtValueDeclaration q = Some ty"
    by (cases "typeAtValueDeclaration q") auto
  from Cons.prems(3) ty obtain r2 c2 where
    head: "deriveSchemaTypeForTsType E ty [FunctionParameter fn (getName q)] c 0 =
      Returned r2 c2"
    by (cases "deriveSchemaTypeForTsType E ty [FunctionParameter fn (getName q)] c 0") auto
  have tail: "\<exists>iss' b' as'. deriveParameters E fn rest iss' b' as' c2 = Returned x c'"
    using Cons.prems(3) ty head by (cases r2) auto
  then obtain iss' b' as' where
    tl: "deriveParameters E fn rest iss' b' as' c2 = Returned x c'" by blast
  show ?case
  proof (cases "y = (ty, [FunctionParameter fn (getName q)], c, 0)")
    case True
    then have "c1 = c2" using Cons.prems(2) head by (simp add: outcomeOf_def)
    then show ?thesis
      using deriveParameters_context_rel [of keysPreserved, OF keysPreserved_reflp
          keysPreserved_transp keysPreserved_object_update keysPreserved_scalar_update, OF tl]
      by simp
  next
    case False
    then have "y \<in> set (parameterCalls E fn rest c2)"
      using Cons.prems(1) ty head by simp
    from Cons.IH [OF this Cons.prems(2) tl] show ?thesis .
  qed
qed

lemma functionCalls_keys:
  assumes y: "y \<in> set (functionCalls E fd c)" and ry: "outcomeOf E y = Returned r1 c1"
    and rf: "deriveFunctionSchema E fd c = Returned res c'"
  shows "keysPreserved c1 c'"
proof -
  from rf obtain fn fsym sg sgs where
    fn: "declName fd = Some fn" and fsym: "getSymbolAtLocation fd = Some fsym"
    and sg: "getCallSignatures fsym = sg # sgs"
    by (auto simp: deriveFunctionSchema_def Let_def split: option.splits list.splits)
  from rf fn fsym sg obtain x c2 where
    ps: "deriveParameters E fn (getParameters sg) [] False [] c = Returned x c2"
    by (auto simp: deriveFunctionSchema_def Let_def split: outcome.splits)
  from rf fn fsym sg ps obtain r3 where
    rt: "deriveSchemaTypeForTsType E (getReturnType sg) [FunctionReturn fn] c2 0 =
      Returned r3 c'"
    by (cases x)
      (auto simp: deriveFunctionSchema_def Let_def
        split: outcome.splits DeriveSchemaTypeResult.splits)
  have b: "keysPreserved c2 c'" by (rule derive_keysPreserved(1) [OF rt])
  from y fn fsym sg ps consider
      (param) "y \<in> set (parameterCalls E fn (getParameters sg) c)"
    | (ret) "y = (getReturnType sg, [FunctionReturn fn], c2, 0)"
    by (auto simp: functionCalls_def)
  then show ?thesis
  proof cases
    case param
    have a: "keysPreserved c1 c2" by (rule parameterCalls_keys [OF param ry ps])
    show ?thesis by (rule transpD [OF keysPreserved_transp a b])
  next
    case ret
    then have "c1 = c'" using ry rt by (simp add: outcomeOf_def)
    then show ?thesis by (simp add: reflpD [OF keysPreserved_reflp])
  qed
qed

lemma parameterCalls_throw:
  "y \<in> set (parameterCalls E fn qs c) \<Longrightarrow> outcomeOf E y = Thrown e \<Longrightarrow>
   deriveParameters E fn qs iss b as c = Thrown e"
proof (induction qs arbitrary: iss b as c)
  case Nil
  then show ?case by simp
next
  case (Cons q rest)
  from Cons.prems(1) obtain ty where ty: "typeAtValueDeclaration q = Some ty"
    by (cases "typeAtValueDeclaration q") auto
  show ?case
  proof (cases "deriveSchemaTypeForTsType E ty [FunctionParameter fn (getName q)] c 0")
    case (Thrown e')
    then have "y = (ty, [FunctionParameter fn (getName q)], c, 0)"
      using Cons.prems(1) ty by simp
    then have "e' = e" using Cons.prems(2) Thrown by (simp add: outcomeOf_def)
    then show ?thesis using Thrown ty by simp
  next
    case (Returned r2 c2)
    have "y \<in> set (parameterCalls E fn rest c2)"
      using Cons.prems Returned ty by (auto simp: outcomeOf_def)
    from Cons.IH [OF this Cons.prems(2)] show ?thesis
      using Returned ty by (cases r2) simp_all
  qed
qed

lemma functionCalls_throw:
  assumes y: "y \<in> set (functionCalls E fd c)" and th: "outcomeOf E y = Thrown e"
  shows "deriveFunctionSchema E fd c = Thrown e"
proof -
  from y obtain fn where fn: "declName fd = Some fn"
    by (cases "declName fd") (auto simp: functionCalls_def)
  from y fn obtain fsym where fsym: "getSymbolAtLocation fd = Some fsym"
    by (cases "getSymbolAtLocation fd") (auto simp: functionCalls_def)
  from y fn fsym obtain sg sgs where sg: "getCallSignatures fsym = sg # sgs"
    by (cases "getCallSignatures fsym") (auto simp: functionCalls_def)
  show ?thesis
  proof (cases "deriveParameters E fn (getParameters sg) [] False [] c")
    case (Thrown e')
    then have "y \<in> set (parameterCalls E fn (getParameters sg) c)"
      using y fn fsym sg by (simp add: functionCalls_def)
    from parameterCalls_throw [OF this th, of "[]" False "[]"] Thrown
    show ?thesis using fn fsym sg by (simp add: deriveFunctionSchema_def Let_def)
  next
    case (Returned x c2)
    from y fn fsym sg Returned consider
        (param) "y \<in> set (parameterCalls E fn (getParameters sg) c)"
      | (ret) "y = (getReturnType sg, [FunctionReturn fn], c2, 0)"
      by (auto simp: functionCalls_def)
    then show ?thesis
    proof cases
      case param
      from parameterCalls_throw [OF param th, of "[]" False "[]"] Returned
      show ?thesis by simp
    next
      case ret
      then have "deriveSchemaTypeForTsType E (getReturnType sg) [FunctionReturn fn] c2 0 =
          Thrown e"
        using th by (simp add: outcomeOf_def)
      then show ?thesis
        using fn fsym sg Returned
        by (cases x) (simp add: deriveFunctionSchema_def Let_def)
    qed
  qed
qed

lemma functionCalls_chain_keys:
  assumes y: "y \<in> set (functionCalls E fd c)" and ch: "callChain E (y # ys)"
    and rl: "outcomeOf E (last (y # ys)) = Returned r1 c1"
    and rf: "deriveFunctionSchema E fd c = Returned res c'"
  shows "keysPreserved c1 c'"
proof (cases "outcomeOf E y")
  case (Thrown e)
  from functionCalls_throw [OF y Thrown] rf show ?thesis by simp
next
  case (Returned r2 c2)
  have a: "keysPreserved c1 c2" by (rule callChain_keys [OF ch rl Returned])
  have b: "keysPreserved c2 c'" by (rule functionCalls_keys [OF y Returned rf])
  show ?thesis by (rule transpD [OF keysPreserved_transp a b])
qed

lemma functionCalls_chain_throw:
  assumes y: "y \<in> set (functionCalls E fd c)" and ch: "callChain E (y # ys)"
    and th: "outcomeOf E (last (y # ys)) = Thrown e"
  shows "deriveFunctionSchema E fd c = Thrown e"
  by (rule functionCalls_throw [OF y callChain_throw [OF ch th]])

lemma deriveFunctions_throw:
  "deriveFunctions E pre fs fis c = Returned x0 c4 \<Longrightarrow>
   deriveFunctionSchema E fd c4 = Thrown e \<Longrightarrow>
   deriveFunctions E (pre @ fd # post) fs fis c = Thrown e"
  by (cases x0) (simp add: deriveFunctions_append)

lemma schema_keys:
  assumes s: "deriveSchemaFromFunctions dirname sf checker = Inr schema"
    and ds: "exportedFunctionDeclarations (children sf) = pre @ fd # post"
    and pr: "deriveFunctions \<lparr>typeChecker = checker, functionsFilePath = fileName sf,
                     pathDirname = dirname\<rparr> pre [] []
      \<lparr>objectTypeDefinitions = [], scalarTypeDefinitions = []\<rparr> = Returned x0 c4"
    and rf: "deriveFunctionSchema \<lparr>typeChecker = checker, functionsFilePath = fileName sf,
                          pathDirname = dirname\<rparr> fd c4 = Returned res c5"
  shows "fst ` set (objectTypeDefinitions c5) \<subseteq> fst ` set (objectTypes schema) \<and>
      fst ` set (scalarTypeDefinitions c5) \<subseteq> fst ` set (scalarTypes schema)"
proof -
  let ?E = "\<lparr>typeChecker = checker, functionsFilePath = fileName sf, pathDirname = dirname\<rparr>"
  let ?c0 = "\<lparr>objectTypeDefinitions = [], scalarTypeDefinitions = []\<rparr>"
  obtain F I cf where
    run: "deriveFunctions ?E (pre @ fd # post) [] [] ?c0 = Returned (F, I) cf"
    and fin: "objectTypes schema = objectTypeDefinitions cf"
      "scalarTypes schema = scalarTypeDefinitions cf"
    using s ds by (auto simp: deriveSchemaFromFunctions_def split: outcome.splits prod.splits)
  obtain F1 I1 where x0: "x0 = (F1, I1)" by (cases x0) blast
  have "\<exists>fs fis. deriveFunctions ?E post fs fis c5 = Returned (F, I) cf"
    using run pr rf x0 by (auto simp: deriveFunctions_append)
  then have "keysPreserved c5 cf"
    using deriveFunctions_keysPreserved by blast
  then show ?thesis using fin by (simp add: keysPreserved_def)
qed

lemma schema_returned_function:
  assumes s: "deriveSchemaFromFunctions dirname sf checker = Inr schema"
    and ds: "exportedFunctionDeclarations (children sf) = pre @ fd # post"
    and pr: "deriveFunctions \<lparr>typeChecker = checker, functionsFilePath = fileName sf,
                     pathDirname = dirname\<rparr> pre [] []
      \<lparr>objectTypeDefinitions = [], scalarTypeDefinitions = []\<rparr> = Returned x0 c4"
  shows "\<exists>res c5. deriveFunctionSchema \<lparr>typeChecker = checker,
      functionsFilePath = fileName sf, pathDirname = dirname\<rparr> fd c4 = Returned res c5"
proof -
  let ?E = "\<lparr>typeChecker = checker, functionsFilePath = fileName sf, pathDirname = dirname\<rparr>"
  let ?c0 = "\<lparr>objectTypeDefinitions = [], scalarTypeDefinitions = []\<rparr>"
  obtain F I cf where
    run: "deriveFunctions ?E (pre @ fd # post) [] [] ?c0 = Returned (F, I) cf"
    using s ds by (auto simp: deriveSchemaFromFunctions_def split: outcome.splits prod.splits)
  obtain F1 I1 where x0: "x0 = (F1, I1)" by (cases x0) blast
  show ?thesis
    using run pr x0
    by (cases "deriveFunctionSchema ?E fd c4") (auto simp: deriveFunctions_append)
qed

lemma propertyCalls_context:
  "y \<in> set (propertyCalls E n ms p c d) \<Longrightarrow> keysPreserved c (callContext y)"
proof (induction ms arbitrary: c)
  case Nil
  then show ?case by simp
next
  case (Cons a rest)
  obtain pn m where a: "a = (pn, m)" by (cases a) blast
  show ?case
  proof (cases "y = (m, p @ [ObjectProperty n pn], c, d + 1)")
    case True
    then show ?thesis by (simp add: callContext_def reflpD [OF keysPreserved_reflp])
  next
    case False
    then obtain r c1 where
      r: "deriveSchemaTypeForTsType E m (p @ [ObjectProperty n pn]) c (d + 1) = Returned r c1"
      and y: "y \<in> set (propertyCalls E n rest p c1 d)"
      using Cons.prems
      by (cases "deriveSchemaTypeForTsType E m (p @ [ObjectProperty n pn]) c (d + 1)")
        (auto simp: a)
    have k1: "keysPreserved c c1" by (rule derive_keysPreserved(1) [OF r])
    have k2: "keysPreserved c1 (callContext y)" by (rule Cons.IH [OF y])
    show ?thesis by (rule transpD [OF keysPreserved_transp k1 k2])
  qed
qed

lemma directCalls_placeholder:
  assumes y: "y \<in> set (directCalls E (t, p, c, d))" and obj: "reachesObjectStep E t"
    and info: "getObjectTypeInfo E t p = Inr (Some info)"
  shows "generatedTypeName info \<in> fst ` set (objectTypeDefinitions (callContext y))"
proof -
  from y obj obtain info' where
    i: "getObjectTypeInfo E t p = Inr (Some info')"
    and fresh: "\<not> keyIsTruthy (objectTypeDefinitions c) (generatedTypeName info')"
    and yp: "y \<in> set (propertyCalls E (generatedTypeName info') (members info') p
         (c\<lparr>objectTypeDefinitions :=
              assignKey (generatedTypeName info') \<lparr>properties = []\<rparr>
                (objectTypeDefinitions c)\<rparr>) d)"
    by (cases rule: directCalls_object) blast
  have ii: "info' = info" using i info by simp
  have "generatedTypeName info \<in> fst ` set (assignKey (generatedTypeName info)
      \<lparr>properties = []\<rparr> (objectTypeDefinitions c))"
    using not_truthy_not_proto [OF fresh] ii
    by (simp add: assignKey_def dom_update)
  then show ?thesis
    using propertyCalls_context [OF yp] ii by (auto simp: keysPreserved_def)
qed

lemma forTsType_scalar_form:
  assumes depth: "d \<le> MAX_TYPE_DERIVATION_RECURSION"
    and a: "\<not> isUnsupportedForm E t" "\<not> isArrayForm E t" "isScalarForm E t"
  shows "\<exists>nm. deriveSchemaTypeForTsType E t p c d =
      Returned (TypeResult (NamedType nm Scalar) [])
        (c\<lparr>scalarTypeDefinitions := AList.update nm () (scalarTypeDefinitions c)\<rparr>)"
proof -
  have fe: "deriveSchemaTypeForTsType E t p c d =
      (case deriveSchemaTypeIfScalarType E t c of
         (Some r, c2) \<Rightarrow> Returned r c2
       | (None, c2) \<Rightarrow>
           (case deriveSchemaTypeIfNullableType E t p c2 d of
              Thrown e \<Rightarrow> Thrown e
            | Returned (Some r) c3 \<Rightarrow> Returned r c3
            | Returned None c3 \<Rightarrow>
                (case deriveSchemaTypeIfObjectType E t p c3 d of
                   Thrown e \<Rightarrow> Thrown e
                 | Returned (Some r) c4 \<Rightarrow> Returned r c4
                 | Returned None c4 \<Rightarrow> Returned (ErrorsResult [''fallback'']) c4)))"
    using forTsType_not_unsupported [OF depth a(1), of p c] a(2)
    by (simp add: ifTsArrayType_no_match)
  from a(3) consider
      (boolean) "isIntrinsicBooleanType (typeChecker E t)"
    | (string) "\<not> isIntrinsicBooleanType (typeChecker E t)"
        "isIntrinsicStringType (typeChecker E t)"
    | (number) "\<not> isIntrinsicBooleanType (typeChecker E t)"
        "\<not> isIntrinsicStringType (typeChecker E t)" "isIntrinsicNumberType (typeChecker E t)"
    by (auto simp: isScalarForm_def)
  then show ?thesis
  proof cases
    case boolean
    then have "deriveSchemaTypeIfScalarType E t c =
        (Some (TypeResult (NamedType ''Boolean'' Scalar) []),
         c\<lparr>scalarTypeDefinitions := AList.update ''Boolean'' () (scalarTypeDefinitions c)\<rparr>)"
      by (simp add: deriveSchemaTypeIfScalarType_def)
    then show ?thesis unfolding fe by (intro exI [of _ "''Boolean''"]) simp
  next
    case string
    then have "deriveSchemaTypeIfScalarType E t c =
        (Some (TypeResult (NamedType ''String'' Scalar) []),
         c\<lparr>scalarTypeDefinitions := AList.update ''String'' () (scalarTypeDefinitions c)\<rparr>)"
      by (simp add: deriveSchemaTypeIfScalarType_def)
    then show ?thesis unfolding fe by (intro exI [of _ "''String''"]) simp
  next
    case number
    then have "deriveSchemaTypeIfScalarType E t c =
        (Some (TypeResult (NamedType ''Float'' Scalar) []),
         c\<lparr>scalarTypeDefinitions := AList.update ''Float'' () (scalarTypeDefinitions c)\<rparr>)"
      by (simp add: deriveSchemaTypeIfScalarType_def)
    then show ?thesis unfolding fe by (intro exI [of _ "''Float''"]) simp
  qed
qed

lemma forTsType_Returned_depth:
  "deriveSchemaTypeForTsType E t p c d = Returned r c' \<Longrightarrow>
     d \<le> MAX_TYPE_DERIVATION_RECURSION"
  using forTsType_beyond_ceiling [of d E t p c] by (cases "d \<le> MAX_TYPE_DERIVATION_RECURSION") auto

subsection \<open>Object types that are registered, and object types that refer to themselves\<close>

lemma update_fresh: "map_of al k = None \<Longrightarrow> AList.update k v al = al @ [(k, v)]"
  by (induction al) (auto split: if_splits)


















section \<open>The claims\<close>

text \<open>
  C8. A structured type without a declared or alias name is named by its type path, the
  segments joined with underscores. The code renders an \<open>ObjectProperty\<close> segment as
  \<^verbatim>\<open>field_'propertyName\<close>, with an apostrophe after the underscore, and not as
  \<^verbatim>\<open>field_propertyName\<close>: on the path of property \<^verbatim>\<open>a\<close> of parameter \<^verbatim>\<open>x\<close> of function
  \<^verbatim>\<open>f\<close> the generated name is \<^verbatim>\<open>f_arguments_x_field_'a\<close>.
\<close>

theorem generateTypeNameFromTypePath_property_apostrophe:
  "generateTypeNameFromTypePath
     [FunctionParameter ''f'' ''x'', ObjectProperty ''f_arguments_x'' ''a''] =
     ''f_arguments_x_field_'' @ [CHR 0x27] @ ''a'' \<and>
   generateTypeNameFromTypePath
     [FunctionParameter ''f'' ''x'', ObjectProperty ''f_arguments_x'' ''a''] \<noteq>
     ''f_arguments_x_field_a'' \<and>
   generateTypeNameFromTypePath [FunctionReturn ''f'', ArraySegment] = ''f_output_array''"
  by (simp add: generateTypeNameFromTypePath_def)

text \<open>
  C2. A type alias declared in \<^verbatim>\<open>/lib/types.ts\<close>, outside the directory \<^verbatim>\<open>/home/proj\<close>
  of the entry file, is not refused. The test \<^verbatim>\<open>short.length < where.length\<close> is meant
  to tell that the directory was found in the path, but removing the trailing \<^verbatim>\<open>.ts\<close>
  already makes the path shorter: the "Unsupported location" branch is not taken, the
  name is qualified with the whole sanitized path, and the function that takes the type
  is derived without any issue.
\<close>

theorem qualifyTypeName_outside_directory_accepted:
  "\<not> sublist (pathDirname (envOf locationChecker) (functionsFilePath (envOf locationChecker)) @ ''/'')
        ''/lib/types.ts'' \<and>
   qualifyTypeName (envOf locationChecker) 4 [FunctionParameter ''f'' ''x''] (Some ''T'') =
     Inr ''lib_types_T'' \<and>
   deriveSchemaFromFunctions (\<lambda>_. ''/home/proj'') outsideSource locationChecker =
     Inr \<lparr>functionDefs =
            [(''f'', \<lparr>description = None, ndcKind = Procedure,
                      arguments = [\<lparr>argumentName = ''x'', argDescription = None,
                                     argType = NamedType ''lib_types_T'' Object\<rparr>],
                      resultType = NamedType ''String'' Scalar\<rparr>)],
          objectTypes =
            [(''lib_types_T'', \<lparr>properties = [(''a'', NamedType ''String'' Scalar)]\<rparr>)],
          scalarTypes = [(''String'', ())],
          functionIssues = []\<rparr>"
  apply (intro conjI)
  subgoal by code_simp
  subgoal by code_simp
  subgoal by code_simp
  done

text \<open>
  C1. When a property of an object type fails to derive, the errors of all properties are
  returned as one error list, but the placeholder that was registered before the
  properties were derived stays in \<open>objectTypeDefinitions\<close>. With
  \<^verbatim>\<open>type Job = { done: Promise<string> }\<close>, deriving \<^verbatim>\<open>Job\<close> returns the error and leaves
  \<^verbatim>\<open>Job\<close> registered with no properties; a second function that takes a \<^verbatim>\<open>Job\<close> then finds
  the name registered and is derived without any issue, and the schema has \<^verbatim>\<open>Job\<close> as an
  object type without properties.
\<close>

theorem failed_object_type_leaves_placeholder:
  "deriveSchemaTypeForTsType (envOf promiseChecker) 3 [FunctionParameter ''f'' ''x'']
       emptyContext 0 =
     Returned (ErrorsResult [promiseIssue])
       \<lparr>objectTypeDefinitions = [(''Job'', \<lparr>properties = []\<rparr>)],
        scalarTypeDefinitions = []\<rparr> \<and>
   deriveSchemaFromFunctions (\<lambda>_. ''/home/proj'') jobSource promiseChecker =
     Inr \<lparr>functionDefs =
            [(''g'', \<lparr>description = None, ndcKind = Procedure,
                      arguments = [\<lparr>argumentName = ''y'', argDescription = None,
                                     argType = NamedType ''Job'' Object\<rparr>],
                      resultType = NamedType ''String'' Scalar\<rparr>)],
          objectTypes = [(''Job'', \<lparr>properties = []\<rparr>)],
          scalarTypes = [(''String'', ())],
          functionIssues = [(''f'', [promiseIssue])]\<rparr>"
  by (intro conjI; code_simp)

text \<open>
  C3. Take a union type with a null and/or an undefined member. If exactly one member is
  left when the null and undefined members are removed, the nullable step derives that
  member under the same path, one level deeper, and wraps its type definition in
  \<open>NullableType\<close> with the acceptance of the markers present (errors and exceptions of
  the member pass through); the whole derivation does so when the type is within the
  depth ceiling and none of the earlier forms (unsupported, array, scalar). If no member
  or more than one is left, the nullable step does not match and the derivation goes on
  with the object step and then the fallback error. When the type checker reports unions
  flattened (no member of a union is a union, as TypeScript does), no type definition
  that is derived has a \<open>NullableType\<close> directly inside a \<open>NullableType\<close>.
\<close>

theorem nullable_union_derivation:
  "(isUnion (typeChecker E t) \<and> (hasNullMember E t \<or> hasUndefinedMember E t) \<and>
    strippedMembers E t = [u] \<longrightarrow>
      deriveSchemaTypeIfNullableType E t p c d =
        (case deriveSchemaTypeForTsType E u p c (d + 1) of
           Thrown e \<Rightarrow> Thrown e
         | Returned (ErrorsResult es) c1 \<Rightarrow> Returned (Some (ErrorsResult es)) c1
         | Returned (TypeResult td ws) c1 \<Rightarrow>
             Returned (Some (TypeResult (NullableType td (acceptanceOf E t)) ws)) c1) \<and>
      (d \<le> MAX_TYPE_DERIVATION_RECURSION \<and> \<not> isUnsupportedForm E t \<and>
       \<not> isArrayForm E t \<and> \<not> isScalarForm E t \<longrightarrow>
         deriveSchemaTypeForTsType E t p c d =
           (case deriveSchemaTypeForTsType E u p c (d + 1) of
              Thrown e \<Rightarrow> Thrown e
            | Returned (ErrorsResult es) c1 \<Rightarrow> Returned (ErrorsResult es) c1
            | Returned (TypeResult td ws) c1 \<Rightarrow>
                Returned (TypeResult (NullableType td (acceptanceOf E t)) ws) c1))) \<and>
   (isUnion (typeChecker E t) \<and> (hasNullMember E t \<or> hasUndefinedMember E t) \<and>
    length (strippedMembers E t) \<noteq> 1 \<longrightarrow>
      deriveSchemaTypeIfNullableType E t p c d = Returned None c \<and>
      (d \<le> MAX_TYPE_DERIVATION_RECURSION \<and> \<not> isUnsupportedForm E t \<and>
       \<not> isArrayForm E t \<and> \<not> isScalarForm E t \<longrightarrow>
         deriveSchemaTypeForTsType E t p c d =
           (case deriveSchemaTypeIfObjectType E t p c d of
              Thrown e \<Rightarrow> Thrown e
            | Returned (Some r) c1 \<Rightarrow> Returned r c1
            | Returned None c1 \<Rightarrow> Returned (ErrorsResult [''fallback'']) c1))) \<and>
   (flatUnions E \<and>
    deriveSchemaTypeForTsType E t p c d = Returned (TypeResult td0 ws0) c0 \<longrightarrow>
      \<not> nullableWrapsNullable td0)"
proof -
  have A: "isUnion (typeChecker E t) \<and> (hasNullMember E t \<or> hasUndefinedMember E t) \<and>
    strippedMembers E t = [u] \<longrightarrow>
      deriveSchemaTypeIfNullableType E t p c d =
        (case deriveSchemaTypeForTsType E u p c (d + 1) of
           Thrown e \<Rightarrow> Thrown e
         | Returned (ErrorsResult es) c1 \<Rightarrow> Returned (Some (ErrorsResult es)) c1
         | Returned (TypeResult td ws) c1 \<Rightarrow>
             Returned (Some (TypeResult (NullableType td (acceptanceOf E t)) ws)) c1) \<and>
      (d \<le> MAX_TYPE_DERIVATION_RECURSION \<and> \<not> isUnsupportedForm E t \<and>
       \<not> isArrayForm E t \<and> \<not> isScalarForm E t \<longrightarrow>
         deriveSchemaTypeForTsType E t p c d =
           (case deriveSchemaTypeForTsType E u p c (d + 1) of
              Thrown e \<Rightarrow> Thrown e
            | Returned (ErrorsResult es) c1 \<Rightarrow> Returned (ErrorsResult es) c1
            | Returned (TypeResult td ws) c1 \<Rightarrow>
                Returned (TypeResult (NullableType td (acceptanceOf E t)) ws) c1))"
  proof
    assume a: "isUnion (typeChecker E t) \<and> (hasNullMember E t \<or> hasUndefinedMember E t) \<and>
      strippedMembers E t = [u]"
    then have un: "unwrapNullableType E t = Some (u, acceptanceOf E t)"
      by (simp add: unwrapNullableType_eq)
    have n: "deriveSchemaTypeIfNullableType E t p c d =
        (case deriveSchemaTypeForTsType E u p c (d + 1) of
           Thrown e \<Rightarrow> Thrown e
         | Returned (ErrorsResult es) c1 \<Rightarrow> Returned (Some (ErrorsResult es)) c1
         | Returned (TypeResult td ws) c1 \<Rightarrow>
             Returned (Some (TypeResult (NullableType td (acceptanceOf E t)) ws)) c1)"
      by (simp add: deriveSchemaTypeIfNullableType.simps un)
    have f: "d \<le> MAX_TYPE_DERIVATION_RECURSION \<and> \<not> isUnsupportedForm E t \<and>
       \<not> isArrayForm E t \<and> \<not> isScalarForm E t \<longrightarrow>
         deriveSchemaTypeForTsType E t p c d =
           (case deriveSchemaTypeForTsType E u p c (d + 1) of
              Thrown e \<Rightarrow> Thrown e
            | Returned (ErrorsResult es) c1 \<Rightarrow> Returned (ErrorsResult es) c1
            | Returned (TypeResult td ws) c1 \<Rightarrow>
                Returned (TypeResult (NullableType td (acceptanceOf E t)) ws) c1)"
    proof
      assume g: "d \<le> MAX_TYPE_DERIVATION_RECURSION \<and> \<not> isUnsupportedForm E t \<and>
        \<not> isArrayForm E t \<and> \<not> isScalarForm E t"
      then have "deriveSchemaTypeForTsType E t p c d =
        (case deriveSchemaTypeIfNullableType E t p c d of
           Thrown e \<Rightarrow> Thrown e
         | Returned (Some r) c3 \<Rightarrow> Returned r c3
         | Returned None c3 \<Rightarrow>
             (case deriveSchemaTypeIfObjectType E t p c3 d of
                Thrown e \<Rightarrow> Thrown e
              | Returned (Some r) c4 \<Rightarrow> Returned r c4
              | Returned None c4 \<Rightarrow> Returned (ErrorsResult [''fallback'']) c4))"
        using forTsType_after_scalar by blast
      note fe = this
      show "deriveSchemaTypeForTsType E t p c d =
           (case deriveSchemaTypeForTsType E u p c (d + 1) of
              Thrown e \<Rightarrow> Thrown e
            | Returned (ErrorsResult es) c1 \<Rightarrow> Returned (ErrorsResult es) c1
            | Returned (TypeResult td ws) c1 \<Rightarrow>
                Returned (TypeResult (NullableType td (acceptanceOf E t)) ws) c1)"
      proof (cases "deriveSchemaTypeForTsType E u p c (d + 1)")
        case (Thrown e)
        then show ?thesis using fe n by simp
      next
        case (Returned r c1)
        then show ?thesis using fe n by (cases r) simp_all
      qed
    qed
    show "deriveSchemaTypeIfNullableType E t p c d =
        (case deriveSchemaTypeForTsType E u p c (d + 1) of
           Thrown e \<Rightarrow> Thrown e
         | Returned (ErrorsResult es) c1 \<Rightarrow> Returned (Some (ErrorsResult es)) c1
         | Returned (TypeResult td ws) c1 \<Rightarrow>
             Returned (Some (TypeResult (NullableType td (acceptanceOf E t)) ws)) c1) \<and>
      (d \<le> MAX_TYPE_DERIVATION_RECURSION \<and> \<not> isUnsupportedForm E t \<and>
       \<not> isArrayForm E t \<and> \<not> isScalarForm E t \<longrightarrow>
         deriveSchemaTypeForTsType E t p c d =
           (case deriveSchemaTypeForTsType E u p c (d + 1) of
              Thrown e \<Rightarrow> Thrown e
            | Returned (ErrorsResult es) c1 \<Rightarrow> Returned (ErrorsResult es) c1
            | Returned (TypeResult td ws) c1 \<Rightarrow>
                Returned (TypeResult (NullableType td (acceptanceOf E t)) ws) c1))"
      by (rule conjI [OF n f])
  qed
  have B: "isUnion (typeChecker E t) \<and> (hasNullMember E t \<or> hasUndefinedMember E t) \<and>
    length (strippedMembers E t) \<noteq> 1 \<longrightarrow>
      deriveSchemaTypeIfNullableType E t p c d = Returned None c \<and>
      (d \<le> MAX_TYPE_DERIVATION_RECURSION \<and> \<not> isUnsupportedForm E t \<and>
       \<not> isArrayForm E t \<and> \<not> isScalarForm E t \<longrightarrow>
         deriveSchemaTypeForTsType E t p c d =
           (case deriveSchemaTypeIfObjectType E t p c d of
              Thrown e \<Rightarrow> Thrown e
            | Returned (Some r) c1 \<Rightarrow> Returned r c1
            | Returned None c1 \<Rightarrow> Returned (ErrorsResult [''fallback'']) c1))"
  proof
    assume a: "isUnion (typeChecker E t) \<and> (hasNullMember E t \<or> hasUndefinedMember E t) \<and>
      length (strippedMembers E t) \<noteq> 1"
    then have un: "unwrapNullableType E t = None"
      by (auto simp: unwrapNullableType_eq split: list.splits)
    have n: "deriveSchemaTypeIfNullableType E t p c d = Returned None c"
      by (simp add: deriveSchemaTypeIfNullableType.simps un)
    have f: "d \<le> MAX_TYPE_DERIVATION_RECURSION \<and> \<not> isUnsupportedForm E t \<and>
       \<not> isArrayForm E t \<and> \<not> isScalarForm E t \<longrightarrow>
         deriveSchemaTypeForTsType E t p c d =
           (case deriveSchemaTypeIfObjectType E t p c d of
              Thrown e \<Rightarrow> Thrown e
            | Returned (Some r) c1 \<Rightarrow> Returned r c1
            | Returned None c1 \<Rightarrow> Returned (ErrorsResult [''fallback'']) c1)"
    proof
      assume g: "d \<le> MAX_TYPE_DERIVATION_RECURSION \<and> \<not> isUnsupportedForm E t \<and>
        \<not> isArrayForm E t \<and> \<not> isScalarForm E t"
      then have "deriveSchemaTypeForTsType E t p c d =
        (case deriveSchemaTypeIfNullableType E t p c d of
           Thrown e \<Rightarrow> Thrown e
         | Returned (Some r) c3 \<Rightarrow> Returned r c3
         | Returned None c3 \<Rightarrow>
             (case deriveSchemaTypeIfObjectType E t p c3 d of
                Thrown e \<Rightarrow> Thrown e
              | Returned (Some r) c4 \<Rightarrow> Returned r c4
              | Returned None c4 \<Rightarrow> Returned (ErrorsResult [''fallback'']) c4))"
        using forTsType_after_scalar by blast
      then show "deriveSchemaTypeForTsType E t p c d =
           (case deriveSchemaTypeIfObjectType E t p c d of
              Thrown e \<Rightarrow> Thrown e
            | Returned (Some r) c1 \<Rightarrow> Returned r c1
            | Returned None c1 \<Rightarrow> Returned (ErrorsResult [''fallback'']) c1)"
        unfolding n by simp
    qed
    show "deriveSchemaTypeIfNullableType E t p c d = Returned None c \<and>
      (d \<le> MAX_TYPE_DERIVATION_RECURSION \<and> \<not> isUnsupportedForm E t \<and>
       \<not> isArrayForm E t \<and> \<not> isScalarForm E t \<longrightarrow>
         deriveSchemaTypeForTsType E t p c d =
           (case deriveSchemaTypeIfObjectType E t p c d of
              Thrown e \<Rightarrow> Thrown e
            | Returned (Some r) c1 \<Rightarrow> Returned r c1
            | Returned None c1 \<Rightarrow> Returned (ErrorsResult [''fallback'']) c1))"
      by (rule conjI [OF n f])
  qed
  have C: "flatUnions E \<and>
    deriveSchemaTypeForTsType E t p c d = Returned (TypeResult td0 ws0) c0 \<longrightarrow>
      \<not> nullableWrapsNullable td0"
    using derive_no_nested_nullable(1) by blast
  show ?thesis by (rule conjI [OF A conjI [OF B C]])
qed

theorem nullable_union_derivation_witness:
  "deriveSchemaTypeForTsType (envOf unionChecker) 4 [FunctionReturn ''f''] emptyContext 0 =
     Returned (TypeResult (NullableType (NamedType ''String'' Scalar) AcceptsNullOnly) [])
       \<lparr>objectTypeDefinitions = [], scalarTypeDefinitions = [(''String'', ())]\<rparr> \<and>
   deriveSchemaTypeIfNullableType (envOf unionChecker) 6 [FunctionReturn ''f''] emptyContext 0 =
     Returned (Some (TypeResult (NullableType (NamedType ''String'' Scalar) AcceptsEither) []))
       \<lparr>objectTypeDefinitions = [], scalarTypeDefinitions = [(''String'', ())]\<rparr> \<and>
   deriveSchemaTypeIfNullableType (envOf unionChecker) 7 [FunctionReturn ''f''] emptyContext 0 =
     Returned None emptyContext \<and>
   deriveSchemaTypeForTsType (envOf unionChecker) 7 [FunctionReturn ''f''] emptyContext 0 =
     Returned (ErrorsResult [''fallback'']) emptyContext \<and>
   \<not> nullableWrapsNullable (NullableType (NamedType ''String'' Scalar) AcceptsNullOnly)"
proof -
  let ?E = "envOf unionChecker"
  let ?p = "[FunctionReturn ''f'']"
  let ?c = "\<lparr>objectTypeDefinitions = [], scalarTypeDefinitions = [(''String'', ())]\<rparr>"
  have u4: "isUnion (typeChecker ?E 4) \<and> (hasNullMember ?E 4 \<or> hasUndefinedMember ?E 4) \<and>
      strippedMembers ?E 4 = [0]"
    by code_simp
  have g4: "(0::nat) \<le> MAX_TYPE_DERIVATION_RECURSION \<and> \<not> isUnsupportedForm ?E 4 \<and>
      \<not> isArrayForm ?E 4 \<and> \<not> isScalarForm ?E 4"
    by code_simp
  have a4: "acceptanceOf ?E 4 = AcceptsNullOnly"
    by code_simp
  have s0: "deriveSchemaTypeForTsType ?E 0 ?p emptyContext (Suc 0) =
      Returned (TypeResult (NamedType ''String'' Scalar) []) ?c"
    by code_simp
  have u6: "isUnion (typeChecker ?E 6) \<and> (hasNullMember ?E 6 \<or> hasUndefinedMember ?E 6) \<and>
      strippedMembers ?E 6 = [0]"
    by code_simp
  have a6: "acceptanceOf ?E 6 = AcceptsEither"
    by code_simp
  have u7: "isUnion (typeChecker ?E 7) \<and> (hasNullMember ?E 7 \<or> hasUndefinedMember ?E 7) \<and>
      length (strippedMembers ?E 7) \<noteq> 1"
    by code_simp
  have g7: "(0::nat) \<le> MAX_TYPE_DERIVATION_RECURSION \<and> \<not> isUnsupportedForm ?E 7 \<and>
      \<not> isArrayForm ?E 7 \<and> \<not> isScalarForm ?E 7"
    by code_simp
  have o7: "deriveSchemaTypeIfObjectType ?E 7 ?p emptyContext 0 = Returned None emptyContext"
    by code_simp
  have r4: "deriveSchemaTypeForTsType ?E 4 ?p emptyContext 0 =
     Returned (TypeResult (NullableType (NamedType ''String'' Scalar) AcceptsNullOnly) []) ?c"
    using nullable_union_derivation [where E = "?E" and t = 4 and u = 0 and p = "?p"
        and c = emptyContext and d = 0] u4 g4
    by (simp add: s0 a4)
  have r6: "deriveSchemaTypeIfNullableType ?E 6 ?p emptyContext 0 =
     Returned (Some (TypeResult (NullableType (NamedType ''String'' Scalar) AcceptsEither) [])) ?c"
    using nullable_union_derivation [where E = "?E" and t = 6 and u = 0 and p = "?p"
        and c = emptyContext and d = 0] u6
    by (simp add: s0 a6)
  have r7: "deriveSchemaTypeIfNullableType ?E 7 ?p emptyContext 0 = Returned None emptyContext \<and>
     deriveSchemaTypeForTsType ?E 7 ?p emptyContext 0 =
       Returned (ErrorsResult [''fallback'']) emptyContext"
    using nullable_union_derivation [where E = "?E" and t = 7 and p = "?p"
        and c = emptyContext and d = 0] u7 g7
    by (simp add: o7)
  have n4: "\<not> nullableWrapsNullable (NullableType (NamedType ''String'' Scalar) AcceptsNullOnly)"
    using nullable_union_derivation [where E = "?E" and t = 4 and p = "?p"
        and c = emptyContext and d = 0
        and ?td0.0 = "NullableType (NamedType ''String'' Scalar) AcceptsNullOnly"
        and ?ws0.0 = "[]" and ?c0.0 = ?c] flatUnions_unionChecker r4
    by blast
  show ?thesis using r4 r6 r7 n4 by simp
qed

text \<open>
  C7. Within the depth ceiling, a type is classified in a fixed order. A \<^verbatim>\<open>Promise\<close> is
  refused first, then a class instance, then \<^verbatim>\<open>void\<close>, each with its own error and
  whatever else the type is. Of the remaining forms an array is derived as an array
  whatever else it is; a type that is no array and a scalar is derived as that scalar
  (boolean before string before number); a type that is neither and a nullable union
  is derived as a nullable; otherwise the object step decides, and a type that is no
  object type either gets the error \<^verbatim>\<open>fallback\<close>.
\<close>

theorem classification_order:
  assumes depth: "d \<le> MAX_TYPE_DERIVATION_RECURSION"
  shows
  "(unwrapPromiseType E t \<noteq> None \<longrightarrow>
      deriveSchemaTypeForTsType E t p c d =
        Returned (ErrorsResult
          [''Promise types are not supported, but one was encountered in '' @
           typePathToString p @ ''.'']) c) \<and>
   (unwrapPromiseType E t = None \<and>
    isObjectType (typeChecker E t) \<and> flagClass (typeChecker E t) \<longrightarrow>
      deriveSchemaTypeForTsType E t p c d =
        Returned (ErrorsResult
          [''Class types are not supported, but one was encountered in '' @
           typePathToString p]) c) \<and>
   (unwrapPromiseType E t = None \<and>
    \<not> (isObjectType (typeChecker E t) \<and> flagClass (typeChecker E t)) \<and>
    isIntrinsicVoidType (typeChecker E t) \<longrightarrow>
      deriveSchemaTypeForTsType E t p c d =
        Returned (ErrorsResult
          [''The void type is not supported, but one was encountered in '' @
           typePathToString p]) c) \<and>
   (\<not> isUnsupportedForm E t \<and> isArrayType (typeChecker E t) \<and>
    isTypeReference (typeChecker E t) \<and> getTypeArguments (typeChecker E t) = [innerType] \<longrightarrow>
      deriveSchemaTypeForTsType E t p c d =
        (case deriveSchemaTypeForTsType E innerType (p @ [ArraySegment]) c (d + 1) of
           Thrown e \<Rightarrow> Thrown e
         | Returned (ErrorsResult es) c1 \<Rightarrow> Returned (ErrorsResult es) c1
         | Returned (TypeResult td ws) c1 \<Rightarrow> Returned (TypeResult (ArrayType td) ws) c1)) \<and>
   (\<not> isUnsupportedForm E t \<and> \<not> isArrayForm E t \<and> isScalarForm E t \<longrightarrow>
      deriveSchemaTypeForTsType E t p c d =
        Returned
          (TypeResult
             (NamedType
                (if isIntrinsicBooleanType (typeChecker E t) then ''Boolean''
                 else if isIntrinsicStringType (typeChecker E t) then ''String''
                 else ''Float'') Scalar) [])
          (c\<lparr>scalarTypeDefinitions :=
               AList.update
                 (if isIntrinsicBooleanType (typeChecker E t) then ''Boolean''
                  else if isIntrinsicStringType (typeChecker E t) then ''String''
                  else ''Float'') () (scalarTypeDefinitions c)\<rparr>)) \<and>
   (\<not> isUnsupportedForm E t \<and> \<not> isArrayForm E t \<and> \<not> isScalarForm E t \<and>
    unwrapNullableType E t = Some (u, n) \<longrightarrow>
      deriveSchemaTypeForTsType E t p c d =
        (case deriveSchemaTypeForTsType E u p c (d + 1) of
           Thrown e \<Rightarrow> Thrown e
         | Returned (ErrorsResult es) c1 \<Rightarrow> Returned (ErrorsResult es) c1
         | Returned (TypeResult td ws) c1 \<Rightarrow> Returned (TypeResult (NullableType td n) ws) c1)) \<and>
   (\<not> isUnsupportedForm E t \<and> \<not> isArrayForm E t \<and> \<not> isScalarForm E t \<and>
    unwrapNullableType E t = None \<longrightarrow>
      deriveSchemaTypeForTsType E t p c d =
        (case deriveSchemaTypeIfObjectType E t p c d of
           Thrown e \<Rightarrow> Thrown e
         | Returned (Some r) c1 \<Rightarrow> Returned r c1
         | Returned None c1 \<Rightarrow> Returned (ErrorsResult [''fallback'']) c1)) \<and>
   (\<not> isUnsupportedForm E t \<and> \<not> isArrayForm E t \<and> \<not> isScalarForm E t \<and>
    unwrapNullableType E t = None \<and> getObjectTypeInfo E t p = Inr None \<longrightarrow>
      deriveSchemaTypeForTsType E t p c d = Returned (ErrorsResult [''fallback'']) c)"
proof -
  have nd: "\<not> MAX_TYPE_DERIVATION_RECURSION < d" using depth by simp
  have P: "unwrapPromiseType E t \<noteq> None \<longrightarrow>
      deriveSchemaTypeForTsType E t p c d =
        Returned (ErrorsResult
          [''Promise types are not supported, but one was encountered in '' @
           typePathToString p @ ''.'']) c"
    using nd by (subst deriveSchemaTypeForTsType.simps) simp
  have C: "unwrapPromiseType E t = None \<and>
    isObjectType (typeChecker E t) \<and> flagClass (typeChecker E t) \<longrightarrow>
      deriveSchemaTypeForTsType E t p c d =
        Returned (ErrorsResult
          [''Class types are not supported, but one was encountered in '' @
           typePathToString p]) c"
    using nd by (subst deriveSchemaTypeForTsType.simps) simp
  have V: "unwrapPromiseType E t = None \<and>
    \<not> (isObjectType (typeChecker E t) \<and> flagClass (typeChecker E t)) \<and>
    isIntrinsicVoidType (typeChecker E t) \<longrightarrow>
      deriveSchemaTypeForTsType E t p c d =
        Returned (ErrorsResult
          [''The void type is not supported, but one was encountered in '' @
           typePathToString p]) c"
    using nd by (subst deriveSchemaTypeForTsType.simps) auto
  have A: "\<not> isUnsupportedForm E t \<and> isArrayType (typeChecker E t) \<and>
    isTypeReference (typeChecker E t) \<and> getTypeArguments (typeChecker E t) = [innerType] \<longrightarrow>
      deriveSchemaTypeForTsType E t p c d =
        (case deriveSchemaTypeForTsType E innerType (p @ [ArraySegment]) c (d + 1) of
           Thrown e \<Rightarrow> Thrown e
         | Returned (ErrorsResult es) c1 \<Rightarrow> Returned (ErrorsResult es) c1
         | Returned (TypeResult td ws) c1 \<Rightarrow> Returned (TypeResult (ArrayType td) ws) c1)"
  proof
    assume a: "\<not> isUnsupportedForm E t \<and> isArrayType (typeChecker E t) \<and>
      isTypeReference (typeChecker E t) \<and> getTypeArguments (typeChecker E t) = [innerType]"
    have arr: "deriveSchemaTypeIfTsArrayType E t p c d =
        (case deriveSchemaTypeForTsType E innerType (p @ [ArraySegment]) c (d + 1) of
           Thrown e \<Rightarrow> Thrown e
         | Returned (ErrorsResult es) c1 \<Rightarrow> Returned (Some (ErrorsResult es)) c1
         | Returned (TypeResult td ws) c1 \<Rightarrow> Returned (Some (TypeResult (ArrayType td) ws)) c1)"
      using a by (simp add: deriveSchemaTypeIfTsArrayType.simps)
    note fe = forTsType_not_unsupported [OF depth, of E t p c] 
    show "deriveSchemaTypeForTsType E t p c d =
        (case deriveSchemaTypeForTsType E innerType (p @ [ArraySegment]) c (d + 1) of
           Thrown e \<Rightarrow> Thrown e
         | Returned (ErrorsResult es) c1 \<Rightarrow> Returned (ErrorsResult es) c1
         | Returned (TypeResult td ws) c1 \<Rightarrow> Returned (TypeResult (ArrayType td) ws) c1)"
    proof (cases "deriveSchemaTypeForTsType E innerType (p @ [ArraySegment]) c (d + 1)")
      case (Thrown e)
      then show ?thesis using fe a arr by simp
    next
      case (Returned r c1)
      then show ?thesis using fe a arr by (cases r) simp_all
    qed
  qed
  have S: "\<not> isUnsupportedForm E t \<and> \<not> isArrayForm E t \<and> isScalarForm E t \<longrightarrow>
      deriveSchemaTypeForTsType E t p c d =
        Returned
          (TypeResult
             (NamedType
                (if isIntrinsicBooleanType (typeChecker E t) then ''Boolean''
                 else if isIntrinsicStringType (typeChecker E t) then ''String''
                 else ''Float'') Scalar) [])
          (c\<lparr>scalarTypeDefinitions :=
               AList.update
                 (if isIntrinsicBooleanType (typeChecker E t) then ''Boolean''
                  else if isIntrinsicStringType (typeChecker E t) then ''String''
                  else ''Float'') () (scalarTypeDefinitions c)\<rparr>)"
  proof
    assume a: "\<not> isUnsupportedForm E t \<and> \<not> isArrayForm E t \<and> isScalarForm E t"
    have fe: "deriveSchemaTypeForTsType E t p c d =
        (case deriveSchemaTypeIfScalarType E t c of
                (Some r, c2) \<Rightarrow> Returned r c2
              | (None, c2) \<Rightarrow>
                  (case deriveSchemaTypeIfNullableType E t p c2 d of
                     Thrown e \<Rightarrow> Thrown e
                   | Returned (Some r) c3 \<Rightarrow> Returned r c3
                   | Returned None c3 \<Rightarrow>
                       (case deriveSchemaTypeIfObjectType E t p c3 d of
                          Thrown e \<Rightarrow> Thrown e
                        | Returned (Some r) c4 \<Rightarrow> Returned r c4
                        | Returned None c4 \<Rightarrow>
                            Returned (ErrorsResult [''fallback'']) c4)))"
      using forTsType_not_unsupported [OF depth, of E t p c] a
      by (simp add: ifTsArrayType_no_match)
    show "deriveSchemaTypeForTsType E t p c d =
        Returned
          (TypeResult
             (NamedType
                (if isIntrinsicBooleanType (typeChecker E t) then ''Boolean''
                 else if isIntrinsicStringType (typeChecker E t) then ''String''
                 else ''Float'') Scalar) [])
          (c\<lparr>scalarTypeDefinitions :=
               AList.update
                 (if isIntrinsicBooleanType (typeChecker E t) then ''Boolean''
                  else if isIntrinsicStringType (typeChecker E t) then ''String''
                  else ''Float'') () (scalarTypeDefinitions c)\<rparr>)"
      unfolding fe using a
      by (auto simp: deriveSchemaTypeIfScalarType_def Let_def isScalarForm_def)
  qed
  have N: "\<not> isUnsupportedForm E t \<and> \<not> isArrayForm E t \<and> \<not> isScalarForm E t \<and>
    unwrapNullableType E t = Some (u, n) \<longrightarrow>
      deriveSchemaTypeForTsType E t p c d =
        (case deriveSchemaTypeForTsType E u p c (d + 1) of
           Thrown e \<Rightarrow> Thrown e
         | Returned (ErrorsResult es) c1 \<Rightarrow> Returned (ErrorsResult es) c1
         | Returned (TypeResult td ws) c1 \<Rightarrow> Returned (TypeResult (NullableType td n) ws) c1)"
  proof
    assume a: "\<not> isUnsupportedForm E t \<and> \<not> isArrayForm E t \<and> \<not> isScalarForm E t \<and>
      unwrapNullableType E t = Some (u, n)"
    note fe = forTsType_after_scalar [OF depth, of E t p c]
    have nu: "deriveSchemaTypeIfNullableType E t p c d =
        (case deriveSchemaTypeForTsType E u p c (d + 1) of
           Thrown e \<Rightarrow> Thrown e
         | Returned (ErrorsResult es) c1 \<Rightarrow> Returned (Some (ErrorsResult es)) c1
         | Returned (TypeResult td ws) c1 \<Rightarrow>
             Returned (Some (TypeResult (NullableType td n) ws)) c1)"
      using a by (simp add: deriveSchemaTypeIfNullableType.simps)
    show "deriveSchemaTypeForTsType E t p c d =
        (case deriveSchemaTypeForTsType E u p c (d + 1) of
           Thrown e \<Rightarrow> Thrown e
         | Returned (ErrorsResult es) c1 \<Rightarrow> Returned (ErrorsResult es) c1
         | Returned (TypeResult td ws) c1 \<Rightarrow> Returned (TypeResult (NullableType td n) ws) c1)"
    proof (cases "deriveSchemaTypeForTsType E u p c (d + 1)")
      case (Thrown e)
      then show ?thesis using fe a nu by simp
    next
      case (Returned r c1)
      then show ?thesis using fe a nu by (cases r) simp_all
    qed
  qed
  have O: "\<not> isUnsupportedForm E t \<and> \<not> isArrayForm E t \<and> \<not> isScalarForm E t \<and>
    unwrapNullableType E t = None \<longrightarrow>
      deriveSchemaTypeForTsType E t p c d =
        (case deriveSchemaTypeIfObjectType E t p c d of
           Thrown e \<Rightarrow> Thrown e
         | Returned (Some r) c1 \<Rightarrow> Returned r c1
         | Returned None c1 \<Rightarrow> Returned (ErrorsResult [''fallback'']) c1)"
    using forTsType_after_scalar [OF depth, of E t p c]
    by (simp add: deriveSchemaTypeIfNullableType.simps)
  have F: "\<not> isUnsupportedForm E t \<and> \<not> isArrayForm E t \<and> \<not> isScalarForm E t \<and>
    unwrapNullableType E t = None \<and> getObjectTypeInfo E t p = Inr None \<longrightarrow>
      deriveSchemaTypeForTsType E t p c d = Returned (ErrorsResult [''fallback'']) c"
    using O by (simp add: deriveSchemaTypeIfObjectType.simps)
  show ?thesis
    by (rule conjI [OF P conjI [OF C conjI [OF V conjI [OF A conjI [OF S conjI
          [OF N conjI [OF O F]]]]]]])
qed

theorem classification_order_witness:
  "deriveSchemaTypeForTsType (envOf orderChecker) 1 [FunctionReturn ''f''] emptyContext 0 =
     Returned (ErrorsResult
       [''Promise types are not supported, but one was encountered in '' @
        typePathToString [FunctionReturn ''f''] @ ''.'']) emptyContext \<and>
   deriveSchemaTypeForTsType (envOf orderChecker) 3 [FunctionReturn ''f''] emptyContext 0 =
     Returned (ErrorsResult
       [''Class types are not supported, but one was encountered in '' @
        typePathToString [FunctionReturn ''f'']]) emptyContext \<and>
   deriveSchemaTypeForTsType (envOf orderChecker) 4 [FunctionReturn ''f''] emptyContext 0 =
     Returned (ErrorsResult
       [''The void type is not supported, but one was encountered in '' @
        typePathToString [FunctionReturn ''f'']]) emptyContext \<and>
   deriveSchemaTypeForTsType (envOf orderChecker) 2 [FunctionReturn ''f''] emptyContext 0 =
     Returned (TypeResult (ArrayType (NamedType ''String'' Scalar)) [])
       \<lparr>objectTypeDefinitions = [], scalarTypeDefinitions = [(''String'', ())]\<rparr> \<and>
   deriveSchemaTypeForTsType (envOf orderChecker) 0 [FunctionReturn ''f''] emptyContext 0 =
     Returned (TypeResult (NamedType ''String'' Scalar) [])
       \<lparr>objectTypeDefinitions = [], scalarTypeDefinitions = [(''String'', ())]\<rparr> \<and>
   deriveSchemaTypeForTsType (envOf orderChecker) 6 [FunctionReturn ''f''] emptyContext 0 =
     Returned (TypeResult (NullableType (NamedType ''String'' Scalar) AcceptsNullOnly) [])
       \<lparr>objectTypeDefinitions = [], scalarTypeDefinitions = [(''String'', ())]\<rparr> \<and>
   deriveSchemaTypeForTsType (envOf orderChecker) 7 [FunctionReturn ''f''] emptyContext 0 =
     Returned (TypeResult (NamedType ''Empty'' Object) [])
       \<lparr>objectTypeDefinitions = [(''Empty'', \<lparr>properties = []\<rparr>)],
        scalarTypeDefinitions = []\<rparr> \<and>
   deriveSchemaTypeForTsType (envOf orderChecker) 8 [FunctionReturn ''f''] emptyContext 0 =
     Returned (ErrorsResult [''fallback'']) emptyContext"
proof -
  let ?E = "envOf orderChecker"
  let ?p = "[FunctionReturn ''f'']"
  let ?s = "\<lparr>objectTypeDefinitions = [], scalarTypeDefinitions = [(''String'', ())]\<rparr>"
  have d0: "(0::nat) \<le> MAX_TYPE_DERIVATION_RECURSION"
    by simp
  note co = classification_order [OF d0, where E = "?E" and p = "?p" and c = emptyContext]
  have h1: "unwrapPromiseType ?E 1 \<noteq> None"
    by code_simp
  have h3: "unwrapPromiseType ?E 3 = None \<and>
      isObjectType (typeChecker ?E 3) \<and> flagClass (typeChecker ?E 3)"
    by code_simp
  have h4: "unwrapPromiseType ?E 4 = None \<and>
      \<not> (isObjectType (typeChecker ?E 4) \<and> flagClass (typeChecker ?E 4)) \<and>
      isIntrinsicVoidType (typeChecker ?E 4)"
    by code_simp
  have h2: "\<not> isUnsupportedForm ?E 2 \<and> isArrayType (typeChecker ?E 2) \<and>
      isTypeReference (typeChecker ?E 2) \<and> getTypeArguments (typeChecker ?E 2) = [0]"
    by code_simp
  have i2: "deriveSchemaTypeForTsType ?E 0 [FunctionReturn ''f'', ArraySegment] emptyContext (Suc 0) =
      Returned (TypeResult (NamedType ''String'' Scalar) []) ?s"
    by code_simp
  have h0: "\<not> isUnsupportedForm ?E 0 \<and> \<not> isArrayForm ?E 0 \<and> isScalarForm ?E 0"
    by code_simp
  have f0: "\<not> isIntrinsicBooleanType (typeChecker ?E 0)"
      "isIntrinsicStringType (typeChecker ?E 0)"
    by code_simp+
  have h6: "\<not> isUnsupportedForm ?E 6 \<and> \<not> isArrayForm ?E 6 \<and> \<not> isScalarForm ?E 6 \<and>
      unwrapNullableType ?E 6 = Some (0, AcceptsNullOnly)"
    by code_simp
  have i6: "deriveSchemaTypeForTsType ?E 0 ?p emptyContext (Suc 0) =
      Returned (TypeResult (NamedType ''String'' Scalar) []) ?s"
    by code_simp
  have h7: "\<not> isUnsupportedForm ?E 7 \<and> \<not> isArrayForm ?E 7 \<and> \<not> isScalarForm ?E 7 \<and>
      unwrapNullableType ?E 7 = None"
    by code_simp
  have i7: "deriveSchemaTypeIfObjectType ?E 7 ?p emptyContext 0 =
      Returned (Some (TypeResult (NamedType ''Empty'' Object) []))
        \<lparr>objectTypeDefinitions = [(''Empty'', \<lparr>properties = []\<rparr>)],
         scalarTypeDefinitions = []\<rparr>"
    by code_simp
  have h8: "\<not> isUnsupportedForm ?E 8 \<and> \<not> isArrayForm ?E 8 \<and> \<not> isScalarForm ?E 8 \<and>
      unwrapNullableType ?E 8 = None \<and> getObjectTypeInfo ?E 8 ?p = Inr None"
    by code_simp
  have r1: "deriveSchemaTypeForTsType ?E 1 ?p emptyContext 0 =
     Returned (ErrorsResult
       [''Promise types are not supported, but one was encountered in '' @
        typePathToString ?p @ ''.'']) emptyContext"
    by (rule co [where t = 1, THEN conjunct1, THEN mp, OF h1])
  have r3: "deriveSchemaTypeForTsType ?E 3 ?p emptyContext 0 =
     Returned (ErrorsResult
       [''Class types are not supported, but one was encountered in '' @
        typePathToString ?p]) emptyContext"
    by (rule co [where t = 3, THEN conjunct2, THEN conjunct1, THEN mp, OF h3])
  have r4: "deriveSchemaTypeForTsType ?E 4 ?p emptyContext 0 =
     Returned (ErrorsResult
       [''The void type is not supported, but one was encountered in '' @
        typePathToString ?p]) emptyContext"
    by (rule co [where t = 4, THEN conjunct2, THEN conjunct2, THEN conjunct1, THEN mp, OF h4])
  have r2: "deriveSchemaTypeForTsType ?E 2 ?p emptyContext 0 =
     Returned (TypeResult (ArrayType (NamedType ''String'' Scalar)) []) ?s"
    using co [where t = 2 and innerType = 0, THEN conjunct2, THEN conjunct2, THEN conjunct2, THEN conjunct1, THEN mp, OF h2] by (simp add: i2)
  have r0: "deriveSchemaTypeForTsType ?E 0 ?p emptyContext 0 =
     Returned (TypeResult (NamedType ''String'' Scalar) []) ?s"
    using co [where t = 0, THEN conjunct2, THEN conjunct2, THEN conjunct2, THEN conjunct2, THEN conjunct1, THEN mp, OF h0] f0 by (simp add: emptyContext_def)
  have r6: "deriveSchemaTypeForTsType ?E 6 ?p emptyContext 0 =
     Returned (TypeResult (NullableType (NamedType ''String'' Scalar) AcceptsNullOnly) []) ?s"
    using co [where t = 6 and u = 0 and n = AcceptsNullOnly, THEN conjunct2, THEN conjunct2, THEN conjunct2, THEN conjunct2, THEN conjunct2, THEN conjunct1, THEN mp, OF h6] by (simp add: i6)
  have r7: "deriveSchemaTypeForTsType ?E 7 ?p emptyContext 0 =
     Returned (TypeResult (NamedType ''Empty'' Object) [])
       \<lparr>objectTypeDefinitions = [(''Empty'', \<lparr>properties = []\<rparr>)],
        scalarTypeDefinitions = []\<rparr>"
    using co [where t = 7, THEN conjunct2, THEN conjunct2, THEN conjunct2, THEN conjunct2, THEN conjunct2, THEN conjunct2, THEN conjunct1, THEN mp, OF h7] by (simp add: i7)
  have r8: "deriveSchemaTypeForTsType ?E 8 ?p emptyContext 0 =
     Returned (ErrorsResult [''fallback'']) emptyContext"
    by (rule co [where t = 8, THEN conjunct2, THEN conjunct2, THEN conjunct2, THEN conjunct2, THEN conjunct2, THEN conjunct2, THEN conjunct2, THEN mp, OF h8])
  show ?thesis using r1 r3 r4 r2 r0 r6 r7 r8 by simp
qed

text \<open>
  C10. An exported function declaration without a name, without a symbol at its name, or
  whose type has no call signature makes \<^verbatim>\<open>deriveFunctionSchema\<close> throw. Nothing catches
  the exception: when the source file has such a declaration among its exported
  functions, \<^verbatim>\<open>deriveSchemaFromFunctions\<close> ends with an exception and returns no schema
  and no issue report.
\<close>

theorem incomplete_declaration_aborts_pass:
  "(declName fd = None \<longrightarrow>
      deriveFunctionSchema E fd c = Thrown (Error ''Function didn't have an identifier'')) \<and>
   (declName fd = Some fn \<and> getSymbolAtLocation fd = None \<longrightarrow>
      deriveFunctionSchema E fd c =
        Thrown (Error (''Function '' @ [CHR 0x27] @ fn @ [CHR 0x27] @
                       '' didn't have a symbol''))) \<and>
   (declName fd = Some fn \<and> getSymbolAtLocation fd = Some s \<and> getCallSignatures s = [] \<longrightarrow>
      deriveFunctionSchema E fd c =
        Thrown (Error (''Function '' @ [CHR 0x27] @ fn @ [CHR 0x27] @
                       '' didn't have a call signature''))) \<and>
   (fd \<in> set (exportedFunctionDeclarations (children sourceFile)) \<and>
    (declName fd = None \<or> getSymbolAtLocation fd = None \<or>
     map_option getCallSignatures (getSymbolAtLocation fd) = Some []) \<longrightarrow>
      (\<exists>e. deriveSchemaFromFunctions dirname sourceFile checker = Inl e))"
proof -
  have A: "declName fd = None \<longrightarrow>
      deriveFunctionSchema E fd c = Thrown (Error ''Function didn't have an identifier'')"
    by (simp add: deriveFunctionSchema_def)
  have B: "declName fd = Some fn \<and> getSymbolAtLocation fd = None \<longrightarrow>
      deriveFunctionSchema E fd c =
        Thrown (Error (''Function '' @ [CHR 0x27] @ fn @ [CHR 0x27] @
                       '' didn't have a symbol''))"
    by (simp add: deriveFunctionSchema_def)
  have C: "declName fd = Some fn \<and> getSymbolAtLocation fd = Some s \<and> getCallSignatures s = [] \<longrightarrow>
      deriveFunctionSchema E fd c =
        Thrown (Error (''Function '' @ [CHR 0x27] @ fn @ [CHR 0x27] @
                       '' didn't have a call signature''))"
    by (simp add: deriveFunctionSchema_def Let_def)
  have D: "fd \<in> set (exportedFunctionDeclarations (children sourceFile)) \<and>
    (declName fd = None \<or> getSymbolAtLocation fd = None \<or>
     map_option getCallSignatures (getSymbolAtLocation fd) = Some []) \<longrightarrow>
      (\<exists>e. deriveSchemaFromFunctions dirname sourceFile checker = Inl e)"
  proof
    let ?E = "\<lparr>typeChecker = checker, functionsFilePath = fileName sourceFile,
        pathDirname = dirname\<rparr>"
    let ?c0 = "\<lparr>objectTypeDefinitions = [], scalarTypeDefinitions = []\<rparr>"
    assume a: "fd \<in> set (exportedFunctionDeclarations (children sourceFile)) \<and>
      (declName fd = None \<or> getSymbolAtLocation fd = None \<or>
       map_option getCallSignatures (getSymbolAtLocation fd) = Some [])"
    have "\<not> (\<exists>x c1. deriveFunctions ?E (exportedFunctionDeclarations (children sourceFile))
        [] [] ?c0 = Returned x c1)"
    proof
      assume "\<exists>x c1. deriveFunctions ?E (exportedFunctionDeclarations (children sourceFile))
        [] [] ?c0 = Returned x c1"
      then obtain c2 res c3 where "deriveFunctionSchema ?E fd c2 = Returned res c3"
        using deriveFunctions_Returned_each a by blast
      then have "declName fd \<noteq> None \<and>
          (\<exists>s. getSymbolAtLocation fd = Some s \<and> getCallSignatures s \<noteq> [])"
        by (rule deriveFunctionSchema_Returned_parts)
      then show False using a by auto
    qed
    then obtain e where "deriveFunctions ?E (exportedFunctionDeclarations (children sourceFile))
        [] [] ?c0 = Thrown e"
      by (cases "deriveFunctions ?E (exportedFunctionDeclarations (children sourceFile))
        [] [] ?c0") auto
    then show "\<exists>e. deriveSchemaFromFunctions dirname sourceFile checker = Inl e"
      by (simp add: deriveSchemaFromFunctions_def)
  qed
  show ?thesis by (rule conjI [OF A conjI [OF B conjI [OF C D]]])
qed

theorem incomplete_declaration_aborts_pass_witness:
  "anonymousDeclaration \<in> set (exportedFunctionDeclarations (children anonymousSource)) \<and>
   declName anonymousDeclaration = None \<and>
   deriveFunctionSchema (envOf orderChecker) anonymousDeclaration emptyContext =
     Thrown (Error ''Function didn't have an identifier'') \<and>
   deriveFunctionSchema (envOf orderChecker)
       \<lparr>declName = Some ''h'', getSymbolAtLocation = None, modifiers = [ExportKeyword]\<rparr>
       emptyContext =
     Thrown (Error (''Function '' @ [CHR 0x27] @ ''h'' @ [CHR 0x27] @
                    '' didn't have a symbol'')) \<and>
   deriveFunctionSchema (envOf orderChecker)
       \<lparr>declName = Some ''k'',
        getSymbolAtLocation =
          Some \<lparr>getDocumentationComment = [], getJsDocTags = [], getCallSignatures = []\<rparr>,
        modifiers = [ExportKeyword]\<rparr>
       emptyContext =
     Thrown (Error (''Function '' @ [CHR 0x27] @ ''k'' @ [CHR 0x27] @
                    '' didn't have a call signature'')) \<and>
   deriveSchemaFromFunctions (\<lambda>_. ''/home/proj'') anonymousSource orderChecker =
     Inl (Error ''Function didn't have an identifier'')"
proof -
  let ?h = "\<lparr>declName = Some ''h'', getSymbolAtLocation = None, modifiers = [ExportKeyword]\<rparr>"
  let ?s = "\<lparr>getDocumentationComment = [], getJsDocTags = [], getCallSignatures = []\<rparr>"
  let ?k = "\<lparr>declName = Some ''k'', getSymbolAtLocation = Some ?s,
      modifiers = [ExportKeyword]\<rparr>"
  have m: "anonymousDeclaration \<in> set (exportedFunctionDeclarations (children anonymousSource))"
    by (simp add: anonymousSource_def exported_def isExportedFunction_def
        anonymousDeclaration_def)
  have n: "declName anonymousDeclaration = None"
    by (simp add: anonymousDeclaration_def)
  have hh: "declName ?h = Some ''h'' \<and> getSymbolAtLocation ?h = None"
    by simp
  have hk: "declName ?k = Some ''k'' \<and> getSymbolAtLocation ?k = Some ?s \<and>
      getCallSignatures ?s = []"
    by simp
  have r1: "deriveFunctionSchema (envOf orderChecker) anonymousDeclaration emptyContext =
     Thrown (Error ''Function didn't have an identifier'')"
    by (rule incomplete_declaration_aborts_pass [THEN conjunct1, THEN mp, OF n])
  have r2: "deriveFunctionSchema (envOf orderChecker) ?h emptyContext =
     Thrown (Error (''Function '' @ [CHR 0x27] @ ''h'' @ [CHR 0x27] @
                    '' didn't have a symbol''))"
    by (rule incomplete_declaration_aborts_pass [THEN conjunct2, THEN conjunct1, THEN mp,
          OF hh])
  have r3: "deriveFunctionSchema (envOf orderChecker) ?k emptyContext =
     Thrown (Error (''Function '' @ [CHR 0x27] @ ''k'' @ [CHR 0x27] @
                    '' didn't have a call signature''))"
    by (rule incomplete_declaration_aborts_pass [THEN conjunct2, THEN conjunct2,
          THEN conjunct1, THEN mp, OF hk])
  have "\<exists>e. deriveSchemaFromFunctions (\<lambda>_. ''/home/proj'') anonymousSource orderChecker = Inl e"
    using incomplete_declaration_aborts_pass [where fd = anonymousDeclaration
        and sourceFile = anonymousSource, THEN conjunct2, THEN conjunct2, THEN conjunct2]
      m n by blast
  moreover have "deriveSchemaFromFunctions (\<lambda>_. ''/home/proj'') anonymousSource orderChecker =
     Inl (Error ''Function didn't have an identifier'')"
    by code_simp
  ultimately show ?thesis using m n r1 r2 r3 by simp
qed


text \<open>
  C6. The ceiling is 20, and every kind of unwrapping counts towards it. A call at a depth
  above 20 throws the depth error, before it looks at the type. The element type of an
  array, the other member of a nullable union and the type of a property of an object
  type whose name is not found in the registry are each derived by a call one level
  deeper. Along a chain of such calls the depth grows by one with every call, so no chain
  gets deeper than 21; and when a chain gets to depth 21, the call it started from
  throws the depth error of the type met there, and so does the whole pass when the chain
  starts at a parameter or at the return type of an exported function. In particular a
  type that unwraps 21 times in a row as an array or as a nullable union throws the depth
  error when it is derived from depth 0. The derivation itself is defined by recursion
  on the depth that is left below the ceiling, so every call returns or throws.
\<close>

theorem recursion_ceiling:
  "(MAX_TYPE_DERIVATION_RECURSION < d \<longrightarrow>
      deriveSchemaTypeForTsType E t p c d =
        Thrown (Error (''Schema inference validation exceeded depth 20 for type '' @
                       typeToString (typeChecker E t)))) \<and>
   (d \<le> MAX_TYPE_DERIVATION_RECURSION \<and> \<not> isUnsupportedForm E t \<and> isArrayForm E t \<longrightarrow>
      directCalls E (t, p, c, d) =
        [(hd (getTypeArguments (typeChecker E t)), p @ [ArraySegment], c, d + 1)]) \<and>
   (d \<le> MAX_TYPE_DERIVATION_RECURSION \<and> \<not> isUnsupportedForm E t \<and> \<not> isArrayForm E t \<and>
    \<not> isScalarForm E t \<and> unwrapNullableType E t = Some (u, a) \<longrightarrow>
      directCalls E (t, p, c, d) = [(u, p, c, d + 1)]) \<and>
   (d \<le> MAX_TYPE_DERIVATION_RECURSION \<and> reachesObjectStep E t \<and>
    getObjectTypeInfo E t p = Inr (Some info) \<and>
    \<not> keyIsTruthy (objectTypeDefinitions c) (generatedTypeName info) \<and>
    members info = (pn, m) # rest \<longrightarrow>
      hd (directCalls E (t, p, c, d)) =
        (m, p @ [ObjectProperty (generatedTypeName info) pn],
         c\<lparr>objectTypeDefinitions :=
             AList.update (generatedTypeName info) \<lparr>properties = []\<rparr>
               (objectTypeDefinitions c)\<rparr>, d + 1) \<and>
      directCalls E (t, p, c, d) \<noteq> []) \<and>
   (callChain E (x # xs) \<longrightarrow>
      callDepth (last (x # xs)) = callDepth x + length xs \<and>
      (xs \<noteq> [] \<longrightarrow> callDepth (last (x # xs)) \<le> MAX_TYPE_DERIVATION_RECURSION + 1)) \<and>
   (callChain E (x # xs) \<and> MAX_TYPE_DERIVATION_RECURSION < callDepth (last (x # xs)) \<longrightarrow>
      outcomeOf E x =
        Thrown (Error (''Schema inference validation exceeded depth 20 for type '' @
                       typeToString (typeChecker E (callType (last (x # xs))))))) \<and>
   (exportedFunctionDeclarations (children sf) = pre @ fd # post \<and>
    deriveFunctions \<lparr>typeChecker = checker, functionsFilePath = fileName sf,
                     pathDirname = dirname\<rparr> pre [] []
      \<lparr>objectTypeDefinitions = [], scalarTypeDefinitions = []\<rparr> = Returned x0 c4 \<and>
    y \<in> set (functionCalls \<lparr>typeChecker = checker, functionsFilePath = fileName sf,
                             pathDirname = dirname\<rparr> fd c4) \<and>
    callChain \<lparr>typeChecker = checker, functionsFilePath = fileName sf,
               pathDirname = dirname\<rparr> (y # ys) \<and>
    MAX_TYPE_DERIVATION_RECURSION < callDepth (last (y # ys)) \<longrightarrow>
      deriveSchemaFromFunctions dirname sf checker =
        Inl (Error (''Schema inference validation exceeded depth 20 for type '' @
                    typeToString (checker (callType (last (y # ys))))))) \<and>
   ((\<forall>i. i \<le> MAX_TYPE_DERIVATION_RECURSION \<longrightarrow> unwrapsTo E (f i) (f (i + 1))) \<longrightarrow>
      deriveSchemaTypeForTsType E (f 0) p c 0 =
        Thrown (Error (''Schema inference validation exceeded depth 20 for type '' @
                       typeToString (typeChecker E (f 21)))))"
proof -
  have last_throws: "\<And>E z. MAX_TYPE_DERIVATION_RECURSION < callDepth z \<Longrightarrow>
      outcomeOf E z =
        Thrown (Error (''Schema inference validation exceeded depth 20 for type '' @
                       typeToString (typeChecker E (callType z))))"
  proof -
    fix E :: ts_env and z :: call
    assume dz: "MAX_TYPE_DERIVATION_RECURSION < callDepth z"
    obtain t' p' c' d' where z: "z = (t', p', c', d')" by (cases z) blast
    from dz show "outcomeOf E z =
        Thrown (Error (''Schema inference validation exceeded depth 20 for type '' @
                       typeToString (typeChecker E (callType z))))"
      using forTsType_beyond_ceiling [of d' E t' p' c']
      by (simp add: z outcomeOf_def callDepth_def callType_def)
  qed
  have A: "MAX_TYPE_DERIVATION_RECURSION < d \<longrightarrow>
      deriveSchemaTypeForTsType E t p c d =
        Thrown (Error (''Schema inference validation exceeded depth 20 for type '' @
                       typeToString (typeChecker E t)))"
    using forTsType_beyond_ceiling by blast
  have S1: "d \<le> MAX_TYPE_DERIVATION_RECURSION \<and> \<not> isUnsupportedForm E t \<and> isArrayForm E t \<longrightarrow>
      directCalls E (t, p, c, d) =
        [(hd (getTypeArguments (typeChecker E t)), p @ [ArraySegment], c, d + 1)]"
    by (simp add: directCalls_def)
  have S2: "d \<le> MAX_TYPE_DERIVATION_RECURSION \<and> \<not> isUnsupportedForm E t \<and> \<not> isArrayForm E t \<and>
    \<not> isScalarForm E t \<and> unwrapNullableType E t = Some (u, a) \<longrightarrow>
      directCalls E (t, p, c, d) = [(u, p, c, d + 1)]"
    by (simp add: directCalls_def)
  have S3: "d \<le> MAX_TYPE_DERIVATION_RECURSION \<and> reachesObjectStep E t \<and>
    getObjectTypeInfo E t p = Inr (Some info) \<and>
    \<not> keyIsTruthy (objectTypeDefinitions c) (generatedTypeName info) \<and>
    members info = (pn, m) # rest \<longrightarrow>
      hd (directCalls E (t, p, c, d)) =
        (m, p @ [ObjectProperty (generatedTypeName info) pn],
         c\<lparr>objectTypeDefinitions :=
             AList.update (generatedTypeName info) \<lparr>properties = []\<rparr>
               (objectTypeDefinitions c)\<rparr>, d + 1) \<and>
      directCalls E (t, p, c, d) \<noteq> []"
  proof (intro impI, elim conjE)
    assume dm: "d \<le> MAX_TYPE_DERIVATION_RECURSION" and obj: "reachesObjectStep E t"
      and info: "getObjectTypeInfo E t p = Inr (Some info)"
      and fresh: "\<not> keyIsTruthy (objectTypeDefinitions c) (generatedTypeName info)"
      and ms: "members info = (pn, m) # rest"
    have "directCalls E (t, p, c, d) =
        propertyCalls E (generatedTypeName info) ((pn, m) # rest) p
          (c\<lparr>objectTypeDefinitions :=
               AList.update (generatedTypeName info) \<lparr>properties = []\<rparr>
                 (objectTypeDefinitions c)\<rparr>) d"
      using dm obj info fresh ms not_truthy_not_proto [OF fresh]
      by (simp add: directCalls_def reachesObjectStep_def assignKey_def)
    then show "hd (directCalls E (t, p, c, d)) =
        (m, p @ [ObjectProperty (generatedTypeName info) pn],
         c\<lparr>objectTypeDefinitions :=
             AList.update (generatedTypeName info) \<lparr>properties = []\<rparr>
               (objectTypeDefinitions c)\<rparr>, d + 1) \<and>
      directCalls E (t, p, c, d) \<noteq> []"
      by simp
  qed
  have B: "callChain E (x # xs) \<longrightarrow>
      callDepth (last (x # xs)) = callDepth x + length xs \<and>
      (xs \<noteq> [] \<longrightarrow> callDepth (last (x # xs)) \<le> MAX_TYPE_DERIVATION_RECURSION + 1)"
    using callChain_depth by blast
  have C: "callChain E (x # xs) \<and> MAX_TYPE_DERIVATION_RECURSION < callDepth (last (x # xs)) \<longrightarrow>
      outcomeOf E x =
        Thrown (Error (''Schema inference validation exceeded depth 20 for type '' @
                       typeToString (typeChecker E (callType (last (x # xs))))))"
    using callChain_throw [of E x xs] last_throws [of "last (x # xs)" E] by blast
  have D: "exportedFunctionDeclarations (children sf) = pre @ fd # post \<and>
    deriveFunctions \<lparr>typeChecker = checker, functionsFilePath = fileName sf,
                     pathDirname = dirname\<rparr> pre [] []
      \<lparr>objectTypeDefinitions = [], scalarTypeDefinitions = []\<rparr> = Returned x0 c4 \<and>
    y \<in> set (functionCalls \<lparr>typeChecker = checker, functionsFilePath = fileName sf,
                             pathDirname = dirname\<rparr> fd c4) \<and>
    callChain \<lparr>typeChecker = checker, functionsFilePath = fileName sf,
               pathDirname = dirname\<rparr> (y # ys) \<and>
    MAX_TYPE_DERIVATION_RECURSION < callDepth (last (y # ys)) \<longrightarrow>
      deriveSchemaFromFunctions dirname sf checker =
        Inl (Error (''Schema inference validation exceeded depth 20 for type '' @
                    typeToString (checker (callType (last (y # ys))))))"
  proof (intro impI, elim conjE)
    let ?E = "\<lparr>typeChecker = checker, functionsFilePath = fileName sf,
      pathDirname = dirname\<rparr>"
    assume ds: "exportedFunctionDeclarations (children sf) = pre @ fd # post"
      and pr: "deriveFunctions ?E pre [] []
        \<lparr>objectTypeDefinitions = [], scalarTypeDefinitions = []\<rparr> = Returned x0 c4"
      and y: "y \<in> set (functionCalls ?E fd c4)"
      and ch: "callChain ?E (y # ys)"
      and deep: "MAX_TYPE_DERIVATION_RECURSION < callDepth (last (y # ys))"
    have th: "deriveFunctionSchema ?E fd c4 =
        Thrown (Error (''Schema inference validation exceeded depth 20 for type '' @
                       typeToString (typeChecker ?E (callType (last (y # ys))))))"
      by (rule functionCalls_chain_throw [OF y ch last_throws [OF deep]])
    show "deriveSchemaFromFunctions dirname sf checker =
        Inl (Error (''Schema inference validation exceeded depth 20 for type '' @
                    typeToString (checker (callType (last (y # ys))))))"
      using deriveFunctions_throw [OF pr th, of post] ds
      by (simp add: deriveSchemaFromFunctions_def)
  qed
  have F: "(\<forall>i. i \<le> MAX_TYPE_DERIVATION_RECURSION \<longrightarrow> unwrapsTo E (f i) (f (i + 1))) \<longrightarrow>
      deriveSchemaTypeForTsType E (f 0) p c 0 =
        Thrown (Error (''Schema inference validation exceeded depth 20 for type '' @
                       typeToString (typeChecker E (f 21))))"
  proof
    assume "\<forall>i. i \<le> MAX_TYPE_DERIVATION_RECURSION \<longrightarrow> unwrapsTo E (f i) (f (i + 1))"
    then have ch: "\<And>i. i \<le> MAX_TYPE_DERIVATION_RECURSION \<Longrightarrow> unwrapsTo E (f i) (f (i + 1))"
      by blast
    show "deriveSchemaTypeForTsType E (f 0) p c 0 =
        Thrown (Error (''Schema inference validation exceeded depth 20 for type '' @
                       typeToString (typeChecker E (f 21))))"
      using unwrapping_chain_throws [of E f 0 p c, OF ch]
      by (simp add: MAX_TYPE_DERIVATION_RECURSION_def)
  qed
  show ?thesis
    by (rule conjI [OF A conjI [OF S1 conjI [OF S2 conjI [OF S3 conjI [OF B conjI [OF C
          conjI [OF D F]]]]]]])
qed

theorem recursion_ceiling_witness:
  "deriveSchemaTypeForTsType (envOf (deepArrayChecker 21)) 0 [FunctionReturn ''f'']
       emptyContext 22 =
     Thrown (Error ''Schema inference validation exceeded depth 20 for type Array'') \<and>
   deriveSchemaTypeForTsType (envOf (deepArrayChecker 21)) 0 [FunctionReturn ''f'']
       emptyContext 0 =
     Thrown (Error ''Schema inference validation exceeded depth 20 for type string'') \<and>
   deriveSchemaTypeForTsType (envOf (objectChainChecker 21)) 0 [FunctionReturn ''f'']
       emptyContext 0 =
     Thrown (Error ''Schema inference validation exceeded depth 20 for type string'') \<and>
   deriveSchemaFromFunctions (\<lambda>_. ''/home/proj'') objectChainSource (objectChainChecker 21) =
     Inl (Error ''Schema inference validation exceeded depth 20 for type string'') \<and>
   callDepth (objectChainCall 21) = 21 \<and>
   directCalls (envOf (objectChainChecker 21)) (objectChainCall 20) = [objectChainCall 21] \<and>
   deriveSchemaTypeForTsType (envOf (objectChainChecker 20)) 0 [FunctionReturn ''f'']
       emptyContext 0 =
     Returned (TypeResult (NamedType ''L'' Object) [])
       \<lparr>objectTypeDefinitions =
          map (\<lambda>i. (''L'' @ replicate i (CHR ''x''),
                     \<lparr>properties =
                        [(''next'',
                          if i < 19 then NamedType (''L'' @ replicate (i + 1) (CHR ''x'')) Object
                          else NamedType ''String'' Scalar)]\<rparr>)) [0..<20],
        scalarTypeDefinitions = [(''String'', ())]\<rparr>"
proof -
  let ?p = "[FunctionReturn ''f'']"
  let ?E = "envOf (objectChainChecker 21)"
  have m: "MAX_TYPE_DERIVATION_RECURSION < 22"
    by (simp add: MAX_TYPE_DERIVATION_RECURSION_def)
  have n0: "typeToString (typeChecker (envOf (deepArrayChecker 21)) 0) = ''Array''"
    by code_simp
  have n21: "typeToString (typeChecker (envOf (deepArrayChecker 21)) 21) = ''string''"
    by code_simp
  have ch: "\<forall>i. i \<le> MAX_TYPE_DERIVATION_RECURSION \<longrightarrow>
      unwrapsTo (envOf (deepArrayChecker 21)) (id i) (id (i + 1))"
    by (simp add: unwrapsTo_def isUnsupportedForm_def unwrapPromiseType_def envOf_def
        deepArrayChecker_def arrayOf_def blankType_def MAX_TYPE_DERIVATION_RECURSION_def)
  have r1: "deriveSchemaTypeForTsType (envOf (deepArrayChecker 21)) 0 ?p emptyContext 22 =
     Thrown (Error ''Schema inference validation exceeded depth 20 for type Array'')"
    using recursion_ceiling [where E = "envOf (deepArrayChecker 21)" and t = 0 and p = "?p"
        and c = emptyContext and d = 22, THEN conjunct1, THEN mp, OF m]
    by (simp add: n0)
  have r2: "deriveSchemaTypeForTsType (envOf (deepArrayChecker 21)) 0 ?p emptyContext 0 =
     Thrown (Error ''Schema inference validation exceeded depth 20 for type string'')"
    using recursion_ceiling [where E = "envOf (deepArrayChecker 21)" and f = id and p = "?p"
        and c = emptyContext, THEN conjunct2, THEN conjunct2, THEN conjunct2, THEN conjunct2,
        THEN conjunct2, THEN conjunct2, THEN conjunct2, THEN mp, OF ch]
    by (simp add: n21)
  have chain: "callChain ?E (objectChainCall 0 # map objectChainCall [1..<22])"
    by code_simp
  have la: "last (objectChainCall 0 # map objectChainCall [1..<22]) = objectChainCall 21"
    by code_simp
  have deep: "MAX_TYPE_DERIVATION_RECURSION < callDepth (objectChainCall 21)"
    by code_simp
  have nm: "typeToString (typeChecker ?E (callType (objectChainCall 21))) = ''string''"
    by code_simp
  have c0: "objectChainCall 0 = (0, ?p, emptyContext, 0)"
    by code_simp
  have hyp: "callChain ?E (objectChainCall 0 # map objectChainCall [1..<22]) \<and>
      MAX_TYPE_DERIVATION_RECURSION <
        callDepth (last (objectChainCall 0 # map objectChainCall [1..<22]))"
    using chain deep la by simp
  have r3: "deriveSchemaTypeForTsType ?E 0 ?p emptyContext 0 =
     Thrown (Error ''Schema inference validation exceeded depth 20 for type string'')"
    using recursion_ceiling [where E = "?E" and x = "objectChainCall 0"
        and xs = "map objectChainCall [1..<22]", THEN conjunct2, THEN conjunct2,
        THEN conjunct2, THEN conjunct2, THEN conjunct2, THEN conjunct1, THEN mp, OF hyp,
        unfolded la nm]
    by (simp add: c0 outcomeOf_def)
  have env: "\<lparr>typeChecker = objectChainChecker 21, functionsFilePath = fileName objectChainSource,
      pathDirname = (\<lambda>_. ''/home/proj'')\<rparr> = ?E"
    by (simp add: envOf_def objectChainSource_def)
  have ctx: "\<lparr>objectTypeDefinitions = [], scalarTypeDefinitions = []\<rparr> = emptyContext"
    by (simp add: emptyContext_def)
  have ds: "exportedFunctionDeclarations (children objectChainSource) =
      [] @ hd (exportedFunctionDeclarations (children objectChainSource)) # []"
    by code_simp
  have fc: "objectChainCall 0 \<in>
      set (functionCalls ?E (hd (exportedFunctionDeclarations (children objectChainSource)))
             emptyContext)"
    by code_simp
  have nm': "typeToString (objectChainChecker 21 (callType (objectChainCall 21))) = ''string''"
    by code_simp
  have hyp4: "exportedFunctionDeclarations (children objectChainSource) =
      [] @ hd (exportedFunctionDeclarations (children objectChainSource)) # [] \<and>
    deriveFunctions ?E [] [] [] emptyContext = Returned ([], []) emptyContext \<and>
    objectChainCall 0 \<in>
      set (functionCalls ?E (hd (exportedFunctionDeclarations (children objectChainSource)))
             emptyContext) \<and>
    callChain ?E (objectChainCall 0 # map objectChainCall [1..<22]) \<and>
    MAX_TYPE_DERIVATION_RECURSION <
      callDepth (last (objectChainCall 0 # map objectChainCall [1..<22]))"
    using ds fc hyp by simp
  have r4: "deriveSchemaFromFunctions (\<lambda>_. ''/home/proj'') objectChainSource
        (objectChainChecker 21) =
      Inl (Error ''Schema inference validation exceeded depth 20 for type string'')"
    using recursion_ceiling [where sf = objectChainSource and checker = "objectChainChecker 21"
        and dirname = "\<lambda>_. ''/home/proj''" and pre = "[]" and post = "[]"
        and fd = "hd (exportedFunctionDeclarations (children objectChainSource))"
        and ?x0.0 = "([], [])" and ?c4.0 = emptyContext and y = "objectChainCall 0"
        and ys = "map objectChainCall [1..<22]", unfolded env ctx,
        THEN conjunct2, THEN conjunct2, THEN conjunct2, THEN conjunct2, THEN conjunct2,
        THEN conjunct2, THEN conjunct1, THEN mp, OF hyp4, unfolded la nm']
    by simp
  have r5: "callDepth (objectChainCall 21) = 21"
    using recursion_ceiling [where E = "?E" and x = "objectChainCall 0"
        and xs = "map objectChainCall [1..<22]", THEN conjunct2, THEN conjunct2,
        THEN conjunct2, THEN conjunct2, THEN conjunct1, THEN mp, OF chain, unfolded la]
    by (simp add: c0 callDepth_def)
  have r6: "directCalls ?E (objectChainCall 20) = [objectChainCall 21]"
    by code_simp
  have r7: "deriveSchemaTypeForTsType (envOf (objectChainChecker 20)) 0 ?p emptyContext 0 =
     Returned (TypeResult (NamedType ''L'' Object) [])
       \<lparr>objectTypeDefinitions =
          map (\<lambda>i. (''L'' @ replicate i (CHR ''x''),
                     \<lparr>properties =
                        [(''next'',
                          if i < 19 then NamedType (''L'' @ replicate (i + 1) (CHR ''x'')) Object
                          else NamedType ''String'' Scalar)]\<rparr>)) [0..<20],
        scalarTypeDefinitions = [(''String'', ())]\<rparr>"
    by code_simp
  show ?thesis
    by (rule conjI [OF r1 conjI [OF r2 conjI [OF r3 conjI [OF r4 conjI [OF r5
          conjI [OF r6 r7]]]]]])
qed

text \<open>
  C9. Nothing is taken out of the registries when a derivation fails. A scalar type is
  registered by the call that derives it, and the name of an object type is registered
  before the calls that derive the types of its properties. Whatever is registered when
  a call returns is still registered when any call above it in a chain of calls returns,
  with a type or with errors; it is still registered when the derivation of the function
  returns whose parameter or return type the chain started from, broken or not; and it
  is among the \<open>objectTypes\<close> and \<open>scalarTypes\<close> of the schema.
\<close>

theorem registry_not_rolled_back:
  "(outcomeOf E (t, p, c, d) = Returned r c1 \<and> \<not> isUnsupportedForm E t \<and>
    \<not> isArrayForm E t \<and> isScalarForm E t \<longrightarrow>
      (\<exists>nm. r = TypeResult (NamedType nm Scalar) [] \<and>
            nm \<in> fst ` set (scalarTypeDefinitions c1))) \<and>
   (y \<in> set (directCalls E (t, p, c, d)) \<and> reachesObjectStep E t \<and>
    getObjectTypeInfo E t p = Inr (Some info) \<longrightarrow>
      generatedTypeName info \<in> fst ` set (objectTypeDefinitions (callContext y))) \<and>
   (outcomeOf E x = Returned r c' \<longrightarrow> keysPreserved (callContext x) c') \<and>
   (callChain E (x # xs) \<and> outcomeOf E (last (x # xs)) = Returned r1 c1 \<and>
    outcomeOf E x = Returned r c' \<longrightarrow>
      keysPreserved c1 c') \<and>
   (y \<in> set (functionCalls E fd c) \<and> callChain E (y # ys) \<and>
    outcomeOf E (last (y # ys)) = Returned r1 c1 \<and>
    deriveFunctionSchema E fd c = Returned res c' \<longrightarrow>
      keysPreserved c1 c') \<and>
   (deriveSchemaFromFunctions dirname sf checker = Inr schema \<and>
    exportedFunctionDeclarations (children sf) = pre @ fd # post \<and>
    deriveFunctions \<lparr>typeChecker = checker, functionsFilePath = fileName sf,
                     pathDirname = dirname\<rparr> pre [] []
      \<lparr>objectTypeDefinitions = [], scalarTypeDefinitions = []\<rparr> = Returned x0 c4 \<and>
    y \<in> set (functionCalls \<lparr>typeChecker = checker, functionsFilePath = fileName sf,
                             pathDirname = dirname\<rparr> fd c4) \<and>
    callChain \<lparr>typeChecker = checker, functionsFilePath = fileName sf,
               pathDirname = dirname\<rparr> (y # ys) \<and>
    outcomeOf \<lparr>typeChecker = checker, functionsFilePath = fileName sf,
               pathDirname = dirname\<rparr> (last (y # ys)) = Returned r1 c1 \<longrightarrow>
      fst ` set (objectTypeDefinitions c1) \<subseteq> fst ` set (objectTypes schema) \<and>
      fst ` set (scalarTypeDefinitions c1) \<subseteq> fst ` set (scalarTypes schema))"
proof -
  have A: "outcomeOf E (t, p, c, d) = Returned r c1 \<and> \<not> isUnsupportedForm E t \<and>
    \<not> isArrayForm E t \<and> isScalarForm E t \<longrightarrow>
      (\<exists>nm. r = TypeResult (NamedType nm Scalar) [] \<and>
            nm \<in> fst ` set (scalarTypeDefinitions c1))"
  proof (intro impI, elim conjE)
    assume ret: "outcomeOf E (t, p, c, d) = Returned r c1"
      and a: "\<not> isUnsupportedForm E t" "\<not> isArrayForm E t" "isScalarForm E t"
    have dm: "d \<le> MAX_TYPE_DERIVATION_RECURSION"
      using ret by (auto simp: outcomeOf_def intro: forTsType_Returned_depth)
    from forTsType_scalar_form [OF dm a, of p c] ret
    show "\<exists>nm. r = TypeResult (NamedType nm Scalar) [] \<and>
            nm \<in> fst ` set (scalarTypeDefinitions c1)"
      by (auto simp: outcomeOf_def dom_update)
  qed
  have B: "y \<in> set (directCalls E (t, p, c, d)) \<and> reachesObjectStep E t \<and>
    getObjectTypeInfo E t p = Inr (Some info) \<longrightarrow>
      generatedTypeName info \<in> fst ` set (objectTypeDefinitions (callContext y))"
    using directCalls_placeholder by blast
  have C: "outcomeOf E x = Returned r c' \<longrightarrow> keysPreserved (callContext x) c'"
  proof
    assume ret: "outcomeOf E x = Returned r c'"
    obtain t0 p0 c0 d0 where x: "x = (t0, p0, c0, d0)" by (cases x) blast
    from ret show "keysPreserved (callContext x) c'"
      using derive_keysPreserved(1) [of E t0 p0 c0 d0 r c']
      by (simp add: x outcomeOf_def callContext_def)
  qed
  have D: "callChain E (x # xs) \<and> outcomeOf E (last (x # xs)) = Returned r1 c1 \<and>
    outcomeOf E x = Returned r c' \<longrightarrow>
      keysPreserved c1 c'"
    using callChain_keys by blast
  have F: "y \<in> set (functionCalls E fd c) \<and> callChain E (y # ys) \<and>
    outcomeOf E (last (y # ys)) = Returned r1 c1 \<and>
    deriveFunctionSchema E fd c = Returned res c' \<longrightarrow>
      keysPreserved c1 c'"
    using functionCalls_chain_keys by blast
  have G: "deriveSchemaFromFunctions dirname sf checker = Inr schema \<and>
    exportedFunctionDeclarations (children sf) = pre @ fd # post \<and>
    deriveFunctions \<lparr>typeChecker = checker, functionsFilePath = fileName sf,
                     pathDirname = dirname\<rparr> pre [] []
      \<lparr>objectTypeDefinitions = [], scalarTypeDefinitions = []\<rparr> = Returned x0 c4 \<and>
    y \<in> set (functionCalls \<lparr>typeChecker = checker, functionsFilePath = fileName sf,
                             pathDirname = dirname\<rparr> fd c4) \<and>
    callChain \<lparr>typeChecker = checker, functionsFilePath = fileName sf,
               pathDirname = dirname\<rparr> (y # ys) \<and>
    outcomeOf \<lparr>typeChecker = checker, functionsFilePath = fileName sf,
               pathDirname = dirname\<rparr> (last (y # ys)) = Returned r1 c1 \<longrightarrow>
      fst ` set (objectTypeDefinitions c1) \<subseteq> fst ` set (objectTypes schema) \<and>
      fst ` set (scalarTypeDefinitions c1) \<subseteq> fst ` set (scalarTypes schema)"
  proof (intro impI, elim conjE)
    let ?E = "\<lparr>typeChecker = checker, functionsFilePath = fileName sf,
      pathDirname = dirname\<rparr>"
    assume s: "deriveSchemaFromFunctions dirname sf checker = Inr schema"
      and ds: "exportedFunctionDeclarations (children sf) = pre @ fd # post"
      and pr: "deriveFunctions ?E pre [] []
        \<lparr>objectTypeDefinitions = [], scalarTypeDefinitions = []\<rparr> = Returned x0 c4"
      and y: "y \<in> set (functionCalls ?E fd c4)"
      and ch: "callChain ?E (y # ys)"
      and rl: "outcomeOf ?E (last (y # ys)) = Returned r1 c1"
    from schema_returned_function [OF s ds pr] obtain res c5 where
      rf: "deriveFunctionSchema ?E fd c4 = Returned res c5" by blast
    have k: "keysPreserved c1 c5" by (rule functionCalls_chain_keys [OF y ch rl rf])
    from schema_keys [OF s ds pr rf] k
    show "fst ` set (objectTypeDefinitions c1) \<subseteq> fst ` set (objectTypes schema) \<and>
      fst ` set (scalarTypeDefinitions c1) \<subseteq> fst ` set (scalarTypes schema)"
      unfolding keysPreserved_def by (meson subset_trans)
  qed
  show ?thesis
    by (rule conjI [OF A conjI [OF B conjI [OF C conjI [OF D conjI [OF F G]]]]])
qed

theorem registry_not_rolled_back_witness:
  "outcomeOf (envOf promiseChecker)
     (0, [FunctionParameter ''f'' ''x'', ObjectProperty ''f_arguments_x'' ''a''],
      emptyContext\<lparr>objectTypeDefinitions := [(''f_arguments_x'', \<lparr>properties = []\<rparr>)]\<rparr>, 1) =
     Returned (TypeResult (NamedType ''String'' Scalar) []) literalContext \<and>
   outcomeOf (envOf promiseChecker) (2, [FunctionParameter ''f'' ''x''], emptyContext, 0) =
     Returned (ErrorsResult [literalIssue]) literalContext \<and>
   deriveFunctionSchema (envOf promiseChecker) literalDeclaration emptyContext =
     Returned \<lparr>resultName = ''f'', resultDefinition = None, resultIssues = [literalIssue]\<rparr>
       literalContext \<and>
   deriveSchemaFromFunctions (\<lambda>_. ''/home/proj'') literalSource promiseChecker =
     Inr \<lparr>functionDefs = [],
          objectTypes = [(''f_arguments_x'', \<lparr>properties = []\<rparr>)],
          scalarTypes = [(''String'', ())],
          functionIssues = [(''f'', [literalIssue])]\<rparr> \<and>
   (\<exists>nm. nm \<in> fst ` set (scalarTypeDefinitions literalContext)) \<and>
   ''f_arguments_x'' \<in> fst ` set (objectTypeDefinitions
      (emptyContext\<lparr>objectTypeDefinitions := [(''f_arguments_x'', \<lparr>properties = []\<rparr>)]\<rparr>)) \<and>
   keysPreserved (emptyContext\<lparr>objectTypeDefinitions :=
                    [(''f_arguments_x'', \<lparr>properties = []\<rparr>)]\<rparr>) literalContext \<and>
   keysPreserved literalContext literalContext \<and>
   fst ` set (objectTypeDefinitions literalContext) \<subseteq> {''f_arguments_x''} \<and>
   fst ` set (scalarTypeDefinitions literalContext) \<subseteq> {''String''}"
proof -
  let ?E = "envOf promiseChecker"
  let ?c0 = "emptyContext\<lparr>objectTypeDefinitions := [(''f_arguments_x'', \<lparr>properties = []\<rparr>)]\<rparr>"
  let ?x = "(2, [FunctionParameter ''f'' ''x''], emptyContext, 0) :: call"
  let ?y = "(0, [FunctionParameter ''f'' ''x'', ObjectProperty ''f_arguments_x'' ''a''],
      ?c0, 1) :: call"
  let ?info = "\<lparr>generatedTypeName = ''f_arguments_x'', members = [(''a'', 0), (''b'', 1)]\<rparr>"
  let ?res = "\<lparr>resultName = ''f'', resultDefinition = None, resultIssues = [literalIssue]\<rparr>"
  let ?schema = "\<lparr>functionDefs = [],
          objectTypes = [(''f_arguments_x'', \<lparr>properties = []\<rparr>)],
          scalarTypes = [(''String'', ())],
          functionIssues = [(''f'', [literalIssue])]\<rparr>"
  have h1: "outcomeOf ?E ?y = Returned (TypeResult (NamedType ''String'' Scalar) []) literalContext"
    by code_simp
  have h2: "outcomeOf ?E ?x = Returned (ErrorsResult [literalIssue]) literalContext"
    by code_simp
  have h3: "deriveFunctionSchema ?E literalDeclaration emptyContext =
      Returned ?res literalContext"
    by code_simp
  have h4: "deriveSchemaFromFunctions (\<lambda>_. ''/home/proj'') literalSource promiseChecker =
     Inr ?schema"
    by code_simp
  have h5: "exportedFunctionDeclarations (children literalSource) = [] @ literalDeclaration # []"
    by code_simp
  have h6: "deriveFunctions ?E [] [] [] emptyContext = Returned ([], []) emptyContext"
    by simp
  have forms: "\<not> isUnsupportedForm ?E 0 \<and> \<not> isArrayForm ?E 0 \<and> isScalarForm ?E 0"
    by code_simp
  have calls: "?y \<in> set (directCalls ?E ?x)"
    by code_simp
  have chain: "callChain ?E (?x # [?y])"
    using calls by simp
  have obj: "reachesObjectStep ?E 2 \<and>
      getObjectTypeInfo ?E 2 [FunctionParameter ''f'' ''x''] = Inr (Some ?info)"
    by code_simp
  have fc: "?x \<in> set (functionCalls ?E literalDeclaration emptyContext)"
    by code_simp
  have env: "\<lparr>typeChecker = promiseChecker, functionsFilePath = fileName literalSource,
      pathDirname = (\<lambda>_. ''/home/proj'')\<rparr> = ?E"
    by (simp add: envOf_def literalSource_def)
  have ctx: "\<lparr>objectTypeDefinitions = [], scalarTypeDefinitions = []\<rparr> = emptyContext"
    by (simp add: emptyContext_def)
  have hA: "outcomeOf ?E ?y =
        Returned (TypeResult (NamedType ''String'' Scalar) []) literalContext \<and>
      \<not> isUnsupportedForm ?E 0 \<and> \<not> isArrayForm ?E 0 \<and> isScalarForm ?E 0"
    using h1 forms by simp
  have k1: "\<exists>nm. nm \<in> fst ` set (scalarTypeDefinitions literalContext)"
    using registry_not_rolled_back [where E = "?E" and t = 0
        and p = "[FunctionParameter ''f'' ''x'', ObjectProperty ''f_arguments_x'' ''a'']"
        and c = "?c0" and d = 1 and r = "TypeResult (NamedType ''String'' Scalar) []"
        and ?c1.0 = literalContext, THEN conjunct1, THEN mp, OF hA]
    by blast
  have hB: "?y \<in> set (directCalls ?E ?x) \<and> reachesObjectStep ?E 2 \<and>
      getObjectTypeInfo ?E 2 [FunctionParameter ''f'' ''x''] = Inr (Some ?info)"
    using calls obj by simp
  have k2: "''f_arguments_x'' \<in> fst ` set (objectTypeDefinitions ?c0)"
    using registry_not_rolled_back [where E = "?E" and t = 2
        and p = "[FunctionParameter ''f'' ''x'']" and c = emptyContext and d = 0
        and y = "?y" and info = "?info", THEN conjunct2, THEN conjunct1, THEN mp, OF hB]
    by (simp add: callContext_def)
  have k3: "keysPreserved ?c0 literalContext"
    using registry_not_rolled_back [where E = "?E" and x = "?y"
        and r = "TypeResult (NamedType ''String'' Scalar) []" and c' = literalContext,
        THEN conjunct2, THEN conjunct2, THEN conjunct1, THEN mp, OF h1]
    by (simp add: callContext_def)
  have hD: "callChain ?E (?x # [?y]) \<and>
      outcomeOf ?E (last (?x # [?y])) =
        Returned (TypeResult (NamedType ''String'' Scalar) []) literalContext \<and>
      outcomeOf ?E ?x = Returned (ErrorsResult [literalIssue]) literalContext"
    using chain h1 h2 by simp
  have k4: "keysPreserved literalContext literalContext"
    by (rule registry_not_rolled_back [where E = "?E" and x = "?x" and xs = "[?y]"
        and ?r1.0 = "TypeResult (NamedType ''String'' Scalar) []" and ?c1.0 = literalContext
        and r = "ErrorsResult [literalIssue]" and c' = literalContext,
        THEN conjunct2, THEN conjunct2, THEN conjunct2, THEN conjunct1, THEN mp, OF hD])
  have hG: "deriveSchemaFromFunctions (\<lambda>_. ''/home/proj'') literalSource promiseChecker =
        Inr ?schema \<and>
      exportedFunctionDeclarations (children literalSource) = [] @ literalDeclaration # [] \<and>
      deriveFunctions ?E [] [] [] emptyContext = Returned ([], []) emptyContext \<and>
      ?x \<in> set (functionCalls ?E literalDeclaration emptyContext) \<and>
      callChain ?E (?x # [?y]) \<and>
      outcomeOf ?E (last (?x # [?y])) =
        Returned (TypeResult (NamedType ''String'' Scalar) []) literalContext"
    using h4 h5 h6 fc chain h1 by simp
  have k5: "fst ` set (objectTypeDefinitions literalContext) \<subseteq> fst ` set (objectTypes ?schema) \<and>
      fst ` set (scalarTypeDefinitions literalContext) \<subseteq> fst ` set (scalarTypes ?schema)"
    by (rule registry_not_rolled_back [where dirname = "\<lambda>_. ''/home/proj''"
        and sf = literalSource and checker = promiseChecker and schema = ?schema
        and pre = "[]" and fd = literalDeclaration and post = "[]" and ?x0.0 = "([], [])"
        and ?c4.0 = emptyContext and y = "?x" and ys = "[?y]"
        and ?r1.0 = "TypeResult (NamedType ''String'' Scalar) []" and ?c1.0 = literalContext,
        unfolded env ctx, THEN conjunct2, THEN conjunct2, THEN conjunct2, THEN conjunct2,
        THEN conjunct2, THEN mp, OF hG])
  show ?thesis using h1 h2 h3 h4 k1 k2 k3 k4 k5 by simp
qed

text \<open>
  C5. A function whose parameter type fails is in the function map of the schema all the
  same when it is declared with an overload signature. \<^verbatim>\<open>type Job = { done:
  Promise<string> }\<close> cannot be derived, so the first declaration of \<^verbatim>\<open>f\<close> is broken
  and \<^verbatim>\<open>f\<close> gets its issue; the failed derivation leaves the empty definition of
  \<^verbatim>\<open>Job\<close> in the registry, so the second declaration of \<^verbatim>\<open>f\<close> finds \<^verbatim>\<open>Job\<close>
  registered, is not broken, and puts \<^verbatim>\<open>f\<close> into the function map. And a function by
  the name \<^verbatim>\<open>__proto__\<close> that is derived without any issue is not in the function map:
  the assignment to that key of a plain object adds no property.
\<close>

theorem broken_function_in_function_map:
  "deriveSchemaFromFunctions (\<lambda>_. ''/home/proj'') overloadSource promiseChecker =
     Inr \<lparr>functionDefs =
            [(''f'', \<lparr>description = None, ndcKind = Procedure,
                      arguments = [\<lparr>argumentName = ''x'', argDescription = None,
                                     argType = NamedType ''Job'' Object\<rparr>],
                      resultType = NamedType ''String'' Scalar\<rparr>)],
          objectTypes = [(''Job'', \<lparr>properties = []\<rparr>)],
          scalarTypes = [(''String'', ())],
          functionIssues = [(''f'', [promiseIssue])]\<rparr> \<and>
   deriveFunctionSchema (envOf promiseChecker)
       (hd (exportedFunctionDeclarations (children overloadSource))) emptyContext =
     Returned \<lparr>resultName = ''f'', resultDefinition = None, resultIssues = [promiseIssue]\<rparr>
       \<lparr>objectTypeDefinitions = [(''Job'', \<lparr>properties = []\<rparr>)],
        scalarTypeDefinitions = [(''String'', ())]\<rparr> \<and>
   deriveFunctionSchema (envOf promiseChecker)
       (hd (exportedFunctionDeclarations (children protoSource))) emptyContext =
     Returned \<lparr>resultName = ''__proto__'',
               resultDefinition =
                 Some \<lparr>description = None, ndcKind = Procedure,
                       arguments = [\<lparr>argumentName = ''x'', argDescription = None,
                                      argType = NamedType ''String'' Scalar\<rparr>],
                       resultType = NamedType ''String'' Scalar\<rparr>,
               resultIssues = []\<rparr>
       \<lparr>objectTypeDefinitions = [], scalarTypeDefinitions = [(''String'', ())]\<rparr> \<and>
   deriveSchemaFromFunctions (\<lambda>_. ''/home/proj'') protoSource promiseChecker =
     Inr \<lparr>functionDefs = [], objectTypes = [], scalarTypes = [(''String'', ())],
          functionIssues = []\<rparr>"
  by (intro conjI; code_simp)




end
